theory Spec2Isabelle
  imports Main "HOL-Library.Code_Target_Numeral"
begin

section \<open>JavaScript values\<close>

text \<open>
  A JavaScript string is a sequence of UTF-16 code units; a code unit is modelled by its
  number. \<open>js\<close> turns an ASCII literal of the theory into such a string, so that
  \<open>js ''keyDown''\<close> stands for the source's \<^verbatim>\<open>'keyDown'\<close>.
\<close>

type_synonym jsstring = "nat list"

definition js :: "string \<Rightarrow> jsstring" where
  "js s = map of_char s"

text \<open>
  The values that travel through the adapters: what \<^verbatim>\<open>JSON.parse\<close> produces, plus
  \<^verbatim>\<open>undefined\<close> and the Numbers that are not finite. A Number is an IEEE 754 double. The
  model holds the doubles whose value is an integer, \<open>Num n\<close> (with \<open>Num 0\<close> for both
  zeros), the two infinities and \<^verbatim>\<open>NaN\<close>. A double with a fractional part is no value of the
  model: no function modelled here computes one, and \<open>JSON_parse\<close> reports a text that
  denotes one as \<open>NotModelled\<close>. An object is the list of its own properties in the order
  JavaScript enumerates them: the keys that are array indices in ascending order, then the
  other keys in the order of their creation.
\<close>

datatype jsval =
    Undefined
  | Null
  | Bool bool
  | NaN
  | Num int
  | Infinity
  | NegInfinity
  | Str jsstring
  | Arr "jsval list"
  | Obj "(jsstring \<times> jsval) list"

text \<open>
  A call that throws is \<open>Inl\<close> of the error, a call that returns is \<open>Inr\<close> of its result
  and the state it leaves. The model keeps no state for a call that has thrown.
\<close>

datatype error = TypeError | InvalidStateError

text \<open>ToBoolean: what \<^verbatim>\<open>if (x)\<close>, \<^verbatim>\<open>!x\<close>, \<^verbatim>\<open>x || y\<close> and \<^verbatim>\<open>x ? a : b\<close> test.\<close>

fun truthy :: "jsval \<Rightarrow> bool" where
  "truthy Undefined = False"
| "truthy Null = False"
| "truthy (Bool b) = b"
| "truthy NaN = False"
| "truthy (Num n) = (n \<noteq> 0)"
| "truthy Infinity = True"
| "truthy NegInfinity = True"
| "truthy (Str s) = (s \<noteq> [])"
| "truthy (Arr vs) = True"
| "truthy (Obj kvs) = True"

text \<open>\<^verbatim>\<open>a || b\<close>: the left operand when it is truthy, the right one otherwise.\<close>

definition js_or :: "jsval \<Rightarrow> jsval \<Rightarrow> jsval" where
  "js_or a b = (if truthy a then a else b)"

text \<open>
  A property read \<^verbatim>\<open>v.k\<close>. On \<^verbatim>\<open>undefined\<close> and \<^verbatim>\<open>null\<close> it throws a TypeError; on an
  object it is the own property, or \<^verbatim>\<open>undefined\<close>; on the other values it is \<^verbatim>\<open>undefined\<close>
  for every key the source reads (none of them is a property of a prototype).
  \<open>js_get\<close> is the read where the receiver cannot be \<^verbatim>\<open>undefined\<close> or \<^verbatim>\<open>null\<close>.
\<close>

fun js_get :: "jsval \<Rightarrow> jsstring \<Rightarrow> jsval" where
  "js_get (Obj kvs) k = (case map_of kvs k of None \<Rightarrow> Undefined | Some v \<Rightarrow> v)"
| "js_get v k = Undefined"

definition get_prop :: "jsval \<Rightarrow> jsstring \<Rightarrow> error + jsval" where
  "get_prop v k = (if v = Undefined \<or> v = Null then Inl TypeError else Inr (js_get v k))"

section \<open>Numbers\<close>

text \<open>
  The Number value for a real number (ECMA-262, 6.1.6.1): the double nearest to it, the one
  with an even significand when two are equally near, and an infinity from
  \<open>2 ^ 1024 - 2 ^ 970\<close> on. The real number is given as the quotient \<open>a / b\<close> of two
  natural numbers, \<open>b\<close> positive.

  \<open>bit_length n\<close> is the number of binary digits of \<open>n\<close>; \<open>binary_exponent a b\<close> is the
  \<open>e\<close> with \<open>2 ^ e \<le> a / b < 2 ^ (e + 1)\<close>. A double with that exponent is a multiple of
  \<open>2 ^ (e - 52)\<close>, and of \<open>2 ^ (- 1074)\<close> below the normal range; \<open>nearest_double a b\<close> is
  the nearest multiple, as the pair of the multiplier and the exponent of the unit.
\<close>

fun bit_length :: "nat \<Rightarrow> nat" where
  "bit_length n = (if n = 0 then 0 else Suc (bit_length (n div 2)))"

definition binary_exponent :: "nat \<Rightarrow> nat \<Rightarrow> int" where
  "binary_exponent a b =
     (let e = int (bit_length a) - int (bit_length b)
      in if b * 2 ^ nat e \<le> a * 2 ^ nat (- e) then e else e - 1)"

definition nearest_double :: "nat \<Rightarrow> nat \<Rightarrow> nat \<times> int" where
  "nearest_double a b =
     (let t = max (binary_exponent a b) (- 1022) - 52;
          N = a * 2 ^ nat (- t);
          D = b * 2 ^ nat t;
          m = N div D;
          r = N mod D
      in (if D < 2 * r \<or> (2 * r = D \<and> odd m) then m + 1 else m, t))"

text \<open>
  What the model makes of the nearest double: an integer value, a value with a fractional
  part, or a value beyond the largest double, \<open>2 ^ 1024 - 2 ^ 971\<close>.
\<close>

datatype number_value = IntValue nat | Fraction | Overflow

definition round_to_double :: "nat \<Rightarrow> nat \<Rightarrow> number_value" where
  "round_to_double a b =
     (case nearest_double a b of
        (m, t) \<Rightarrow>
          if 0 \<le> t then (if 2 ^ 1024 \<le> m * 2 ^ nat t then Overflow else IntValue (m * 2 ^ nat t))
          else if 2 ^ nat (- t) dvd m then IntValue (m div 2 ^ nat (- t))
          else Fraction)"

text \<open>The natural numbers that are doubles: every one below \<open>2 ^ 53\<close>, and fewer beyond.\<close>

definition is_double :: "nat \<Rightarrow> bool" where
  "is_double x = (round_to_double x 1 = IntValue x)"

text \<open>
  Number::toString (ECMA-262, 6.1.6.1.20) of a double \<open>x\<close> that is a natural number. The
  standard takes integers \<open>n\<close>, \<open>k\<close> and \<open>s\<close> with \<open>k\<close> digits in \<open>s\<close>, as few as possible, such
  that \<open>s * 10 ^ (n - k)\<close> has the Number value \<open>x\<close>, and among several \<open>s\<close> the one that
  makes \<open>s * 10 ^ (n - k)\<close> nearest to \<open>x\<close>, the even one of two (the choice its note
  recommends, and the engines make). \<open>nearest_decimal x p\<close> looks among the multiples of
  \<open>10 ^ p\<close> next to \<open>x\<close>; \<open>shortest_decimal x p\<close> tries \<open>p\<close>, then \<open>p - 1\<close>, down to \<open>0\<close>,
  where \<open>x\<close> itself is found. The number written is \<open>s * 10 ^ (n - k)\<close>: with all its
  digits when they are at most 21, otherwise as \<^verbatim>\<open>d.ddde+x\<close>, without the zeros that end it.
\<close>

fun digits_of :: "nat \<Rightarrow> jsstring" where
  "digits_of n = (if n < 10 then [48 + n] else digits_of (n div 10) @ [48 + n mod 10])"

definition nearest_decimal :: "nat \<Rightarrow> nat \<Rightarrow> nat option" where
  "nearest_decimal x p =
     (let f = x div 10 ^ p;
          lo = f * 10 ^ p;
          hi = lo + 10 ^ p;
          lo_ok = (round_to_double lo 1 = IntValue x);
          hi_ok = (round_to_double hi 1 = IntValue x)
      in if lo_ok \<and> hi_ok
         then Some (if x - lo < hi - x \<or> (x - lo = hi - x \<and> even f) then lo else hi)
         else if lo_ok then Some lo
         else if hi_ok then Some hi
         else None)"

fun shortest_decimal :: "nat \<Rightarrow> nat \<Rightarrow> nat" where
  "shortest_decimal x 0 = (case nearest_decimal x 0 of None \<Rightarrow> x | Some v \<Rightarrow> v)"
| "shortest_decimal x (Suc p) =
     (case nearest_decimal x (Suc p) of None \<Rightarrow> shortest_decimal x p | Some v \<Rightarrow> v)"

definition strip_zeros :: "jsstring \<Rightarrow> jsstring" where
  "strip_zeros ds = rev (dropWhile (\<lambda>c. c = 48) (rev ds))"

definition unsigned_to_string :: "nat \<Rightarrow> jsstring" where
  "unsigned_to_string x =
     (let ds = digits_of (shortest_decimal x (length (digits_of x) - 1))
      in if length ds \<le> 21 then ds
         else case strip_zeros ds of
                [] \<Rightarrow> []
              | d # rest \<Rightarrow>
                  d # (if rest = [] then [] else 46 # rest) @ [101, 43]
                    @ digits_of (length ds - 1))"

definition number_to_string :: "int \<Rightarrow> jsstring" where
  "number_to_string n =
     (if n < 0 then 45 # unsigned_to_string (nat (- n)) else unsigned_to_string (nat n))"

section \<open>JSON.stringify\<close>

text \<open>
  \<^verbatim>\<open>JSON.stringify(value)\<close> with no replacer and no indentation, after ECMA-262
  (SerializeJSONProperty, SerializeJSONObject, SerializeJSONArray, QuoteJSONString).
\<close>

definition hex_digit :: "nat \<Rightarrow> nat" where
  "hex_digit d = (if d < 10 then 48 + d else 87 + d)"

text \<open>UnicodeEscape: \<^verbatim>\<open>\u\<close> and four lower-case hexadecimal digits.\<close>

definition unicode_escape :: "nat \<Rightarrow> jsstring" where
  "unicode_escape c =
     [92, 117, hex_digit (c div 4096 mod 16), hex_digit (c div 256 mod 16),
      hex_digit (c div 16 mod 16), hex_digit (c mod 16)]"

definition is_high_surrogate :: "nat \<Rightarrow> bool" where
  "is_high_surrogate c = (55296 \<le> c \<and> c \<le> 56319)"

definition is_low_surrogate :: "nat \<Rightarrow> bool" where
  "is_low_surrogate c = (56320 \<le> c \<and> c \<le> 57343)"

text \<open>
  One code unit of a quoted string: the two-character escapes of the table
  (\<^verbatim>\<open>\b \t \n \f \r \" \\\<close>), a \<^verbatim>\<open>\uXXXX\<close> escape for the other control characters and
  for a surrogate that is not part of a pair, the code unit itself otherwise.
\<close>

definition quote_unit :: "nat \<Rightarrow> jsstring" where
  "quote_unit c =
     (if c = 8 then [92, 98]
      else if c = 9 then [92, 116]
      else if c = 10 then [92, 110]
      else if c = 12 then [92, 102]
      else if c = 13 then [92, 114]
      else if c = 34 then [92, 34]
      else if c = 92 then [92, 92]
      else if c < 32 \<or> is_high_surrogate c \<or> is_low_surrogate c then unicode_escape c
      else [c])"

fun quote_body :: "jsstring \<Rightarrow> jsstring" where
  "quote_body [] = []"
| "quote_body [c] = quote_unit c"
| "quote_body (c # d # cs) =
     (if is_high_surrogate c \<and> is_low_surrogate d then c # d # quote_body cs
      else quote_unit c @ quote_body (d # cs))"

definition QuoteJSONString :: "jsstring \<Rightarrow> jsstring" where
  "QuoteJSONString s = [34] @ quote_body s @ [34]"

text \<open>\<^verbatim>\<open>parts.join(',')\<close>\<close>

fun join_comma :: "jsstring list \<Rightarrow> jsstring" where
  "join_comma [] = []"
| "join_comma [p] = p"
| "join_comma (p # q # ps) = p @ [44] @ join_comma (q # ps)"

text \<open>
  SerializeJSONProperty gives \<^verbatim>\<open>undefined\<close> (here \<open>None\<close>) for \<^verbatim>\<open>undefined\<close>; an object
  leaves out the properties whose value serializes to \<^verbatim>\<open>undefined\<close>, an array writes
  \<^verbatim>\<open>null\<close> for them; a Number that is not finite is written \<^verbatim>\<open>null\<close>.
\<close>

fun SerializeJSONProperty :: "jsval \<Rightarrow> jsstring option"
  and SerializeJSONMembers :: "(jsstring \<times> jsval) list \<Rightarrow> jsstring list"
  and SerializeJSONElements :: "jsval list \<Rightarrow> jsstring list" where
  "SerializeJSONProperty Undefined = None"
| "SerializeJSONProperty Null = Some (js ''null'')"
| "SerializeJSONProperty (Bool b) = Some (if b then js ''true'' else js ''false'')"
| "SerializeJSONProperty NaN = Some (js ''null'')"
| "SerializeJSONProperty (Num n) = Some (number_to_string n)"
| "SerializeJSONProperty Infinity = Some (js ''null'')"
| "SerializeJSONProperty NegInfinity = Some (js ''null'')"
| "SerializeJSONProperty (Str s) = Some (QuoteJSONString s)"
| "SerializeJSONProperty (Arr vs) = Some ([91] @ join_comma (SerializeJSONElements vs) @ [93])"
| "SerializeJSONProperty (Obj kvs) = Some ([123] @ join_comma (SerializeJSONMembers kvs) @ [125])"
| "SerializeJSONMembers [] = []"
| "SerializeJSONMembers ((k, v) # kvs) =
     (case SerializeJSONProperty v of
        None \<Rightarrow> SerializeJSONMembers kvs
      | Some s \<Rightarrow> (QuoteJSONString k @ [58] @ s) # SerializeJSONMembers kvs)"
| "SerializeJSONElements [] = []"
| "SerializeJSONElements (v # vs) =
     (case SerializeJSONProperty v of None \<Rightarrow> js ''null'' | Some s \<Rightarrow> s)
       # SerializeJSONElements vs"

text \<open>
  \<^verbatim>\<open>websocket.send(JSON.stringify(json))\<close>: the argument of \<^verbatim>\<open>send\<close> is converted to a
  string, so the \<^verbatim>\<open>undefined\<close> that \<^verbatim>\<open>JSON.stringify(undefined)\<close> returns would travel as the
  text \<^verbatim>\<open>undefined\<close>. Every caller in the source passes an object literal.
\<close>

definition JSON_stringify :: "jsval \<Rightarrow> jsstring" where
  "JSON_stringify v = (case SerializeJSONProperty v of None \<Rightarrow> js ''undefined'' | Some s \<Rightarrow> s)"

section \<open>JSON.parse\<close>

text \<open>
  \<^verbatim>\<open>JSON.parse(text)\<close> with no reviver, after ECMA-262 and the JSON grammar (ECMA-404), as
  a recursive-descent parser. The parser takes fuel, one unit for every value and every
  member or element it enters; \<open>JSON_parse\<close> hands it more fuel than the text has code
  units. A number whose Number value has a fractional part is no value of the model: its
  text is reported as \<open>NotModelled\<close>.
\<close>

datatype parse_error = SyntaxError | NotModelled

datatype 'a outcome = OutOfFuel | Throws parse_error | Returns 'a

definition and_then :: "'a outcome \<Rightarrow> ('a \<Rightarrow> 'b outcome) \<Rightarrow> 'b outcome" where
  "and_then m f = (case m of OutOfFuel \<Rightarrow> OutOfFuel | Throws e \<Rightarrow> Throws e | Returns x \<Rightarrow> f x)"

text \<open>JSON white space: tab, line feed, carriage return, space.\<close>

definition is_json_ws :: "nat \<Rightarrow> bool" where
  "is_json_ws c = (c = 9 \<or> c = 10 \<or> c = 13 \<or> c = 32)"

definition skip_ws :: "jsstring \<Rightarrow> jsstring" where
  "skip_ws s = dropWhile is_json_ws s"

definition is_digit :: "nat \<Rightarrow> bool" where
  "is_digit c = (48 \<le> c \<and> c \<le> 57)"

fun digits_to_nat :: "nat \<Rightarrow> jsstring \<Rightarrow> nat" where
  "digits_to_nat acc [] = acc"
| "digits_to_nat acc (c # cs) = digits_to_nat (acc * 10 + (c - 48)) cs"

text \<open>
  A number: an optional minus sign; \<^verbatim>\<open>0\<close> or a run of digits that does not start with
  \<^verbatim>\<open>0\<close>; an optional fraction, a point and at least one digit; an optional exponent,
  \<^verbatim>\<open>e\<close> or \<^verbatim>\<open>E\<close>, an optional sign and at least one digit. Its value is the Number value
  of the decimal, \<open>ds * 10 ^ x\<close> for the digits \<open>ds\<close> of the integer part and the fraction
  and the exponent \<open>x\<close> less the number of digits of the fraction.
\<close>

definition number_result :: "bool \<Rightarrow> jsstring \<Rightarrow> int \<Rightarrow> jsstring \<Rightarrow> (jsval \<times> jsstring) outcome" where
  "number_result negative ds x r =
     (case round_to_double (digits_to_nat 0 ds * 10 ^ nat x) (10 ^ nat (- x)) of
        IntValue n \<Rightarrow> Returns (Num (if negative then - int n else int n), r)
      | Fraction \<Rightarrow> Throws NotModelled
      | Overflow \<Rightarrow> Returns (if negative then NegInfinity else Infinity, r))"

definition parse_exponent :: "bool \<Rightarrow> jsstring \<Rightarrow> nat \<Rightarrow> jsstring \<Rightarrow> (jsval \<times> jsstring) outcome" where
  "parse_exponent negative ds fl r =
     (if r \<noteq> [] \<and> (hd r = 101 \<or> hd r = 69) then
        (let s = tl r;
             minus = (s \<noteq> [] \<and> hd s = 45);
             s1 = (if s \<noteq> [] \<and> (hd s = 43 \<or> hd s = 45) then tl s else s);
             ed = takeWhile is_digit s1;
             x = int (digits_to_nat 0 ed)
         in if ed = [] then Throws SyntaxError
            else number_result negative ds ((if minus then - x else x) - int fl)
                   (dropWhile is_digit s1))
      else number_result negative ds (- int fl) r)"

definition parse_fraction :: "bool \<Rightarrow> jsstring \<Rightarrow> jsstring \<Rightarrow> (jsval \<times> jsstring) outcome" where
  "parse_fraction negative ds r =
     (if r \<noteq> [] \<and> hd r = 46 then
        (let fd = takeWhile is_digit (tl r)
         in if fd = [] then Throws SyntaxError
            else parse_exponent negative (ds @ fd) (length fd) (dropWhile is_digit (tl r)))
      else parse_exponent negative ds 0 r)"

definition parse_unsigned :: "bool \<Rightarrow> jsstring \<Rightarrow> (jsval \<times> jsstring) outcome" where
  "parse_unsigned negative s =
     (case s of
        [] \<Rightarrow> Throws SyntaxError
      | c # cs \<Rightarrow>
          if c = 48 then parse_fraction negative [48] cs
          else if is_digit c then
            parse_fraction negative (takeWhile is_digit s) (dropWhile is_digit s)
          else Throws SyntaxError)"

definition parse_number :: "jsstring \<Rightarrow> (jsval \<times> jsstring) outcome" where
  "parse_number s =
     (if s \<noteq> [] \<and> hd s = 45 then parse_unsigned True (tl s) else parse_unsigned False s)"

definition hex_value :: "nat \<Rightarrow> nat option" where
  "hex_value c =
     (if 48 \<le> c \<and> c \<le> 57 then Some (c - 48)
      else if 97 \<le> c \<and> c \<le> 102 then Some (c - 87)
      else if 65 \<le> c \<and> c \<le> 70 then Some (c - 55)
      else None)"

definition hex4 :: "nat \<Rightarrow> nat \<Rightarrow> nat \<Rightarrow> nat \<Rightarrow> nat option" where
  "hex4 a b c d =
     (case (hex_value a, hex_value b, hex_value c, hex_value d) of
        (Some x, Some y, Some z, Some w) \<Rightarrow> Some (((x * 16 + y) * 16 + z) * 16 + w)
      | _ \<Rightarrow> None)"

text \<open>The character a two-character escape stands for: \<^verbatim>\<open>\" \\ \/ \b \f \n \r \t\<close>.\<close>

definition simple_escape :: "nat \<Rightarrow> nat option" where
  "simple_escape e =
     (if e = 34 then Some 34 else if e = 92 then Some 92 else if e = 47 then Some 47
      else if e = 98 then Some 8 else if e = 102 then Some 12 else if e = 110 then Some 10
      else if e = 114 then Some 13 else if e = 116 then Some 9 else None)"

definition prepend :: "nat \<Rightarrow> (jsstring \<times> jsstring) outcome \<Rightarrow> (jsstring \<times> jsstring) outcome" where
  "prepend c m = and_then m (\<lambda>(s, r). Returns (c # s, r))"

text \<open>
  The characters of a string after its opening quote, up to the closing quote: the string
  and the rest of the text. A control character may not stand unescaped.
\<close>

fun parse_string_body :: "jsstring \<Rightarrow> (jsstring \<times> jsstring) outcome" where
  "parse_string_body [] = Throws SyntaxError"
| "parse_string_body (c # cs) =
     (if c = 34 then Returns ([], cs)
      else if c = 92 then
        (case cs of
           [] \<Rightarrow> Throws SyntaxError
         | e # r \<Rightarrow>
             if e = 117 then
               (case r of
                  h1 # h2 # h3 # h4 # r' \<Rightarrow>
                    (case hex4 h1 h2 h3 h4 of
                       None \<Rightarrow> Throws SyntaxError
                     | Some u \<Rightarrow> prepend u (parse_string_body r'))
                | _ \<Rightarrow> Throws SyntaxError)
             else
               (case simple_escape e of
                  None \<Rightarrow> Throws SyntaxError
                | Some d \<Rightarrow> prepend d (parse_string_body r)))
      else if c < 32 then Throws SyntaxError
      else prepend c (parse_string_body cs))"

definition parse_string :: "jsstring \<Rightarrow> (jsstring \<times> jsstring) outcome" where
  "parse_string s =
     (case s of [] \<Rightarrow> Throws SyntaxError
      | c # cs \<Rightarrow> if c = 34 then parse_string_body cs else Throws SyntaxError)"

text \<open>
  The order of the own property keys of an object (OrdinaryOwnPropertyKeys): the array
  indices, the canonical decimal numerals up to \<open>2 ^ 32 - 2\<close>, in ascending order, then the
  other keys in the order of their creation. \<open>precedes k k'\<close> says that a new key \<open>k\<close>
  takes its place before the key \<open>k'\<close> that is already there.
\<close>

definition is_array_index :: "jsstring \<Rightarrow> bool" where
  "is_array_index k =
     (k \<noteq> [] \<and> list_all is_digit k \<and> (k = [48] \<or> hd k \<noteq> 48)
      \<and> digits_to_nat 0 k < 4294967295)"

definition precedes :: "jsstring \<Rightarrow> jsstring \<Rightarrow> bool" where
  "precedes k k' =
     (if is_array_index k' then is_array_index k \<and> digits_to_nat 0 k < digits_to_nat 0 k'
      else is_array_index k)"

definition property_order :: "jsstring list \<Rightarrow> bool" where
  "property_order ks = (distinct ks \<and> sorted_wrt (\<lambda>k k'. \<not> precedes k' k) ks)"

text \<open>
  CreateDataProperty on the object under construction: a key that is already there keeps
  its place and takes the new value, a new key takes its place in the order of the keys.
\<close>

fun define_property :: "(jsstring \<times> jsval) list \<Rightarrow> jsstring \<Rightarrow> jsval \<Rightarrow> (jsstring \<times> jsval) list" where
  "define_property [] k v = [(k, v)]"
| "define_property ((k', v') # kvs) k v =
     (if k' = k then (k, v) # kvs
      else if precedes k k' then (k, v) # (k', v') # kvs
      else (k', v') # define_property kvs k v)"

definition literal :: "jsstring \<Rightarrow> jsval \<Rightarrow> jsstring \<Rightarrow> (jsval \<times> jsstring) outcome" where
  "literal word v s =
     (if take (length word) s = word then Returns (v, drop (length word) s)
      else Throws SyntaxError)"

text \<open>
  \<open>parse_value\<close> reads a value and the white space around it. \<open>parse_members\<close> reads the
  members of an object after its first key has been found to start, up to the closing
  brace; \<open>parse_elements\<close> reads the elements of an array up to the closing bracket.
\<close>

fun parse_value :: "nat \<Rightarrow> jsstring \<Rightarrow> (jsval \<times> jsstring) outcome"
  and parse_members ::
    "nat \<Rightarrow> (jsstring \<times> jsval) list \<Rightarrow> jsstring \<Rightarrow> (jsval \<times> jsstring) outcome"
  and parse_elements :: "nat \<Rightarrow> jsval list \<Rightarrow> jsstring \<Rightarrow> (jsval \<times> jsstring) outcome" where
  "parse_value 0 s = OutOfFuel"
| "parse_value (Suc fuel) s =
     and_then
       (case skip_ws s of
          [] \<Rightarrow> Throws SyntaxError
        | c # cs \<Rightarrow>
            if c = 123 then
              (case skip_ws cs of
                 [] \<Rightarrow> Throws SyntaxError
               | d # ds \<Rightarrow> if d = 125 then Returns (Obj [], ds)
                           else parse_members fuel [] (d # ds))
            else if c = 91 then
              (case skip_ws cs of
                 [] \<Rightarrow> Throws SyntaxError
               | d # ds \<Rightarrow> if d = 93 then Returns (Arr [], ds)
                           else parse_elements fuel [] (d # ds))
            else if c = 34 then and_then (parse_string_body cs) (\<lambda>(str, r). Returns (Str str, r))
            else if c = 116 then literal (js ''true'') (Bool True) (c # cs)
            else if c = 102 then literal (js ''false'') (Bool False) (c # cs)
            else if c = 110 then literal (js ''null'') Null (c # cs)
            else parse_number (c # cs))
       (\<lambda>(v, r). Returns (v, skip_ws r))"
| "parse_members 0 acc s = OutOfFuel"
| "parse_members (Suc fuel) acc s =
     and_then (parse_string (skip_ws s)) (\<lambda>(k, r).
       case skip_ws r of
         [] \<Rightarrow> Throws SyntaxError
       | c # cs \<Rightarrow>
           if c = 58 then
             and_then (parse_value fuel cs) (\<lambda>(v, r').
               case r' of
                 [] \<Rightarrow> Throws SyntaxError
               | d # ds \<Rightarrow>
                   if d = 44 then parse_members fuel (define_property acc k v) ds
                   else if d = 125 then Returns (Obj (define_property acc k v), ds)
                   else Throws SyntaxError)
           else Throws SyntaxError)"
| "parse_elements 0 acc s = OutOfFuel"
| "parse_elements (Suc fuel) acc s =
     and_then (parse_value fuel s) (\<lambda>(v, r).
       case r of
         [] \<Rightarrow> Throws SyntaxError
       | d # ds \<Rightarrow>
           if d = 44 then parse_elements fuel (acc @ [v]) ds
           else if d = 93 then Returns (Arr (acc @ [v]), ds)
           else Throws SyntaxError)"

definition JSON_parse :: "jsstring \<Rightarrow> jsval outcome" where
  "JSON_parse text =
     and_then (parse_value (Suc (length text)) text) (\<lambda>(v, r).
       if r = [] then Returns v else Throws SyntaxError)"

text \<open>
  The values that have a JSON text of their own: no \<^verbatim>\<open>undefined\<close> and no Number that is not
  finite at any depth; a Number is a double, and the keys of an object are in the order of
  own property keys, none of them twice.
\<close>

fun json_data :: "jsval \<Rightarrow> bool"
  and json_members :: "(jsstring \<times> jsval) list \<Rightarrow> bool"
  and json_elements :: "jsval list \<Rightarrow> bool" where
  "json_data Undefined = False"
| "json_data Null = True"
| "json_data (Bool b) = True"
| "json_data NaN = False"
| "json_data (Num n) = is_double (nat \<bar>n\<bar>)"
| "json_data Infinity = False"
| "json_data NegInfinity = False"
| "json_data (Str s) = True"
| "json_data (Arr vs) = json_elements vs"
| "json_data (Obj kvs) = (property_order (map fst kvs) \<and> json_members kvs)"
| "json_members [] = True"
| "json_members ((k, v) # kvs) = (json_data v \<and> json_members kvs)"
| "json_elements [] = True"
| "json_elements (v # vs) = (json_data v \<and> json_elements vs)"

section \<open>The WebSocket of an adapter\<close>

text \<open>
  The socket object an adapter holds in \<^verbatim>\<open>this.websocket\<close>: its \<^verbatim>\<open>readyState\<close> and the
  frames handed to the network so far, oldest first. \<^verbatim>\<open>send\<close> throws an
  InvalidStateError while the socket is connecting, transmits when it is open and drops
  the data when it is closing or closed.
\<close>

datatype readyState = CONNECTING | OPEN | CLOSING | CLOSED

record WebSocket =
  readyState :: readyState
  transmitted :: "jsstring list"

definition ws_send :: "WebSocket \<Rightarrow> jsstring \<Rightarrow> error + WebSocket" where
  "ws_send ws frame =
     (case readyState ws of
        CONNECTING \<Rightarrow> Inl InvalidStateError
      | OPEN \<Rightarrow> Inr (ws\<lparr>transmitted := transmitted ws @ [frame]\<rparr>)
      | CLOSING \<Rightarrow> Inr ws
      | CLOSED \<Rightarrow> Inr ws)"

section \<open>The Stream Deck library: constants\<close>

text \<open>
  \<^verbatim>\<open>const EventsReceived = Object.freeze({ SETTINGS: 'didReceiveSettings', ... })\<close>:
  the sixteen entries of the table, in its order.
\<close>

definition SETTINGS :: jsstring where
  "SETTINGS = js ''didReceiveSettings''"

definition GLOBAL_SETTINGS :: jsstring where
  "GLOBAL_SETTINGS = js ''didReceiveGlobalSettings''"

definition KEY_DOWN :: jsstring where
  "KEY_DOWN = js ''keyDown''"

definition KEY_UP :: jsstring where
  "KEY_UP = js ''keyUp''"

definition WILL_APPEAR :: jsstring where
  "WILL_APPEAR = js ''willAppear''"

definition WILL_DISAPPEAR :: jsstring where
  "WILL_DISAPPEAR = js ''willDisappear''"

definition TITLE_PARAMETERS_DID_CHANGE :: jsstring where
  "TITLE_PARAMETERS_DID_CHANGE = js ''titleParametersDidChange''"

definition DEVICE_DID_CONNECT :: jsstring where
  "DEVICE_DID_CONNECT = js ''deviceDidConnect''"

definition DEVICE_DID_DISCONNECT :: jsstring where
  "DEVICE_DID_DISCONNECT = js ''deviceDidDisconnect''"

definition APPLICATION_DID_LAUNCH :: jsstring where
  "APPLICATION_DID_LAUNCH = js ''applicationDidLaunch''"

definition APPLICATION_DID_TERMINATE :: jsstring where
  "APPLICATION_DID_TERMINATE = js ''applicationDidTerminate''"

definition SYSTEM_DID_WAKE_UP :: jsstring where
  "SYSTEM_DID_WAKE_UP = js ''systemDidWakeUp''"

definition PROPERTY_INSPECTOR_DID_APPEAR :: jsstring where
  "PROPERTY_INSPECTOR_DID_APPEAR = js ''propertyInspectorDidAppear''"

definition PROPERTY_INSPECTOR_DID_DISAPPEAR :: jsstring where
  "PROPERTY_INSPECTOR_DID_DISAPPEAR = js ''propertyInspectorDidDisappear''"

definition SEND_TO_PLUGIN :: jsstring where
  "SEND_TO_PLUGIN = js ''sendToPlugin''"

definition SEND_TO_PROPERTY_INSPECTOR :: jsstring where
  "SEND_TO_PROPERTY_INSPECTOR = js ''sendToPropertyInspector''"

definition EventsReceived :: "jsstring list" where
  "EventsReceived =
     [SETTINGS,
      GLOBAL_SETTINGS,
      KEY_DOWN,
      KEY_UP,
      WILL_APPEAR,
      WILL_DISAPPEAR,
      TITLE_PARAMETERS_DID_CHANGE,
      DEVICE_DID_CONNECT,
      DEVICE_DID_DISCONNECT,
      APPLICATION_DID_LAUNCH,
      APPLICATION_DID_TERMINATE,
      SYSTEM_DID_WAKE_UP,
      PROPERTY_INSPECTOR_DID_APPEAR,
      PROPERTY_INSPECTOR_DID_DISAPPEAR,
      SEND_TO_PLUGIN,
      SEND_TO_PROPERTY_INSPECTOR]"

text \<open>
  \<^verbatim>\<open>const EventsSent = Object.freeze({ SET_SETTINGS: 'setSettings', ... })\<close>. Its last two
  entries, \<^verbatim>\<open>SEND_TO_PLUGIN\<close> and \<^verbatim>\<open>SEND_TO_PROPERTY_INSPECTOR\<close>, carry the same strings as
  the entries of these names in \<^verbatim>\<open>EventsReceived\<close>, whose constants stand for both.
\<close>

definition SET_SETTINGS :: jsstring where
  "SET_SETTINGS = js ''setSettings''"

definition GET_SETTINGS :: jsstring where
  "GET_SETTINGS = js ''getSettings''"

definition SET_GLOBAL_SETTINGS :: jsstring where
  "SET_GLOBAL_SETTINGS = js ''setGlobalSettings''"

definition GET_GLOBAL_SETTINGS :: jsstring where
  "GET_GLOBAL_SETTINGS = js ''getGlobalSettings''"

definition OPEN_URL :: jsstring where
  "OPEN_URL = js ''openUrl''"

definition LOG_MESSAGE :: jsstring where
  "LOG_MESSAGE = js ''logMessage''"

definition SET_TITLE :: jsstring where
  "SET_TITLE = js ''setTitle''"

definition SET_IMAGE :: jsstring where
  "SET_IMAGE = js ''setImage''"

definition SET_STATE :: jsstring where
  "SET_STATE = js ''setState''"

definition SHOW_ALERT :: jsstring where
  "SHOW_ALERT = js ''showAlert''"

definition SHOW_OK :: jsstring where
  "SHOW_OK = js ''showOk''"

text \<open>\<^verbatim>\<open>DestinationEnum.HARDWARE_AND_SOFTWARE\<close>\<close>

definition HARDWARE_AND_SOFTWARE :: jsval where
  "HARDWARE_AND_SOFTWARE = Num 0"

section \<open>The adapters of the library\<close>

text \<open>
  Both classes hold \<^verbatim>\<open>websocket\<close>, \<^verbatim>\<open>registerEventName\<close>, \<^verbatim>\<open>info\<close> and \<^verbatim>\<open>actionInfo\<close>;
  StreamDeckPlugin adds \<^verbatim>\<open>pluginUUID\<close>, StreamDeckPropertyInspector adds \<^verbatim>\<open>uuid\<close>.
  \<open>None\<close> is the \<^verbatim>\<open>null\<close> socket of the constructor.
\<close>

record adapter =
  websocket :: "WebSocket option"
  registerEventName :: jsval
  info :: jsval
  actionInfo :: jsval

record StreamDeckPlugin = adapter +
  pluginUUID :: jsval

record StreamDeckPropertyInspector = adapter +
  uuid :: jsval

definition Plugin_constructor :: StreamDeckPlugin where
  "Plugin_constructor =
     \<lparr>websocket = None, registerEventName = Null, info = Null, actionInfo = Null,
      pluginUUID = Null\<rparr>"

definition PI_constructor :: StreamDeckPropertyInspector where
  "PI_constructor =
     \<lparr>websocket = None, registerEventName = Null, info = Null, actionInfo = Null,
      uuid = Null\<rparr>"

text \<open>
  \<^verbatim>\<open>
  connect(inPort, inPluginUUID, inRegisterEvent, inInfo, inActionInfo) {
      this.pluginUUID = inPluginUUID;
      this.registerEventName = inRegisterEvent;
      this.info = inInfo ? JSON.parse(inInfo) : null;
      this.actionInfo = inActionInfo ? JSON.parse(inActionInfo) : null;
      this.websocket = new WebSocket('ws://127.0.0.1:' + inPort);
      ...
  }
  \<close>
  (\<^verbatim>\<open>this.uuid = inPropertyInspectorUUID\<close> in StreamDeckPropertyInspector). \<open>parsedInfo\<close> and
  \<open>parsedActionInfo\<close> are the values of the two conditional expressions. A new socket is
  connecting and has transmitted nothing.
\<close>

definition Plugin_connect ::
  "jsval \<Rightarrow> jsval \<Rightarrow> jsval \<Rightarrow> jsval \<Rightarrow> StreamDeckPlugin \<Rightarrow> StreamDeckPlugin" where
  "Plugin_connect inPluginUUID inRegisterEvent parsedInfo parsedActionInfo this =
     this\<lparr>pluginUUID := inPluginUUID, registerEventName := inRegisterEvent, info := parsedInfo,
          actionInfo := parsedActionInfo,
          websocket := Some \<lparr>readyState = CONNECTING, transmitted = []\<rparr>\<rparr>"

definition PI_connect ::
  "jsval \<Rightarrow> jsval \<Rightarrow> jsval \<Rightarrow> jsval \<Rightarrow> StreamDeckPropertyInspector
     \<Rightarrow> StreamDeckPropertyInspector" where
  "PI_connect inPropertyInspectorUUID inRegisterEvent parsedInfo parsedActionInfo this =
     this\<lparr>uuid := inPropertyInspectorUUID, registerEventName := inRegisterEvent,
          info := parsedInfo, actionInfo := parsedActionInfo,
          websocket := Some \<lparr>readyState = CONNECTING, transmitted = []\<rparr>\<rparr>"

text \<open>
  \<^verbatim>\<open>
  send(json) {
      if (this.websocket && this.websocket.readyState === WebSocket.OPEN) {
          this.websocket.send(JSON.stringify(json));
      }
  }
  \<close>
  The method has the same text in both classes.
\<close>

definition send :: "'a adapter_scheme \<Rightarrow> jsval \<Rightarrow> error + 'a adapter_scheme" where
  "send this json =
     (case websocket this of
        None \<Rightarrow> Inr this
      | Some ws \<Rightarrow>
          if readyState ws = OPEN then
            (case ws_send ws (JSON_stringify json) of
               Inl e \<Rightarrow> Inl e
             | Inr ws' \<Rightarrow> Inr (this\<lparr>websocket := Some ws'\<rparr>))
          else Inr this)"

text \<open>
  \<^verbatim>\<open>
  register() {
      const json = { event: this.registerEventName, uuid: this.pluginUUID };
      this.send(json);
  }
  \<close>
  (\<^verbatim>\<open>uuid: this.uuid\<close> in StreamDeckPropertyInspector).
\<close>

definition Plugin_register :: "StreamDeckPlugin \<Rightarrow> error + StreamDeckPlugin" where
  "Plugin_register this =
     send this (Obj [(js ''event'', registerEventName this), (js ''uuid'', pluginUUID this)])"

definition PI_register :: "StreamDeckPropertyInspector \<Rightarrow> error + StreamDeckPropertyInspector" where
  "PI_register this =
     send this (Obj [(js ''event'', registerEventName this), (js ''uuid'', uuid this)])"

subsection \<open>Outbound helpers of StreamDeckPlugin\<close>

definition Plugin_setSettings :: "StreamDeckPlugin \<Rightarrow> jsval \<Rightarrow> jsval \<Rightarrow> error + StreamDeckPlugin" where
  "Plugin_setSettings this context settings =
     send this (Obj [(js ''event'', Str SET_SETTINGS), (js ''context'', context),
                     (js ''payload'', settings)])"

definition Plugin_getSettings :: "StreamDeckPlugin \<Rightarrow> jsval \<Rightarrow> error + StreamDeckPlugin" where
  "Plugin_getSettings this context =
     send this (Obj [(js ''event'', Str GET_SETTINGS), (js ''context'', context)])"

definition Plugin_setGlobalSettings :: "StreamDeckPlugin \<Rightarrow> jsval \<Rightarrow> error + StreamDeckPlugin" where
  "Plugin_setGlobalSettings this settings =
     send this (Obj [(js ''event'', Str SET_GLOBAL_SETTINGS), (js ''context'', pluginUUID this),
                     (js ''payload'', settings)])"

definition Plugin_getGlobalSettings :: "StreamDeckPlugin \<Rightarrow> error + StreamDeckPlugin" where
  "Plugin_getGlobalSettings this =
     send this (Obj [(js ''event'', Str GET_GLOBAL_SETTINGS), (js ''context'', pluginUUID this)])"

definition Plugin_openUrl :: "StreamDeckPlugin \<Rightarrow> jsval \<Rightarrow> error + StreamDeckPlugin" where
  "Plugin_openUrl this url =
     send this (Obj [(js ''event'', Str OPEN_URL), (js ''payload'', Obj [(js ''url'', url)])])"

definition Plugin_logMessage :: "StreamDeckPlugin \<Rightarrow> jsval \<Rightarrow> error + StreamDeckPlugin" where
  "Plugin_logMessage this message =
     send this (Obj [(js ''event'', Str LOG_MESSAGE),
                     (js ''payload'', Obj [(js ''message'', message)])])"

text \<open>
  \<^verbatim>\<open>
  setTitle(context, title, target = DestinationEnum.HARDWARE_AND_SOFTWARE, state = null) {
      const payload = { title: title, target: target };
      if (state !== null) { payload.state = state; }
      this.send({ event: EventsSent.SET_TITLE, context: context, payload: payload });
  }
  \<close>
  A default value stands in for an argument that is \<^verbatim>\<open>undefined\<close>.
\<close>

definition default_param :: "jsval \<Rightarrow> jsval \<Rightarrow> jsval" where
  "default_param arg dflt = (if arg = Undefined then dflt else arg)"

definition Plugin_setTitle ::
  "StreamDeckPlugin \<Rightarrow> jsval \<Rightarrow> jsval \<Rightarrow> jsval \<Rightarrow> jsval \<Rightarrow> error + StreamDeckPlugin" where
  "Plugin_setTitle this context title target_arg state_arg =
     (let target = default_param target_arg HARDWARE_AND_SOFTWARE;
          state = default_param state_arg Null;
          payload = Obj ([(js ''title'', title), (js ''target'', target)]
                         @ (if state \<noteq> Null then [(js ''state'', state)] else []))
      in send this (Obj [(js ''event'', Str SET_TITLE), (js ''context'', context),
                         (js ''payload'', payload)]))"

definition Plugin_setImage ::
  "StreamDeckPlugin \<Rightarrow> jsval \<Rightarrow> jsval \<Rightarrow> jsval \<Rightarrow> jsval \<Rightarrow> error + StreamDeckPlugin" where
  "Plugin_setImage this context img target_arg state_arg =
     (let target = default_param target_arg HARDWARE_AND_SOFTWARE;
          state = default_param state_arg Null;
          payload = Obj ([(js ''image'', img), (js ''target'', target)]
                         @ (if state \<noteq> Null then [(js ''state'', state)] else []))
      in send this (Obj [(js ''event'', Str SET_IMAGE), (js ''context'', context),
                         (js ''payload'', payload)]))"

definition Plugin_setState :: "StreamDeckPlugin \<Rightarrow> jsval \<Rightarrow> jsval \<Rightarrow> error + StreamDeckPlugin" where
  "Plugin_setState this context state =
     send this (Obj [(js ''event'', Str SET_STATE), (js ''context'', context),
                     (js ''payload'', Obj [(js ''state'', state)])])"

definition Plugin_showAlert :: "StreamDeckPlugin \<Rightarrow> jsval \<Rightarrow> error + StreamDeckPlugin" where
  "Plugin_showAlert this context =
     send this (Obj [(js ''event'', Str SHOW_ALERT), (js ''context'', context)])"

definition Plugin_showOk :: "StreamDeckPlugin \<Rightarrow> jsval \<Rightarrow> error + StreamDeckPlugin" where
  "Plugin_showOk this context =
     send this (Obj [(js ''event'', Str SHOW_OK), (js ''context'', context)])"

definition Plugin_sendToPropertyInspector ::
  "StreamDeckPlugin \<Rightarrow> jsval \<Rightarrow> jsval \<Rightarrow> jsval \<Rightarrow> error + StreamDeckPlugin" where
  "Plugin_sendToPropertyInspector this context payload action =
     send this (Obj [(js ''event'', Str SEND_TO_PROPERTY_INSPECTOR), (js ''context'', context),
                     (js ''payload'', payload), (js ''action'', action)])"

subsection \<open>Outbound helpers of StreamDeckPropertyInspector\<close>

text \<open>
  \<^verbatim>\<open>
  sendToPlugin(payload) {
      this.send({
          event: EventsSent.SEND_TO_PLUGIN,
          action: this.actionInfo.action,
          context: this.uuid,
          payload: payload
      });
  }
  \<close>
  The object literal is evaluated before \<^verbatim>\<open>send\<close> is entered, so the read
  \<^verbatim>\<open>this.actionInfo.action\<close> happens whatever the state of the socket.
\<close>

definition PI_sendToPlugin ::
  "StreamDeckPropertyInspector \<Rightarrow> jsval \<Rightarrow> error + StreamDeckPropertyInspector" where
  "PI_sendToPlugin this payload =
     (case get_prop (actionInfo this) (js ''action'') of
        Inl e \<Rightarrow> Inl e
      | Inr action \<Rightarrow>
          send this (Obj [(js ''event'', Str SEND_TO_PLUGIN), (js ''action'', action),
                          (js ''context'', uuid this), (js ''payload'', payload)]))"

definition PI_setSettings ::
  "StreamDeckPropertyInspector \<Rightarrow> jsval \<Rightarrow> error + StreamDeckPropertyInspector" where
  "PI_setSettings this settings =
     send this (Obj [(js ''event'', Str SET_SETTINGS), (js ''context'', uuid this),
                     (js ''payload'', settings)])"

definition PI_getSettings :: "StreamDeckPropertyInspector \<Rightarrow> error + StreamDeckPropertyInspector" where
  "PI_getSettings this =
     send this (Obj [(js ''event'', Str GET_SETTINGS), (js ''context'', uuid this)])"

definition PI_setGlobalSettings ::
  "StreamDeckPropertyInspector \<Rightarrow> jsval \<Rightarrow> error + StreamDeckPropertyInspector" where
  "PI_setGlobalSettings this settings =
     send this (Obj [(js ''event'', Str SET_GLOBAL_SETTINGS), (js ''context'', uuid this),
                     (js ''payload'', settings)])"

definition PI_getGlobalSettings ::
  "StreamDeckPropertyInspector \<Rightarrow> error + StreamDeckPropertyInspector" where
  "PI_getGlobalSettings this =
     send this (Obj [(js ''event'', Str GET_GLOBAL_SETTINGS), (js ''context'', uuid this)])"

definition PI_openUrl ::
  "StreamDeckPropertyInspector \<Rightarrow> jsval \<Rightarrow> error + StreamDeckPropertyInspector" where
  "PI_openUrl this url =
     send this (Obj [(js ''event'', Str OPEN_URL), (js ''payload'', Obj [(js ''url'', url)])])"

subsection \<open>Inbound dispatch\<close>

text \<open>
  The hooks of the two classes, each with the arguments \<^verbatim>\<open>handleMessage\<close> passes. In the
  library every hook has an empty body (\<^verbatim>\<open>onKeyDown(context, ...) {}\<close>), so a dispatch
  leaves the adapter as it is; the model records which hook was entered.
\<close>

datatype hook =
    onSettings jsval jsval jsval jsval
  | onGlobalSettings jsval
  | onKeyDown jsval jsval jsval jsval jsval jsval
  | onKeyUp jsval jsval jsval jsval jsval jsval
  | onWillAppear jsval jsval jsval jsval jsval jsval
  | onWillDisappear jsval jsval jsval jsval jsval jsval
  | onTitleParametersDidChange jsval jsval jsval jsval
  | onDeviceDidConnect jsval jsval
  | onDeviceDidDisconnect jsval
  | onApplicationDidLaunch jsval
  | onApplicationDidTerminate jsval
  | onSystemDidWakeUp
  | onPropertyInspectorDidAppear jsval jsval jsval
  | onPropertyInspectorDidDisappear jsval jsval jsval
  | onSendToPlugin jsval jsval jsval jsval
  | onSendToPropertyInspector jsval
  | onConnected

text \<open>
  \<^verbatim>\<open>
  handleMessage(data) {
      const event = data.event;
      const context = data.context;
      const payload = data.payload || {};
      const action = data.action;
      const device = data.device;
      switch (event) {
          case EventsReceived.SETTINGS:
              this.onSettings(context, payload.settings, payload.coordinates,
                              payload.isInMultiAction);
              break;
          ...
          case EventsReceived.SEND_TO_PLUGIN:
              this.onSendToPlugin(context, payload, action, device);
              break;
      }
  }
  \<close>
  The first read throws when \<^verbatim>\<open>data\<close> is \<^verbatim>\<open>null\<close> or \<^verbatim>\<open>undefined\<close>; \<^verbatim>\<open>switch\<close> compares with
  \<^verbatim>\<open>===\<close>; the switch has no \<^verbatim>\<open>default\<close> and no case for
  \<^verbatim>\<open>EventsReceived.SEND_TO_PROPERTY_INSPECTOR\<close>.
\<close>

definition Plugin_handleMessage ::
  "StreamDeckPlugin \<Rightarrow> jsval \<Rightarrow> error + (StreamDeckPlugin \<times> hook option)" where
  "Plugin_handleMessage this data =
     (case get_prop data (js ''event'') of
        Inl e \<Rightarrow> Inl e
      | Inr event \<Rightarrow>
          (let context = js_get data (js ''context'');
               payload = js_or (js_get data (js ''payload'')) (Obj []);
               action = js_get data (js ''action'');
               device = js_get data (js ''device'');
               settings = js_get payload (js ''settings'');
               coordinates = js_get payload (js ''coordinates'');
               isInMultiAction = js_get payload (js ''isInMultiAction'');
               userDesiredState = js_get payload (js ''userDesiredState'');
               state = js_get payload (js ''state'')
           in Inr (this,
             if event = Str SETTINGS then
               Some (onSettings context settings coordinates isInMultiAction)
             else if event = Str GLOBAL_SETTINGS then
               Some (onGlobalSettings settings)
             else if event = Str KEY_DOWN then
               Some (onKeyDown context settings coordinates userDesiredState state isInMultiAction)
             else if event = Str KEY_UP then
               Some (onKeyUp context settings coordinates userDesiredState state isInMultiAction)
             else if event = Str WILL_APPEAR then
               Some (onWillAppear context settings coordinates action device isInMultiAction)
             else if event = Str WILL_DISAPPEAR then
               Some (onWillDisappear context settings coordinates action device isInMultiAction)
             else if event = Str TITLE_PARAMETERS_DID_CHANGE then
               Some (onTitleParametersDidChange context (js_get payload (js ''title''))
                       (js_get payload (js ''titleParameters'')) state)
             else if event = Str DEVICE_DID_CONNECT then
               Some (onDeviceDidConnect device (js_get data (js ''deviceInfo'')))
             else if event = Str DEVICE_DID_DISCONNECT then
               Some (onDeviceDidDisconnect device)
             else if event = Str APPLICATION_DID_LAUNCH then
               Some (onApplicationDidLaunch (js_get payload (js ''application'')))
             else if event = Str APPLICATION_DID_TERMINATE then
               Some (onApplicationDidTerminate (js_get payload (js ''application'')))
             else if event = Str SYSTEM_DID_WAKE_UP then
               Some onSystemDidWakeUp
             else if event = Str PROPERTY_INSPECTOR_DID_APPEAR then
               Some (onPropertyInspectorDidAppear context action device)
             else if event = Str PROPERTY_INSPECTOR_DID_DISAPPEAR then
               Some (onPropertyInspectorDidDisappear context action device)
             else if event = Str SEND_TO_PLUGIN then
               Some (onSendToPlugin context payload action device)
             else None)))"

text \<open>
  \<^verbatim>\<open>
  handleMessage(data) {
      const event = data.event;
      const payload = data.payload || {};
      switch (event) {
          case EventsReceived.SEND_TO_PROPERTY_INSPECTOR:
              this.onSendToPropertyInspector(payload);
              break;
      }
  }
  \<close>
\<close>

definition PI_handleMessage ::
  "StreamDeckPropertyInspector \<Rightarrow> jsval
     \<Rightarrow> error + (StreamDeckPropertyInspector \<times> hook option)" where
  "PI_handleMessage this data =
     (case get_prop data (js ''event'') of
        Inl e \<Rightarrow> Inl e
      | Inr event \<Rightarrow>
          (let payload = js_or (js_get data (js ''payload'')) (Obj [])
           in Inr (this,
             if event = Str SEND_TO_PROPERTY_INSPECTOR then Some (onSendToPropertyInspector payload)
             else None)))"

text \<open>
  \<^verbatim>\<open>
  this.websocket.onopen = () => {
      this.register();
      this.onConnected();
  };
  \<close>
  \<^verbatim>\<open>onConnected() {}\<close> is an empty hook in both classes. The platform sets \<^verbatim>\<open>readyState\<close> to
  \<^verbatim>\<open>OPEN\<close> before it fires the open event; \<open>open_event\<close> is that step on the socket the
  adapter holds.
\<close>

definition Plugin_onopen :: "StreamDeckPlugin \<Rightarrow> error + (StreamDeckPlugin \<times> hook option)" where
  "Plugin_onopen this =
     (case Plugin_register this of Inl e \<Rightarrow> Inl e | Inr this' \<Rightarrow> Inr (this', Some onConnected))"

definition PI_onopen ::
  "StreamDeckPropertyInspector \<Rightarrow> error + (StreamDeckPropertyInspector \<times> hook option)" where
  "PI_onopen this =
     (case PI_register this of Inl e \<Rightarrow> Inl e | Inr this' \<Rightarrow> Inr (this', Some onConnected))"

definition open_event :: "'a adapter_scheme \<Rightarrow> 'a adapter_scheme" where
  "open_event this =
     (case websocket this of
        None \<Rightarrow> this
      | Some ws \<Rightarrow> this\<lparr>websocket := Some (ws\<lparr>readyState := OPEN\<rparr>)\<rparr>)"

section \<open>Built-ins the property inspector uses\<close>

text \<open>
  White space and line terminators of ECMA-262, by code point: what
  \<^verbatim>\<open>String.prototype.trim\<close> removes at both ends and \<^verbatim>\<open>parseInt\<close> skips in front.
\<close>

definition is_whitespace :: "nat \<Rightarrow> bool" where
  "is_whitespace c =
     (c = 9 \<or> c = 10 \<or> c = 11 \<or> c = 12 \<or> c = 13 \<or> c = 32 \<or> c = 160 \<or> c = 5760
      \<or> (8192 \<le> c \<and> c \<le> 8202) \<or> c = 8232 \<or> c = 8233 \<or> c = 8239 \<or> c = 8287
      \<or> c = 12288 \<or> c = 65279)"

definition trim :: "jsstring \<Rightarrow> jsstring" where
  "trim s = rev (dropWhile is_whitespace (rev (dropWhile is_whitespace s)))"

text \<open>
  \<^verbatim>\<open>s.replace('@', '')\<close>: with a string pattern, \<^verbatim>\<open>replace\<close> rewrites the first occurrence
  only; here the pattern is one code unit and the replacement is empty.
\<close>

fun replace_first :: "nat \<Rightarrow> jsstring \<Rightarrow> jsstring" where
  "replace_first p [] = []"
| "replace_first p (c # cs) = (if c = p then cs else c # replace_first p cs)"

text \<open>
  \<^verbatim>\<open>parseInt(string)\<close> with no radix, after ECMA-262: skip leading white space, read a
  sign, read the prefix \<^verbatim>\<open>0x\<close> or \<^verbatim>\<open>0X\<close> (radix 16, otherwise radix 10), take the longest
  run of digits of the radix; no digit gives \<^verbatim>\<open>NaN\<close>; the result is the Number value of
  the integer the digits denote, with the sign: an integer again, or an infinity (the case
  \<open>Fraction\<close> does not arise for a natural number). \<open>Num 0\<close> stands for both zeros. For
  more than 20 decimal digits the standard lets an implementation read the digits after
  the 20th as zeros; the model reads them as they are. A numeral of 310 digits or more is
  beyond the largest double either way.
\<close>

definition digit_value :: "nat \<Rightarrow> nat \<Rightarrow> nat option" where
  "digit_value radix c =
     (let v = (if 48 \<le> c \<and> c \<le> 57 then Some (c - 48)
               else if 97 \<le> c \<and> c \<le> 122 then Some (c - 87)
               else if 65 \<le> c \<and> c \<le> 90 then Some (c - 55)
               else None)
      in case v of None \<Rightarrow> None | Some d \<Rightarrow> if d < radix then Some d else None)"

fun digits_value :: "nat \<Rightarrow> nat \<Rightarrow> jsstring \<Rightarrow> nat option" where
  "digits_value radix acc [] = Some acc"
| "digits_value radix acc (c # cs) =
     (case digit_value radix c of
        None \<Rightarrow> Some acc
      | Some d \<Rightarrow> digits_value radix (acc * radix + d) cs)"

definition parse_digits :: "nat \<Rightarrow> jsstring \<Rightarrow> nat option" where
  "parse_digits radix z =
     (case z of
        [] \<Rightarrow> None
      | c # cs \<Rightarrow> (case digit_value radix c of None \<Rightarrow> None | Some d \<Rightarrow> digits_value radix d cs))"

definition parseInt :: "jsstring \<Rightarrow> jsval" where
  "parseInt inputString =
     (let s = dropWhile is_whitespace inputString;
          negative = (s \<noteq> [] \<and> hd s = 45);
          s1 = (if s \<noteq> [] \<and> (hd s = 43 \<or> hd s = 45) then tl s else s);
          hex = (case s1 of a # b # r \<Rightarrow> a = 48 \<and> (b = 120 \<or> b = 88) | _ \<Rightarrow> False);
          r = (if hex then 16 else 10);
          s2 = (if hex then drop 2 s1 else s1)
      in case parse_digits r s2 of
           None \<Rightarrow> NaN
         | Some m \<Rightarrow>
             (case round_to_double m 1 of
                IntValue n \<Rightarrow> Num (if negative then - int n else int n)
              | Fraction \<Rightarrow> NaN
              | Overflow \<Rightarrow> if negative then NegInfinity else Infinity))"

text \<open>
  The regular expressions of the source have the shape \<^verbatim>\<open>/^[items]{lo,hi}$/\<close>
  (\<^verbatim>\<open>+\<close> is \<^verbatim>\<open>{1,}\<close>, \<^verbatim>\<open>\d\<close> is \<^verbatim>\<open>[0-9]\<close>), without flags: the whole string consists of
  between \<open>lo\<close> and \<open>hi\<close> code units of the class.
\<close>

datatype class_item = CRange nat nat | CChar nat

datatype regex = Anchored "class_item list" nat "nat option"

fun in_item :: "nat \<Rightarrow> class_item \<Rightarrow> bool" where
  "in_item c (CRange lo hi) = (lo \<le> c \<and> c \<le> hi)"
| "in_item c (CChar d) = (c = d)"

fun regex_test :: "regex \<Rightarrow> jsstring \<Rightarrow> bool" where
  "regex_test (Anchored items lo hi) s =
     (lo \<le> length s \<and> (case hi of None \<Rightarrow> True | Some h \<Rightarrow> length s \<le> h)
      \<and> list_all (\<lambda>c. list_ex (in_item c) items) s)"

text \<open>\<^verbatim>\<open>/^[a-zA-Z0-9_]{4,25}$/\<close>\<close>

definition username_regex :: regex where
  "username_regex = Anchored [CRange 97 122, CRange 65 90, CRange 48 57, CChar 95] 4 (Some 25)"

text \<open>\<^verbatim>\<open>/^\d+$/\<close>\<close>

definition numeric_regex :: regex where
  "numeric_regex = Anchored [CRange 48 57] 1 None"

text \<open>
  ToString, for the assignment of a value to \<^verbatim>\<open>textContent\<close>: an array joins its
  elements with commas (\<^verbatim>\<open>null\<close> and \<^verbatim>\<open>undefined\<close> as empty strings), an object is
  \<^verbatim>\<open>[object Object]\<close>.
\<close>

fun ToString :: "jsval \<Rightarrow> jsstring"
  and ToString_elements :: "jsval list \<Rightarrow> jsstring list" where
  "ToString Undefined = js ''undefined''"
| "ToString Null = js ''null''"
| "ToString (Bool b) = (if b then js ''true'' else js ''false'')"
| "ToString NaN = js ''NaN''"
| "ToString (Num n) = number_to_string n"
| "ToString Infinity = js ''Infinity''"
| "ToString NegInfinity = js ''-Infinity''"
| "ToString (Str s) = s"
| "ToString (Arr vs) = join_comma (ToString_elements vs)"
| "ToString (Obj kvs) = js ''[object Object]''"
| "ToString_elements [] = []"
| "ToString_elements (v # vs) =
     (if v = Undefined \<or> v = Null then [] else ToString v) # ToString_elements vs"

section \<open>Utils\<close>

text \<open>
  \<^verbatim>\<open>
  validateTwitchUsername: function(username) {
      const regex = /^[a-zA-Z0-9_]{4,25}$/;
      return regex.test(username);
  },
  \<close>
\<close>

definition Utils_validateTwitchUsername :: "jsstring \<Rightarrow> bool" where
  "Utils_validateTwitchUsername username = regex_test username_regex username"

text \<open>
  \<^verbatim>\<open>parseTwitchUserId\<close>, its first branch: \<^verbatim>\<open>if (/^\d+$/.test(input)) { return input; }\<close>
\<close>

definition Utils_isDirectId :: "jsstring \<Rightarrow> bool" where
  "Utils_isDirectId input = regex_test numeric_regex input"

section \<open>TwitchModPropertyInspector\<close>

text \<open>
  The page: \<^verbatim>\<open>document.getElementById(id)\<close> is the element, or \<^verbatim>\<open>null\<close> (\<open>None\<close>). An
  element carries the properties the script reads and writes (\<open>val\<close> is \<^verbatim>\<open>value\<close>, the
  string an input holds; \<open>display\<close> is \<^verbatim>\<open>style.display\<close>). No function of the script
  adds or removes an element, so an element a callback has captured is the element its
  id still names when the callback runs.
\<close>

record element =
  val :: jsstring
  disabled :: bool
  textContent :: jsstring
  className :: jsstring
  innerHTML :: jsstring
  display :: jsstring
  classList :: "jsstring list"

type_synonym document = "jsstring \<Rightarrow> element option"

text \<open>
  A callback handed to \<^verbatim>\<open>setTimeout\<close>: the arrow function of \<^verbatim>\<open>testTwitchConnection\<close>, or
  the one of \<^verbatim>\<open>showSaveConfirmation\<close> with the \<^verbatim>\<open>originalText\<close> it has captured. A pending
  timer is a callback with the time, in milliseconds, at which it falls due.
\<close>

datatype callback = TestTimeout | SaveConfirmationReset jsstring

record TwitchModPropertyInspector =
  tm_websocket :: "WebSocket option"
  tm_uuid :: jsval
  tm_actionInfo :: jsval
  settings :: jsval
  globalSettings :: jsval
  page :: document
  now :: nat
  timers :: "(nat \<times> callback) list"

text \<open>
  \<^verbatim>\<open>
  constructor() {
      this.websocket = null;
      this.uuid = null;
      this.actionInfo = null;
      this.settings = {};
      this.globalSettings = {};
      ...
  }
  \<close>
  on a page \<open>doc\<close>, at time 0 with no timer pending.
\<close>

definition TM_constructor :: "document \<Rightarrow> TwitchModPropertyInspector" where
  "TM_constructor doc =
     \<lparr>tm_websocket = None, tm_uuid = Null, tm_actionInfo = Null, settings = Obj [],
      globalSettings = Obj [], page = doc, now = 0, timers = []\<rparr>"

text \<open>
  \<^verbatim>\<open>
  connectElgatoStreamDeckSocket(inPort, inPropertyInspectorUUID, inRegisterEvent, inInfo,
                                inActionInfo) {
      this.uuid = inPropertyInspectorUUID;
      this.actionInfo = JSON.parse(inActionInfo);
      this.websocket = new WebSocket('ws://127.0.0.1:' + inPort);
      this.websocket.onopen = () => { ... };
      ...
  }
  \<close>
  \<open>parsedActionInfo\<close> is the value \<^verbatim>\<open>JSON.parse(inActionInfo)\<close> has returned. A new socket is
  connecting and has transmitted nothing.
\<close>

definition TM_connectElgatoStreamDeckSocket ::
  "jsval \<Rightarrow> jsval \<Rightarrow> TwitchModPropertyInspector \<Rightarrow> TwitchModPropertyInspector" where
  "TM_connectElgatoStreamDeckSocket inPropertyInspectorUUID parsedActionInfo this =
     this\<lparr>tm_uuid := inPropertyInspectorUUID, tm_actionInfo := parsedActionInfo,
          tm_websocket := Some \<lparr>readyState = CONNECTING, transmitted = []\<rparr>\<rparr>"

text \<open>An element that holds the value \<open>v\<close>, every other property empty; a page of such inputs.\<close>

definition input_element :: "jsstring \<Rightarrow> element" where
  "input_element v =
     \<lparr>val = v, disabled = False, textContent = [], className = [], innerHTML = [],
      display = [], classList = []\<rparr>"

definition form_page :: "(jsstring \<times> jsstring) list \<Rightarrow> document" where
  "form_page inputs = map_of (map (\<lambda>(name, v). (name, input_element v)) inputs)"

text \<open>The guard \<^verbatim>\<open>this.websocket && this.websocket.readyState === WebSocket.OPEN\<close>.\<close>

definition tm_is_open :: "TwitchModPropertyInspector \<Rightarrow> bool" where
  "tm_is_open this =
     (case tm_websocket this of None \<Rightarrow> False | Some ws \<Rightarrow> readyState ws = OPEN)"

text \<open>\<^verbatim>\<open>this.websocket.send(JSON.stringify(json))\<close>; a \<^verbatim>\<open>null\<close> socket makes the read throw.\<close>

definition tm_socket_send ::
  "TwitchModPropertyInspector \<Rightarrow> jsval \<Rightarrow> error + TwitchModPropertyInspector" where
  "tm_socket_send this json =
     (case tm_websocket this of
        None \<Rightarrow> Inl TypeError
      | Some ws \<Rightarrow>
          (case ws_send ws (JSON_stringify json) of
             Inl e \<Rightarrow> Inl e
           | Inr ws' \<Rightarrow> Inr (this\<lparr>tm_websocket := Some ws'\<rparr>)))"

text \<open>
  \<^verbatim>\<open>
  requestSettings() {
      if (this.websocket && this.websocket.readyState === WebSocket.OPEN) {
          const json = { "event": "getSettings", "context": this.uuid };
          this.websocket.send(JSON.stringify(json));
      }
  }
  \<close>
  and the same with \<^verbatim>\<open>"getGlobalSettings"\<close> in \<^verbatim>\<open>requestGlobalSettings\<close>.
\<close>

definition TM_requestSettings ::
  "TwitchModPropertyInspector \<Rightarrow> error + TwitchModPropertyInspector" where
  "TM_requestSettings this =
     (if tm_is_open this then
        tm_socket_send this (Obj [(js ''event'', Str (js ''getSettings'')),
                                  (js ''context'', tm_uuid this)])
      else Inr this)"

definition TM_requestGlobalSettings ::
  "TwitchModPropertyInspector \<Rightarrow> error + TwitchModPropertyInspector" where
  "TM_requestGlobalSettings this =
     (if tm_is_open this then
        tm_socket_send this (Obj [(js ''event'', Str (js ''getGlobalSettings'')),
                                  (js ''context'', tm_uuid this)])
      else Inr this)"

text \<open>
  \<^verbatim>\<open>
  sendToPlugin(payload) {
      if (this.websocket && this.websocket.readyState === WebSocket.OPEN) {
          const json = { "event": "sendToPlugin", "action": this.actionInfo.action,
                         "context": this.uuid, "payload": payload };
          this.websocket.send(JSON.stringify(json));
      }
  }
  \<close>
\<close>

definition TM_sendToPlugin ::
  "TwitchModPropertyInspector \<Rightarrow> jsval \<Rightarrow> error + TwitchModPropertyInspector" where
  "TM_sendToPlugin this payload =
     (if tm_is_open this then
        (case get_prop (tm_actionInfo this) (js ''action'') of
           Inl e \<Rightarrow> Inl e
         | Inr action \<Rightarrow>
             tm_socket_send this (Obj [(js ''event'', Str (js ''sendToPlugin'')),
                                       (js ''action'', action), (js ''context'', tm_uuid this),
                                       (js ''payload'', payload)]))
      else Inr this)"

definition TM_openUrl ::
  "TwitchModPropertyInspector \<Rightarrow> jsval \<Rightarrow> error + TwitchModPropertyInspector" where
  "TM_openUrl this url =
     (if tm_is_open this then
        tm_socket_send this (Obj [(js ''event'', Str (js ''openUrl'')),
                                  (js ''payload'', Obj [(js ''url'', url)])])
      else Inr this)"

text \<open>
  \<^verbatim>\<open>
  this.websocket.onopen = () => {
      const json = { "event": inRegisterEvent, "uuid": inPropertyInspectorUUID };
      this.websocket.send(JSON.stringify(json));
      this.requestGlobalSettings();
      this.requestSettings();
  };
  \<close>
  \<^verbatim>\<open>inRegisterEvent\<close> and \<^verbatim>\<open>inPropertyInspectorUUID\<close> are the arguments of the call of
  \<^verbatim>\<open>connectElgatoStreamDeckSocket\<close> that installed the handler.
\<close>

definition TM_onopen ::
  "jsval \<Rightarrow> jsval \<Rightarrow> TwitchModPropertyInspector \<Rightarrow> error + TwitchModPropertyInspector" where
  "TM_onopen inRegisterEvent inPropertyInspectorUUID this =
     (case tm_socket_send this (Obj [(js ''event'', inRegisterEvent),
                                     (js ''uuid'', inPropertyInspectorUUID)]) of
        Inl e \<Rightarrow> Inl e
      | Inr this1 \<Rightarrow>
          (case TM_requestGlobalSettings this1 of
             Inl e \<Rightarrow> Inl e
           | Inr this2 \<Rightarrow> TM_requestSettings this2))"

definition tm_open_event :: "TwitchModPropertyInspector \<Rightarrow> TwitchModPropertyInspector" where
  "tm_open_event this =
     (case tm_websocket this of
        None \<Rightarrow> this
      | Some ws \<Rightarrow> this\<lparr>tm_websocket := Some (ws\<lparr>readyState := OPEN\<rparr>)\<rparr>)"

subsection \<open>Saving the form\<close>

text \<open>
  \<^verbatim>\<open>
  saveSettings() {
      const settings = {};
      const shieldDuration = document.getElementById('shieldDuration');
      if (shieldDuration) {
          settings.shieldDuration = parseInt(shieldDuration.value) || 300;
      }
      const followDuration = document.getElementById('followDuration');
      if (followDuration) {
          settings.followDuration = parseInt(followDuration.value) || 10;
      }
      const slowDelay = document.getElementById('slowDelay');
      if (slowDelay) {
          settings.slowDelay = parseInt(slowDelay.value) || 3;
      }
      if (this.websocket && this.websocket.readyState === WebSocket.OPEN) {
          const json = { "event": "setSettings", "context": this.uuid, "payload": settings };
          this.websocket.send(JSON.stringify(json));
      }
      this.settings = settings;
  }
  \<close>
\<close>

definition numeric_field :: "document \<Rightarrow> jsstring \<Rightarrow> int \<Rightarrow> (jsstring \<times> jsval) list" where
  "numeric_field doc name dflt =
     (case doc name of
        None \<Rightarrow> []
      | Some el \<Rightarrow> [(name, js_or (parseInt (val el)) (Num dflt))])"

definition collect_settings :: "document \<Rightarrow> jsval" where
  "collect_settings doc =
     Obj (numeric_field doc (js ''shieldDuration'') 300
          @ numeric_field doc (js ''followDuration'') 10
          @ numeric_field doc (js ''slowDelay'') 3)"

definition TM_saveSettings ::
  "TwitchModPropertyInspector \<Rightarrow> error + TwitchModPropertyInspector" where
  "TM_saveSettings this =
     (let settings' = collect_settings (page this) in
      case (if tm_is_open this then
              tm_socket_send this (Obj [(js ''event'', Str (js ''setSettings'')),
                                        (js ''context'', tm_uuid this),
                                        (js ''payload'', settings')])
            else Inr this) of
        Inl e \<Rightarrow> Inl e
      | Inr this1 \<Rightarrow> Inr (this1\<lparr>settings := settings'\<rparr>))"

text \<open>
  \<^verbatim>\<open>
  saveGlobalSettings() {
      const settings = {};
      const twitchChannel = document.getElementById('twitchChannel');
      if (twitchChannel) {
          settings.twitchChannel = twitchChannel.value.trim().replace('@', '');
      }
      const twitchToken = document.getElementById('twitchToken');
      if (twitchToken) { settings.twitchToken = twitchToken.value.trim(); }
      ... the same for twitchBroadcasterId, twitchModeratorId, twitchClientId ...
      if (this.websocket && this.websocket.readyState === WebSocket.OPEN) {
          const json = { "event": "setGlobalSettings", "context": this.uuid,
                         "payload": settings };
          this.websocket.send(JSON.stringify(json));
      }
      this.sendToPlugin({ action: 'saveGlobalSettings', ...settings });
      this.globalSettings = settings;
  }
  \<close>
\<close>

definition text_field ::
  "document \<Rightarrow> jsstring \<Rightarrow> (jsstring \<Rightarrow> jsstring) \<Rightarrow> (jsstring \<times> jsval) list" where
  "text_field doc name clean =
     (case doc name of None \<Rightarrow> [] | Some el \<Rightarrow> [(name, Str (clean (val el)))])"

definition collect_global_settings :: "document \<Rightarrow> (jsstring \<times> jsval) list" where
  "collect_global_settings doc =
     text_field doc (js ''twitchChannel'') (\<lambda>v. replace_first 64 (trim v))
     @ text_field doc (js ''twitchToken'') trim
     @ text_field doc (js ''twitchBroadcasterId'') trim
     @ text_field doc (js ''twitchModeratorId'') trim
     @ text_field doc (js ''twitchClientId'') trim"

definition TM_saveGlobalSettings ::
  "TwitchModPropertyInspector \<Rightarrow> error + TwitchModPropertyInspector" where
  "TM_saveGlobalSettings this =
     (let settings' = collect_global_settings (page this) in
      case (if tm_is_open this then
              tm_socket_send this (Obj [(js ''event'', Str (js ''setGlobalSettings'')),
                                        (js ''context'', tm_uuid this),
                                        (js ''payload'', Obj settings')])
            else Inr this) of
        Inl e \<Rightarrow> Inl e
      | Inr this1 \<Rightarrow>
          (case TM_sendToPlugin this1
                  (Obj ((js ''action'', Str (js ''saveGlobalSettings'')) # settings')) of
             Inl e \<Rightarrow> Inl e
           | Inr this2 \<Rightarrow> Inr (this2\<lparr>globalSettings := Obj settings'\<rparr>)))"

subsection \<open>Validation\<close>

text \<open>
  \<^verbatim>\<open>
  validateTwitchUsername(username) {
      const cleaned = username.replace('@', '').trim();
      const regex = /^[a-zA-Z0-9_]{4,25}$/;
      return regex.test(cleaned);
  }
  \<close>
\<close>

definition TM_validateTwitchUsername :: "jsstring \<Rightarrow> bool" where
  "TM_validateTwitchUsername username =
     (let cleaned = trim (replace_first 64 username) in regex_test username_regex cleaned)"

text \<open>
  \<^verbatim>\<open>
  validateInputs() {
      let isValid = true;
      const errors = [];
      const channelInput = document.getElementById('twitchChannel');
      if (channelInput && !this.validateTwitchUsername(channelInput.value)) {
          errors.push('Invalid Twitch channel name');
          isValid = false;
      }
      const tokenInput = document.getElementById('twitchToken');
      if (tokenInput && !tokenInput.value) {
          errors.push('OAuth token is required');
          isValid = false;
      }
      const broadcasterIdInput = document.getElementById('twitchBroadcasterId');
      if (broadcasterIdInput && !/^\d+$/.test(broadcasterIdInput.value)) {
          errors.push('Broadcaster ID must be numeric');
          isValid = false;
      }
      const moderatorIdInput = document.getElementById('twitchModeratorId');
      if (moderatorIdInput && !/^\d+$/.test(moderatorIdInput.value)) {
          errors.push('Moderator ID must be numeric');
          isValid = false;
      }
      const errorContainer = document.getElementById('errorContainer');
      if (errorContainer) {
          if (errors.length > 0) {
              errorContainer.innerHTML =
                  errors.map(e => `<div class="error">${e}</div>`).join('');
              errorContainer.style.display = 'block';
          } else {
              errorContainer.style.display = 'none';
          }
      }
      return isValid;
  }
  \<close>
  \<open>input_fails doc id bad\<close> is the condition of one \<^verbatim>\<open>if\<close>: the element exists and its value is
  bad. \<open>check\<close> is the body of the \<^verbatim>\<open>if\<close> on the pair of \<^verbatim>\<open>isValid\<close> and \<^verbatim>\<open>errors\<close>.
\<close>

definition input_fails :: "document \<Rightarrow> jsstring \<Rightarrow> (jsstring \<Rightarrow> bool) \<Rightarrow> bool" where
  "input_fails doc name bad = (case doc name of None \<Rightarrow> False | Some el \<Rightarrow> bad (val el))"

definition check ::
  "bool \<Rightarrow> jsstring \<Rightarrow> bool \<times> jsstring list \<Rightarrow> bool \<times> jsstring list" where
  "check failed message st =
     (if failed then (False, snd st @ [message]) else st)"

definition validation :: "document \<Rightarrow> bool \<times> jsstring list" where
  "validation doc =
     check (input_fails doc (js ''twitchModeratorId'') (\<lambda>v. \<not> regex_test numeric_regex v))
           (js ''Moderator ID must be numeric'')
      (check (input_fails doc (js ''twitchBroadcasterId'') (\<lambda>v. \<not> regex_test numeric_regex v))
             (js ''Broadcaster ID must be numeric'')
        (check (input_fails doc (js ''twitchToken'') (\<lambda>v. v = []))
               (js ''OAuth token is required'')
          (check (input_fails doc (js ''twitchChannel'') (\<lambda>v. \<not> TM_validateTwitchUsername v))
                 (js ''Invalid Twitch channel name'')
             (True, []))))"

definition show_errors :: "jsstring list \<Rightarrow> document \<Rightarrow> document" where
  "show_errors errors doc =
     (case doc (js ''errorContainer'') of
        None \<Rightarrow> doc
      | Some el \<Rightarrow>
          if length errors > 0 then
            doc(js ''errorContainer'' \<mapsto>
                el\<lparr>innerHTML :=
                      concat (map (\<lambda>e. js ''<div class=\"error\">'' @ e @ js ''</div>'') errors),
                    display := js ''block''\<rparr>)
          else doc(js ''errorContainer'' \<mapsto> el\<lparr>display := js ''none''\<rparr>))"

definition TM_validateInputs ::
  "TwitchModPropertyInspector \<Rightarrow> bool \<times> TwitchModPropertyInspector" where
  "TM_validateInputs this =
     (let (isValid, errors) = validation (page this)
      in (isValid, this\<lparr>page := show_errors errors (page this)\<rparr>))"

subsection \<open>The connection test\<close>

text \<open>\<^verbatim>\<open>setTimeout(callback, delay)\<close>: the callback falls due \<open>delay\<close> milliseconds from now.\<close>

definition setTimeout ::
  "callback \<Rightarrow> nat \<Rightarrow> TwitchModPropertyInspector \<Rightarrow> TwitchModPropertyInspector" where
  "setTimeout cb delay this = this\<lparr>timers := timers this @ [(now this + delay, cb)]\<rparr>"

text \<open>\<^verbatim>\<open>if (el) { ... assignments to el ... }\<close> for the element of an id.\<close>

definition update_element :: "jsstring \<Rightarrow> (element \<Rightarrow> element) \<Rightarrow> document \<Rightarrow> document" where
  "update_element name f doc = (case doc name of None \<Rightarrow> doc | Some el \<Rightarrow> doc(name \<mapsto> f el))"

text \<open>
  \<^verbatim>\<open>
  testTwitchConnection() {
      const testButton = document.getElementById('testConnection');
      const statusElement = document.getElementById('connectionStatus');
      if (testButton) {
          testButton.disabled = true;
          testButton.textContent = 'Testing...';
      }
      if (statusElement) {
          statusElement.textContent = 'Testing connection...';
          statusElement.className = 'status-testing';
      }
      this.sendToPlugin({
          action: 'testConnection',
          twitchToken: this.globalSettings.twitchToken,
          twitchClientId: this.globalSettings.twitchClientId,
          twitchBroadcasterId: this.globalSettings.twitchBroadcasterId
      });
      setTimeout(() => {
          if (testButton && testButton.disabled) {
              testButton.disabled = false;
              testButton.textContent = 'Test Connection';
              if (statusElement) {
                  statusElement.textContent = 'Test timed out';
                  statusElement.className = 'status-error';
              }
          }
      }, 10000);
  }
  \<close>
\<close>

definition TM_testTwitchConnection ::
  "TwitchModPropertyInspector \<Rightarrow> error + TwitchModPropertyInspector" where
  "TM_testTwitchConnection this =
     (let doc1 = update_element (js ''testConnection'')
                   (\<lambda>el. el\<lparr>disabled := True, textContent := js ''Testing...''\<rparr>) (page this);
          doc2 = update_element (js ''connectionStatus'')
                   (\<lambda>el. el\<lparr>textContent := js ''Testing connection...'',
                              className := js ''status-testing''\<rparr>) doc1;
          this1 = this\<lparr>page := doc2\<rparr>
      in case get_prop (globalSettings this1) (js ''twitchToken'') of
           Inl e \<Rightarrow> Inl e
         | Inr twitchToken \<Rightarrow>
             (case TM_sendToPlugin this1
                     (Obj [(js ''action'', Str (js ''testConnection'')),
                           (js ''twitchToken'', twitchToken),
                           (js ''twitchClientId'',
                              js_get (globalSettings this1) (js ''twitchClientId'')),
                           (js ''twitchBroadcasterId'',
                              js_get (globalSettings this1) (js ''twitchBroadcasterId''))]) of
                Inl e \<Rightarrow> Inl e
              | Inr this2 \<Rightarrow> Inr (setTimeout TestTimeout 10000 this2)))"

definition test_timeout :: "document \<Rightarrow> document" where
  "test_timeout doc =
     (case doc (js ''testConnection'') of
        None \<Rightarrow> doc
      | Some testButton \<Rightarrow>
          if disabled testButton then
            update_element (js ''connectionStatus'')
              (\<lambda>el. el\<lparr>textContent := js ''Test timed out'', className := js ''status-error''\<rparr>)
              (doc(js ''testConnection'' \<mapsto>
                   testButton\<lparr>disabled := False, textContent := js ''Test Connection''\<rparr>))
          else doc)"

text \<open>
  \<^verbatim>\<open>
  handleConnectionTestResult(success, message) {
      const testButton = document.getElementById('testConnection');
      const statusElement = document.getElementById('connectionStatus');
      if (testButton) {
          testButton.disabled = false;
          testButton.textContent = 'Test Connection';
      }
      if (statusElement) {
          statusElement.textContent =
              message || (success ? 'Connected successfully!' : 'Connection failed');
          statusElement.className = success ? 'status-success' : 'status-error';
      }
  }
  \<close>
\<close>

definition TM_handleConnectionTestResult ::
  "jsval \<Rightarrow> jsval \<Rightarrow> TwitchModPropertyInspector \<Rightarrow> TwitchModPropertyInspector" where
  "TM_handleConnectionTestResult success message this =
     (let doc1 = update_element (js ''testConnection'')
                   (\<lambda>el. el\<lparr>disabled := False, textContent := js ''Test Connection''\<rparr>)
                   (page this);
          doc2 = update_element (js ''connectionStatus'')
                   (\<lambda>el. el\<lparr>textContent :=
                                ToString (js_or message
                                  (if truthy success then Str (js ''Connected successfully!'')
                                   else Str (js ''Connection failed''))),
                              className := (if truthy success then js ''status-success''
                                            else js ''status-error'')\<rparr>) doc1
      in this\<lparr>page := doc2\<rparr>)"

text \<open>
  \<^verbatim>\<open>
  onSendToPropertyInspector(payload) {
      if (payload.event === 'connectionTest') {
          this.handleConnectionTestResult(payload.success, payload.message);
      }
  }
  \<close>
  The caller passes \<^verbatim>\<open>jsonObj.payload || {}\<close>, which is neither \<^verbatim>\<open>null\<close> nor \<^verbatim>\<open>undefined\<close>.
\<close>

definition TM_onSendToPropertyInspector ::
  "jsval \<Rightarrow> TwitchModPropertyInspector \<Rightarrow> error + TwitchModPropertyInspector" where
  "TM_onSendToPropertyInspector payload this =
     (case get_prop payload (js ''event'') of
        Inl e \<Rightarrow> Inl e
      | Inr event \<Rightarrow>
          if event = Str (js ''connectionTest'') then
            Inr (TM_handleConnectionTestResult (js_get payload (js ''success''))
                   (js_get payload (js ''message'')) this)
          else Inr this)"

text \<open>
  \<^verbatim>\<open>
  showSaveConfirmation() {
      const saveButton = document.getElementById('saveButton');
      if (saveButton) {
          const originalText = saveButton.textContent;
          saveButton.textContent = 'Saved!';
          saveButton.classList.add('saved');
          setTimeout(() => {
              saveButton.textContent = originalText;
              saveButton.classList.remove('saved');
          }, 2000);
      }
  }
  \<close>
\<close>

definition TM_showSaveConfirmation ::
  "TwitchModPropertyInspector \<Rightarrow> TwitchModPropertyInspector" where
  "TM_showSaveConfirmation this =
     (case page this (js ''saveButton'') of
        None \<Rightarrow> this
      | Some saveButton \<Rightarrow>
          setTimeout (SaveConfirmationReset (textContent saveButton)) 2000
            (this\<lparr>page := (page this)(js ''saveButton'' \<mapsto>
                      saveButton\<lparr>textContent := js ''Saved!'',
                                 classList := (if js ''saved'' \<in> set (classList saveButton)
                                               then classList saveButton
                                               else classList saveButton @ [js ''saved''])\<rparr>)\<rparr>))"

text \<open>A timer callback runs on the page.\<close>

fun run_callback :: "callback \<Rightarrow> document \<Rightarrow> document" where
  "run_callback TestTimeout doc = test_timeout doc"
| "run_callback (SaveConfirmationReset originalText) doc =
     update_element (js ''saveButton'')
       (\<lambda>el. el\<lparr>textContent := originalText,
                  classList := filter (\<lambda>t. t \<noteq> js ''saved'') (classList el)\<rparr>) doc"

text \<open>
  The event loop lets the clock reach the time \<open>t\<close>: the timers due by then run, in the
  order of their due times and, among equal due times, in the order of their creation.
  No callback of the script creates a timer.
\<close>

definition advance :: "nat \<Rightarrow> TwitchModPropertyInspector \<Rightarrow> TwitchModPropertyInspector" where
  "advance t this =
     (let due = filter (\<lambda>(d, cb). d \<le> t) (timers this);
          pending = filter (\<lambda>(d, cb). \<not> d \<le> t) (timers this)
      in this\<lparr>page := fold (\<lambda>(d, cb). run_callback cb) (sort_key fst due) (page this),
              now := max t (now this),
              timers := pending\<rparr>)"

section \<open>Proofs\<close>

declare digits_of.simps [simp del]

declare bit_length.simps [simp del]

lemmas event_names =
  SETTINGS_def GLOBAL_SETTINGS_def KEY_DOWN_def KEY_UP_def
  WILL_APPEAR_def WILL_DISAPPEAR_def TITLE_PARAMETERS_DID_CHANGE_def DEVICE_DID_CONNECT_def
  DEVICE_DID_DISCONNECT_def APPLICATION_DID_LAUNCH_def APPLICATION_DID_TERMINATE_def SYSTEM_DID_WAKE_UP_def
  PROPERTY_INSPECTOR_DID_APPEAR_def PROPERTY_INSPECTOR_DID_DISAPPEAR_def SEND_TO_PLUGIN_def SEND_TO_PROPERTY_INSPECTOR_def
  SET_SETTINGS_def GET_SETTINGS_def SET_GLOBAL_SETTINGS_def GET_GLOBAL_SETTINGS_def
  OPEN_URL_def LOG_MESSAGE_def SET_TITLE_def SET_IMAGE_def
  SET_STATE_def SHOW_ALERT_def SHOW_OK_def

subsection \<open>Numbers\<close>

text \<open>
  The Number value of a natural number: itself below \<open>2 ^ 53\<close>, never a fraction, a double
  again, and beyond the doubles from \<open>2 ^ 1024\<close> on.
\<close>

lemma bit_length_0 [simp]: "bit_length 0 = 0"
  by (subst bit_length.simps) simp

lemma bit_length_1 [simp]: "bit_length (Suc 0) = 1"
  by (subst bit_length.simps) simp

lemma bit_length_bounds: "0 < n \<Longrightarrow> 2 ^ (bit_length n - 1) \<le> n \<and> n < 2 ^ bit_length n"
proof (induction n rule: bit_length.induct)
  case (1 n)
  show ?case
  proof (cases "n div 2 = 0")
    case True
    with "1.prems" have "n = 1" by (simp add: div_eq_0_iff) 
    then show ?thesis by simp
  next
    case False
    define h where "h = n div 2"
    from False have h: "0 < h" by (simp add: h_def)
    from "1.IH" "1.prems" False have IH: "2 ^ (bit_length h - 1) \<le> h \<and> h < 2 ^ bit_length h"
      by (simp add: h_def)
    have bl: "bit_length n = Suc (bit_length h)"
      using "1.prems" by (subst bit_length.simps) (simp add: h_def)
    have pos: "0 < bit_length h"
      using h by (subst bit_length.simps) simp
    then have p: "(2::nat) ^ bit_length h = 2 * 2 ^ (bit_length h - 1)"
      by (cases "bit_length h") simp_all
    have n1: "2 * h \<le> n" and n2: "n < 2 * h + 2" by (simp_all add: h_def)
    from IH p n1 have "2 ^ bit_length h \<le> n" by simp
    moreover from IH n2 have "n < 2 * 2 ^ bit_length h" by simp
    ultimately show ?thesis by (simp add: bl)
  qed
qed

lemma bit_length_le: "n < 2 ^ k \<Longrightarrow> bit_length n \<le> k"
proof (cases "n = 0")
  case True then show ?thesis by simp
next
  case False
  assume "n < 2 ^ k"
  with bit_length_bounds [of n] False have "(2::nat) ^ (bit_length n - 1) < 2 ^ k"
    by (meson le_less_trans not_gr_zero)
  then have "bit_length n - 1 < k" by (simp only: power_strict_increasing_iff one_less_numeral_iff semiring_norm)
  then show ?thesis by simp
qed

lemma bit_length_gt: "2 ^ k \<le> n \<Longrightarrow> k < bit_length n"
proof -
  assume a: "2 ^ k \<le> n"
  then have "0 < n" by (cases n) auto
  with bit_length_bounds [of n] a have "(2::nat) ^ k < 2 ^ bit_length n"
    by (meson le_less_trans)
  then show ?thesis by (simp only: power_strict_increasing_iff one_less_numeral_iff semiring_norm)
qed

lemma binary_exponent_nat:
  assumes "0 < n"
  shows "binary_exponent n (Suc 0) = int (bit_length n) - 1"
proof -
  from assms have pos: "0 < bit_length n" by (subst bit_length.simps) simp
  then have "nat (int (bit_length n) - 1) = bit_length n - 1" "nat (- (int (bit_length n) - 1)) = 0"
    by simp_all
  with bit_length_bounds [OF assms] show ?thesis
    by (simp add: binary_exponent_def Let_def)
qed


lemma nearest_double_nat:
  assumes "0 < n"
  shows "nearest_double n (Suc 0) =
           (let t = int (bit_length n) - 53;
                m = n * 2 ^ nat (- t) div 2 ^ nat t;
                r = n * 2 ^ nat (- t) mod 2 ^ nat t
            in (if 2 ^ nat t < 2 * r \<or> (2 * r = 2 ^ nat t \<and> odd m) then m + 1 else m, t))"
proof -
  from assms have pos: "0 < bit_length n" by (subst bit_length.simps) simp
  have be: "binary_exponent n (Suc 0) = int (bit_length n) - 1"
    by (rule binary_exponent_nat [OF assms])
  have mx: "max (int (bit_length n) - 1) (- 1022) - 52 = int (bit_length n) - 53"
    using pos by simp
  show ?thesis
    unfolding nearest_double_def be mx by (simp add: Let_def)
qed

lemma round_to_double_0 [simp]: "round_to_double 0 (Suc 0) = IntValue 0"
  by (simp add: round_to_double_def nearest_double_def binary_exponent_def Let_def)

lemma round_to_double_small:
  assumes "n < 2 ^ 53"
  shows "round_to_double n (Suc 0) = IntValue n"
proof (cases "n = 0")
  case True
  then show ?thesis by simp
next
  case False
  then have pos: "0 < n" by simp
  from assms have le: "bit_length n \<le> 53" by (rule bit_length_le)
  define d where "d = 53 - bit_length n"
  have t: "nat (53 - int (bit_length n)) = d" "nat (int (bit_length n) - 53) = 0"
    using le by (simp_all add: d_def)
  have nd: "nearest_double n (Suc 0) = (n * 2 ^ d, int (bit_length n) - 53)"
    by (simp add: nearest_double_nat [OF pos] Let_def t)
  show ?thesis
  proof (cases "bit_length n = 53")
    case True
    then have "d = 0" by (simp add: d_def)
    moreover have "\<not> (2::nat) ^ 1024 \<le> n" using assms by simp
    ultimately show ?thesis using True by (simp add: round_to_double_def nd)
  next
    case False
    with le have neg: "\<not> 0 \<le> int (bit_length n) - 53" by simp
    show ?thesis
      using neg by (simp add: round_to_double_def nd t)
  qed
qed

lemma round_to_double_large:
  assumes "2 ^ 53 \<le> n"
  shows "\<exists>m. 2 ^ 52 \<le> m \<and> m \<le> 2 ^ 53 \<and>
           round_to_double n (Suc 0) =
             (if 2 ^ 1024 \<le> m * 2 ^ (bit_length n - 53) then Overflow
              else IntValue (m * 2 ^ (bit_length n - 53)))"
proof -
  from assms have pos: "0 < n" by (cases n) auto
  from assms have gt: "53 < bit_length n" by (rule bit_length_gt)
  define d where "d = bit_length n - 53"
  have t: "nat (53 - int (bit_length n)) = 0" "nat (int (bit_length n) - 53) = d"
    using gt by (simp_all add: d_def)
  have nonneg: "0 \<le> int (bit_length n) - 53" using gt by simp
  define m0 where "m0 = n div 2 ^ d"
  define m where "m = (if 2 ^ d < 2 * (n mod 2 ^ d) \<or> (2 * (n mod 2 ^ d) = 2 ^ d \<and> odd m0)
                      then m0 + 1 else m0)"
  have nd: "nearest_double n (Suc 0) = (m, int (bit_length n) - 53)"
    by (simp add: nearest_double_nat [OF pos] Let_def t m_def m0_def)
  have "bit_length n - 1 = 52 + d" using gt by (simp add: d_def)
  with bit_length_bounds [OF pos] have "(2::nat) ^ 52 * 2 ^ d \<le> n"
    by (simp add: power_add)
  then have "2 ^ 52 \<le> m0"
    unfolding m0_def by (simp add: less_eq_div_iff_mult_less_eq)
  then have "2 ^ 52 \<le> m" by (simp add: m_def)
  moreover have "m \<le> 2 ^ 53"
  proof -
    have "bit_length n = 53 + d" using gt by (simp add: d_def)
    with bit_length_bounds [OF pos] have "n < 2 ^ 53 * 2 ^ d"
      by (simp add: power_add)
    then have "m0 < 2 ^ 53"
      unfolding m0_def by (simp add: less_mult_imp_div_less)
    then show ?thesis by (simp add: m_def)
  qed
  moreover have "round_to_double n (Suc 0) =
             (if 2 ^ 1024 \<le> m * 2 ^ d then Overflow else IntValue (m * 2 ^ d))"
    using nonneg by (simp add: round_to_double_def nd t)
  ultimately show ?thesis unfolding d_def by blast
qed

lemma round_to_double_large_cases:
  assumes "2 ^ 53 \<le> n"
  shows "round_to_double n (Suc 0) = Overflow \<or> (\<exists>v. round_to_double n (Suc 0) = IntValue v \<and> 2 ^ 53 \<le> v)"
proof -
  from round_to_double_large [OF assms] obtain m where
    m: "2 ^ 52 \<le> m"
    and r: "round_to_double n (Suc 0) =
             (if 2 ^ 1024 \<le> m * 2 ^ (bit_length n - 53) then Overflow
              else IntValue (m * 2 ^ (bit_length n - 53)))" by blast
  from assms have gt: "53 < bit_length n" by (rule bit_length_gt)
  then have "(2::nat) ^ 1 \<le> 2 ^ (bit_length n - 53)"
    by (intro power_increasing) simp_all
  with m have "(2::nat) ^ 52 * 2 ^ 1 \<le> m * 2 ^ (bit_length n - 53)"
    by (intro mult_le_mono) simp_all
  then have "2 ^ 53 \<le> m * 2 ^ (bit_length n - 53)" by simp
  with r show ?thesis by auto
qed


lemma round_to_double_not_Fraction: "round_to_double n (Suc 0) \<noteq> Fraction"
proof (cases "n < 2 ^ 53")
  case True
  then show ?thesis by (simp add: round_to_double_small)
next
  case False
  then have "2 ^ 53 \<le> n" by simp
  from round_to_double_large_cases [OF this] show ?thesis by auto
qed

lemma round_to_double_safe:
  assumes "round_to_double v (Suc 0) = IntValue x" and "x < 2 ^ 53"
  shows "v = x"
proof (cases "v < 2 ^ 53")
  case True
  with assms show ?thesis by (simp add: round_to_double_small)
next
  case False
  then have "2 ^ 53 \<le> v" by simp
  from round_to_double_large_cases [OF this] assms show ?thesis by auto
qed




subsection \<open>Decimal digits\<close>

lemma and_then_Returns [simp]: "and_then (Returns x) f = f x"
  by (simp add: and_then_def)

lemma digits_of_digits: "c \<in> set (digits_of n) \<Longrightarrow> is_digit c"
proof (induction n arbitrary: c rule: digits_of.induct)
  case (1 n)
  then show ?case
    by (subst (asm) (2) digits_of.simps) (auto simp: is_digit_def split: if_splits)
qed

lemma digits_of_not_empty: "digits_of n \<noteq> []"
  by (subst digits_of.simps) simp

lemma digits_of_hd: "0 < n \<Longrightarrow> hd (digits_of n) \<noteq> 48"
proof (induction n rule: digits_of.induct)
  case (1 n)
  show ?case
  proof (cases "n < 10")
    case True
    with "1.prems" show ?thesis by (subst digits_of.simps) simp
  next
    case False
    then have "0 < n div 10" by simp
    with "1.IH" False have "hd (digits_of (n div 10)) \<noteq> 48" by simp
    with False show ?thesis
      by (subst digits_of.simps) (simp add: digits_of_not_empty)
  qed
qed

lemma digits_to_nat_append:
  "digits_to_nat acc (xs @ ys) = digits_to_nat (digits_to_nat acc xs) ys"
  by (induction xs arbitrary: acc) simp_all

lemma digits_to_nat_digits_of: "digits_to_nat 0 (digits_of n) = n"
proof (induction n rule: digits_of.induct)
  case (1 n)
  show ?case
  proof (cases "n < 10")
    case True
    then show ?thesis by (subst digits_of.simps) simp
  next
    case False
    with "1.IH" have "digits_to_nat 0 (digits_of (n div 10)) = n div 10" by simp
    with False show ?thesis
      by (subst digits_of.simps) (simp add: digits_to_nat_append)
  qed
qed

lemma takeWhile_digits:
  assumes "\<forall>c\<in>set ds. is_digit c" and "r = [] \<or> \<not> is_digit (hd r)"
  shows "takeWhile is_digit (ds @ r) = ds"
    and "dropWhile is_digit (ds @ r) = r"
proof -
  have r: "takeWhile is_digit r = []" "dropWhile is_digit r = r"
    using assms(2) by (cases r; simp)+
  show "takeWhile is_digit (ds @ r) = ds"
    using assms(1) r by (simp add: takeWhile_append2)
  show "dropWhile is_digit (ds @ r) = r"
    using assms(1) r by (simp add: dropWhile_append2)
qed

lemma takeWhile_digits_of:
  assumes "r = [] \<or> \<not> is_digit (hd r)"
  shows "takeWhile is_digit (digits_of n @ r) = digits_of n"
    and "dropWhile is_digit (digits_of n @ r) = r"
  using takeWhile_digits [OF _ assms, of "digits_of n"] digits_of_digits by blast+

lemma length_digits_of: "n < 10 ^ k \<Longrightarrow> 0 < k \<Longrightarrow> length (digits_of n) \<le> k"
proof (induction n arbitrary: k rule: digits_of.induct)
  case (1 n)
  show ?case
  proof (cases "n < 10")
    case True
    with "1.prems" show ?thesis by (subst digits_of.simps) simp
  next
    case False
    obtain j where k: "k = Suc j" using "1.prems" by (cases k) auto
    with "1.prems" False have j: "0 < j" by (cases j) auto
    from "1.prems" k have "n div 10 < 10 ^ j"
      by (simp add: less_mult_imp_div_less mult.commute)
    with "1.IH" [of j] False j have "length (digits_of (n div 10)) \<le> j" by simp
    with False k show ?thesis by (subst digits_of.simps) simp
  qed
qed

subsection \<open>The shortest decimal\<close>

lemma nearest_decimal_valid:
  "nearest_decimal x p = Some v \<Longrightarrow> round_to_double v (Suc 0) = IntValue x"
  by (auto simp: nearest_decimal_def Let_def split: if_splits)

lemma shortest_decimal_valid:
  "is_double x \<Longrightarrow> round_to_double (shortest_decimal x p) (Suc 0) = IntValue x"
proof (induction p)
  case 0
  then show ?case
    by (cases "nearest_decimal x 0") (simp_all add: is_double_def nearest_decimal_valid)
next
  case (Suc p)
  then show ?case
    by (cases "nearest_decimal x (Suc p)") (simp_all add: nearest_decimal_valid)
qed

lemma shortest_decimal_safe:
  assumes "x < 2 ^ 53"
  shows "shortest_decimal x p = x"
proof -
  have v: "nearest_decimal x q = Some v \<Longrightarrow> v = x" for q v
    using round_to_double_safe [OF nearest_decimal_valid assms] .
  show ?thesis
  proof (induction p)
    case 0
    then show ?case by (cases "nearest_decimal x 0") (simp_all add: v)
  next
    case (Suc p)
    then show ?case by (cases "nearest_decimal x (Suc p)") (simp_all add: v)
  qed
qed

lemma unsigned_to_string_safe:
  assumes "x < 2 ^ 53"
  shows "unsigned_to_string x = digits_of x"
proof -
  have "x < 10 ^ 21" using assms by simp
  then have "length (digits_of x) \<le> 21" by (rule length_digits_of) simp
  then show ?thesis
    by (simp add: unsigned_to_string_def shortest_decimal_safe [OF assms])
qed

lemma number_to_string_safe:
  assumes "\<bar>n\<bar> < 2 ^ 53"
  shows "number_to_string n = (if n < 0 then 45 # digits_of (nat (- n)) else digits_of (nat n))"
proof -
  have "nat (- n) < 2 ^ 53" "nat n < 2 ^ 53" using assms by simp_all
  then show ?thesis
    by (simp add: number_to_string_def unsigned_to_string_safe)
qed

subsection \<open>Reading back a number\<close>

lemma digits_to_nat_zeros: "digits_to_nat acc (replicate z 48) = acc * 10 ^ z"
  by (induction z arbitrary: acc) simp_all

lemma strip_zeros_decomp:
  "ds = strip_zeros ds @ replicate (length ds - length (strip_zeros ds)) 48"
proof -
  define P :: "nat \<Rightarrow> bool" where "P = (\<lambda>c. c = 48)"
  have tw: "takeWhile P xs = replicate (length (takeWhile P xs)) 48" for xs
    by (induction xs) (simp_all add: P_def)
  have "rev ds = takeWhile P (rev ds) @ dropWhile P (rev ds)" by simp
  then have "ds = rev (dropWhile P (rev ds)) @ rev (takeWhile P (rev ds))"
    by (metis rev_append rev_rev_ident)
  moreover have "rev (takeWhile P (rev ds)) = replicate (length (takeWhile P (rev ds))) 48"
    using tw [of "rev ds"] by (metis rev_replicate)
  moreover have "length (takeWhile P (rev ds)) = length ds - length (strip_zeros ds)"
  proof -
    have "length (takeWhile P (rev ds)) + length (dropWhile P (rev ds)) = length ds"
      by (metis length_append length_rev takeWhile_dropWhile_id)
    then show ?thesis by (simp add: strip_zeros_def P_def)
  qed
  ultimately show ?thesis by (simp add: strip_zeros_def P_def)
qed

lemma strip_zeros_hd:
  assumes "ds \<noteq> []" and "hd ds \<noteq> 48"
  shows "\<exists>rest. strip_zeros ds = hd ds # rest"
proof -
  obtain d ds' where ds: "ds = d # ds'" using assms(1) by (cases ds) auto
  with assms(2) have d: "d \<noteq> 48" by simp
  have "dropWhile (\<lambda>c. c = 48) (rev ds' @ [d]) = dropWhile (\<lambda>c. c = 48) (rev ds') @ [d]"
    using d by (induction "rev ds'" arbitrary: ds') (simp_all add: dropWhile_append3 dropWhile_append)
  then show ?thesis by (simp add: strip_zeros_def ds)
qed

lemma strip_zeros_set: "set (strip_zeros ds) \<subseteq> set ds"
  unfolding strip_zeros_def using set_dropWhileD by fastforce

lemma number_result_nat:
  assumes "round_to_double (digits_to_nat 0 ds * 10 ^ z) (Suc 0) = IntValue x"
  shows "number_result neg ds (int z) r = Returns (Num (if neg then - int x else int x), r)"
  using assms by (simp add: number_result_def)

lemma parse_exponent_none:
  assumes "r = [] \<or> (hd r \<noteq> 101 \<and> hd r \<noteq> 69)"
  shows "parse_exponent neg ds fl r = number_result neg ds (- int fl) r"
  using assms by (auto simp: parse_exponent_def)

lemma parse_exponent_plus:
  assumes "r = [] \<or> \<not> is_digit (hd r)"
  shows "parse_exponent neg ds fl ([101, 43] @ digits_of e @ r)
           = number_result neg ds (int e - int fl) r"
proof -
  have "45 \<noteq> (43::nat)" by simp
  then show ?thesis
    by (simp add: parse_exponent_def Let_def takeWhile_digits_of [OF assms]
          digits_of_not_empty digits_to_nat_digits_of)
qed

lemma parse_fraction_none:
  assumes "r = [] \<or> hd r \<noteq> 46"
  shows "parse_fraction neg ds r = parse_exponent neg ds 0 r"
  using assms by (auto simp: parse_fraction_def)

lemma parse_fraction_digits:
  assumes "fd \<noteq> []" and "\<forall>c\<in>set fd. is_digit c" and "r = [] \<or> \<not> is_digit (hd r)"
  shows "parse_fraction neg ds (46 # fd @ r) = parse_exponent neg (ds @ fd) (length fd) r"
  using assms(1) by (simp add: parse_fraction_def Let_def takeWhile_digits [OF assms(2,3)])

lemma parse_plain_digits:
  assumes v: "round_to_double v (Suc 0) = IntValue x"
    and r: "r = [] \<or> (\<not> is_digit (hd r) \<and> hd r \<noteq> 46 \<and> hd r \<noteq> 101 \<and> hd r \<noteq> 69)"
  shows "parse_unsigned neg (digits_of v @ r) = Returns (Num (if neg then - int x else int x), r)"
proof -
  have r': "r = [] \<or> \<not> is_digit (hd r)" using r by blast
  have fin: "parse_fraction neg (digits_of v) r
               = Returns (Num (if neg then - int x else int x), r)"
  proof -
    have "parse_fraction neg (digits_of v) r = parse_exponent neg (digits_of v) 0 r"
      using r by (intro parse_fraction_none) blast
    also have "\<dots> = number_result neg (digits_of v) (int 0) r"
      using r parse_exponent_none [of r neg "digits_of v" 0] by auto
    also have "\<dots> = Returns (Num (if neg then - int x else int x), r)"
      by (rule number_result_nat) (simp add: digits_to_nat_digits_of v)
    finally show ?thesis .
  qed
  show ?thesis
  proof (cases "v = 0")
    case True
    then have "digits_of v = [48]" by (subst digits_of.simps) simp
    with fin show ?thesis by (simp add: parse_unsigned_def)
  next
    case False
    obtain c cs where d: "digits_of v = c # cs"
      using digits_of_not_empty [of v] by (cases "digits_of v") auto
    with digits_of_hd [of v] False have c: "c \<noteq> 48" by simp
    from d digits_of_digits [of c v] have dc: "is_digit c" by simp
    have "parse_fraction neg (takeWhile is_digit (digits_of v @ r))
            (dropWhile is_digit (digits_of v @ r))
          = Returns (Num (if neg then - int x else int x), r)"
      by (simp only: takeWhile_digits_of [OF r'] fin)
    with c dc show ?thesis
      unfolding parse_unsigned_def d by simp
  qed
qed

lemma parse_unsigned_nonzero:
  "is_digit d \<Longrightarrow> d \<noteq> 48 \<Longrightarrow>
   parse_unsigned neg (d # t)
     = parse_fraction neg (takeWhile is_digit (d # t)) (dropWhile is_digit (d # t))"
  by (simp add: parse_unsigned_def)

lemma one_digit:
  "is_digit d \<Longrightarrow> t = [] \<or> \<not> is_digit (hd t) \<Longrightarrow> takeWhile is_digit (d # t) = [d]"
  "is_digit d \<Longrightarrow> t = [] \<or> \<not> is_digit (hd t) \<Longrightarrow> dropWhile is_digit (d # t) = t"
  by (cases t; auto)+

lemma parse_exponent_form:
  assumes v: "round_to_double v (Suc 0) = IntValue x"
    and long: "21 < length (digits_of v)"
    and sig: "strip_zeros (digits_of v) = d # rest"
    and r: "r = [] \<or> (\<not> is_digit (hd r) \<and> hd r \<noteq> 46 \<and> hd r \<noteq> 101 \<and> hd r \<noteq> 69)"
  shows "parse_unsigned neg
           ((d # (if rest = [] then [] else 46 # rest) @ [101, 43]
               @ digits_of (length (digits_of v) - 1)) @ r)
         = Returns (Num (if neg then - int x else int x), r)"
proof -
  define ds where "ds = digits_of v"
  define z where "z = length ds - length (d # rest)"
  define E where "E = length ds - 1"
  have r': "r = [] \<or> \<not> is_digit (hd r)" using r by blast
  have dec: "ds = (d # rest) @ replicate z 48"
    using strip_zeros_decomp [of ds] sig by (simp add: ds_def z_def)
  have digs: "\<forall>c\<in>set (d # rest). is_digit c"
    using strip_zeros_set [of ds] sig digits_of_digits [of _ v] unfolding ds_def by auto
  have pos: "0 < v"
  proof (rule ccontr)
    assume "\<not> 0 < v"
    then have "digits_of v = [48]" by (subst digits_of.simps) simp
    with long show False by simp
  qed
  have "hd ds = d" using dec by simp
  with digits_of_hd [OF pos] have d: "d \<noteq> 48" by (simp add: ds_def)
  have dd: "is_digit d" using digs by simp
  have val: "digits_to_nat 0 (d # rest) * 10 ^ z = v"
  proof -
    have "digits_to_nat 0 ds = v" by (simp add: ds_def digits_to_nat_digits_of)
    then show ?thesis
      by (subst (asm) dec) (simp only: digits_to_nat_append digits_to_nat_zeros)
  qed
  have len: "length ds = length (d # rest) + z" by (subst dec) simp
  have ex: "int E - int (length rest) = int z"
    using len by (simp add: E_def)
  have res: "number_result neg (d # rest) (int E - int (length rest)) r
               = Returns (Num (if neg then - int x else int x), r)"
    unfolding ex by (rule number_result_nat) (simp only: val v)
  have tail: "parse_fraction neg [d] ((if rest = [] then [] else 46 # rest) @ [101, 43] @ digits_of E @ r)
                = Returns (Num (if neg then - int x else int x), r)"
  proof (cases "rest = []")
    case True
    have "parse_fraction neg [d] ([101, 43] @ digits_of E @ r)
            = parse_exponent neg [d] 0 ([101, 43] @ digits_of E @ r)"
      by (rule parse_fraction_none) simp
    also have "\<dots> = number_result neg [d] (int E - int 0) r"
      by (rule parse_exponent_plus [OF r'])
    finally show ?thesis using res True by simp
  next
    case False
    have e: "[101, 43] @ digits_of E @ r = [] \<or> \<not> is_digit (hd ([101, 43] @ digits_of E @ r))"
      by (simp add: is_digit_def)
    have rd: "\<forall>c\<in>set rest. is_digit c" using digs by simp
    have "parse_fraction neg [d] (46 # rest @ ([101, 43] @ digits_of E @ r))
            = parse_exponent neg ([d] @ rest) (length rest) ([101, 43] @ digits_of E @ r)"
      by (rule parse_fraction_digits [OF False rd e])
    also have "\<dots> = number_result neg ([d] @ rest) (int E - int (length rest)) r"
      by (rule parse_exponent_plus [OF r'])
    finally show ?thesis using res False by simp
  qed
  define t where "t = (if rest = [] then [] else 46 # rest) @ [101, 43] @ digits_of E @ r"
  have nd: "t = [] \<or> \<not> is_digit (hd t)"
    by (simp add: t_def is_digit_def)
  have "parse_unsigned neg (d # t) = parse_fraction neg [d] t"
    by (simp only: parse_unsigned_nonzero [OF dd d] one_digit [OF dd nd])
  with tail show ?thesis
    by (simp add: t_def ds_def E_def)
qed

lemma unsigned_to_string_cases:
  assumes "v = shortest_decimal x (length (digits_of x) - 1)"
  shows "unsigned_to_string x =
           (if length (digits_of v) \<le> 21 then digits_of v
            else case strip_zeros (digits_of v) of
                   [] \<Rightarrow> []
                 | d # rest \<Rightarrow>
                     d # (if rest = [] then [] else 46 # rest) @ [101, 43]
                       @ digits_of (length (digits_of v) - 1))"
  unfolding assms by (simp only: unsigned_to_string_def Let_def)

lemma parse_unsigned_to_string:
  assumes x: "is_double x"
    and r: "r = [] \<or> (\<not> is_digit (hd r) \<and> hd r \<noteq> 46 \<and> hd r \<noteq> 101 \<and> hd r \<noteq> 69)"
  shows "parse_unsigned neg (unsigned_to_string x @ r)
           = Returns (Num (if neg then - int x else int x), r)"
proof -
  define v where "v = shortest_decimal x (length (digits_of x) - 1)"
  have v: "round_to_double v (Suc 0) = IntValue x"
    unfolding v_def by (rule shortest_decimal_valid [OF x])
  show ?thesis
  proof (cases "length (digits_of v) \<le> 21")
    case True
    then have "unsigned_to_string x = digits_of v"
      by (simp only: unsigned_to_string_cases [OF v_def] if_True)
    then show ?thesis using parse_plain_digits [OF v r] by simp
  next
    case False
    then have long: "21 < length (digits_of v)" by simp
    have pos: "0 < v"
    proof (rule ccontr)
      assume "\<not> 0 < v"
      then have "digits_of v = [48]" by (subst digits_of.simps) simp
      with long show False by simp
    qed
    from strip_zeros_hd [OF digits_of_not_empty digits_of_hd [OF pos]]
    obtain rest where sig: "strip_zeros (digits_of v) = hd (digits_of v) # rest" by blast
    have "unsigned_to_string x
            = hd (digits_of v) # (if rest = [] then [] else 46 # rest) @ [101, 43]
                @ digits_of (length (digits_of v) - 1)"
      using False by (simp only: unsigned_to_string_cases [OF v_def] if_False sig list.case)
    then show ?thesis using parse_exponent_form [OF v long sig r] by simp
  qed
qed

lemma unsigned_to_string_hd: "\<exists>c cs. unsigned_to_string x = c # cs \<and> is_digit c"
proof -
  define v where "v = shortest_decimal x (length (digits_of x) - 1)"
  obtain c cs where d: "digits_of v = c # cs"
    using digits_of_not_empty [of v] by (cases "digits_of v") auto
  with digits_of_digits [of c v] have dc: "is_digit c" by simp
  show ?thesis
  proof (cases "length (digits_of v) \<le> 21")
    case True
    then have "unsigned_to_string x = digits_of v"
      by (simp only: unsigned_to_string_cases [OF v_def] if_True)
    with d dc show ?thesis by simp
  next
    case False
    have pos: "0 < v"
    proof (rule ccontr)
      assume "\<not> 0 < v"
      then have "digits_of v = [48]" by (subst digits_of.simps) simp
      with False show False by simp
    qed
    from strip_zeros_hd [OF digits_of_not_empty digits_of_hd [OF pos]]
    obtain rest where sig: "strip_zeros (digits_of v) = hd (digits_of v) # rest" by blast
    have "unsigned_to_string x
            = hd (digits_of v) # (if rest = [] then [] else 46 # rest) @ [101, 43]
                @ digits_of (length (digits_of v) - 1)"
      using False by (simp only: unsigned_to_string_cases [OF v_def] if_False sig list.case)
    moreover have "hd (digits_of v) = c" by (simp add: d)
    ultimately show ?thesis using dc by blast
  qed
qed

lemma parse_number_roundtrip:
  assumes n: "is_double (nat \<bar>n\<bar>)"
    and r: "r = [] \<or> (\<not> is_digit (hd r) \<and> hd r \<noteq> 46 \<and> hd r \<noteq> 101 \<and> hd r \<noteq> 69)"
  shows "parse_number (number_to_string n @ r) = Returns (Num n, r)"
proof (cases "n < 0")
  case True
  then have "number_to_string n @ r = 45 # (unsigned_to_string (nat (- n)) @ r)"
    by (simp add: number_to_string_def)
  moreover have "(if True then - int (nat (- n)) else int (nat (- n))) = n"
    using True by simp
  moreover have "nat \<bar>n\<bar> = nat (- n)" using True by simp
  ultimately show ?thesis
    using parse_unsigned_to_string [OF _ r, where x = "nat (- n)" and neg = True] n True
    by (simp add: parse_number_def)
next
  case False
  then have s: "number_to_string n @ r = unsigned_to_string (nat n) @ r"
    by (simp add: number_to_string_def)
  obtain c cs where u: "unsigned_to_string (nat n) = c # cs" and c: "is_digit c"
    using unsigned_to_string_hd by blast
  then have hd: "c \<noteq> 45" by (auto simp: is_digit_def)
  have "nat \<bar>n\<bar> = nat n" using False by simp
  then show ?thesis
    using parse_unsigned_to_string [OF _ r, where x = "nat n" and neg = False] n False hd
    by (simp add: parse_number_def s u)
qed

subsection \<open>Reading properties\<close>

lemma js_neq_Nil [simp]: "js (c # cs) \<noteq> []"
  by (simp add: js_def)

lemma get_prop_Obj [simp]:
  "get_prop (Obj kvs) k = Inr (case map_of kvs k of None \<Rightarrow> Undefined | Some v \<Rightarrow> v)"
  by (simp add: get_prop_def)

subsection \<open>Inbound dispatch\<close>

lemma not_recognized:
  assumes "e \<notin> set EventsReceived"
  shows "e \<noteq> SETTINGS" "e \<noteq> GLOBAL_SETTINGS" "e \<noteq> KEY_DOWN" "e \<noteq> KEY_UP"
    "e \<noteq> WILL_APPEAR" "e \<noteq> WILL_DISAPPEAR" "e \<noteq> TITLE_PARAMETERS_DID_CHANGE"
    "e \<noteq> DEVICE_DID_CONNECT" "e \<noteq> DEVICE_DID_DISCONNECT" "e \<noteq> APPLICATION_DID_LAUNCH"
    "e \<noteq> APPLICATION_DID_TERMINATE" "e \<noteq> SYSTEM_DID_WAKE_UP"
    "e \<noteq> PROPERTY_INSPECTOR_DID_APPEAR" "e \<noteq> PROPERTY_INSPECTOR_DID_DISAPPEAR"
    "e \<noteq> SEND_TO_PLUGIN" "e \<noteq> SEND_TO_PROPERTY_INSPECTOR"
  using assms by (auto simp: EventsReceived_def)

text \<open>
  C5. An envelope whose \<^verbatim>\<open>event\<close> is a string that is not an entry of \<^verbatim>\<open>EventsReceived\<close>
  enters no hook in \<^verbatim>\<open>handleMessage\<close> of either class, throws nothing and returns the
  adapter as it was; and whenever \<^verbatim>\<open>handleMessage\<close> of StreamDeckPropertyInspector enters a
  hook, the event is \<^verbatim>\<open>sendToPropertyInspector\<close>, the hook is
  \<^verbatim>\<open>onSendToPropertyInspector\<close> with the payload, and the adapter is unchanged.
\<close>

theorem handleMessage_unrecognized_event:
  "(map_of kvs (js ''event'') = Some (Str e) \<and> e \<notin> set EventsReceived \<longrightarrow>
      Plugin_handleMessage p (Obj kvs) = Inr (p, None)
      \<and> PI_handleMessage q (Obj kvs) = Inr (q, None))
   \<and> (PI_handleMessage q (Obj kvs) = Inr (q', Some h) \<longrightarrow>
        q' = q \<and> map_of kvs (js ''event'') = Some (Str SEND_TO_PROPERTY_INSPECTOR)
        \<and> h = onSendToPropertyInspector (js_or (js_get (Obj kvs) (js ''payload'')) (Obj [])))"
proof (intro conjI impI)
  assume a: "map_of kvs (js ''event'') = Some (Str e) \<and> e \<notin> set EventsReceived"
  then have ev: "get_prop (Obj kvs) (js ''event'') = Inr (Str e)" by simp
  note ne = not_recognized [OF conjunct2 [OF a]]
  show "Plugin_handleMessage p (Obj kvs) = Inr (p, None)"
    unfolding Plugin_handleMessage_def ev using ne by (simp add: Let_def)
  show "PI_handleMessage q (Obj kvs) = Inr (q, None)"
    unfolding PI_handleMessage_def ev using ne by (simp add: Let_def)
next
  assume b: "PI_handleMessage q (Obj kvs) = Inr (q', Some h)"
  then show "q' = q"
    by (simp add: PI_handleMessage_def Let_def split: if_splits)
  from b show "map_of kvs (js ''event'') = Some (Str SEND_TO_PROPERTY_INSPECTOR)"
    by (simp add: PI_handleMessage_def Let_def split: if_splits option.splits)
  from b show "h = onSendToPropertyInspector (js_or (js_get (Obj kvs) (js ''payload'')) (Obj []))"
    by (auto simp add: PI_handleMessage_def Let_def split: if_splits option.splits)
qed

theorem handleMessage_unrecognized_event_witness:
  "map_of [(js ''event'', Str (js ''dialRotate'')), (js ''context'', Str (js ''c1''))] (js ''event'')
      = Some (Str (js ''dialRotate''))
   \<and> js ''dialRotate'' \<notin> set EventsReceived
   \<and> Plugin_handleMessage Plugin_constructor
        (Obj [(js ''event'', Str (js ''dialRotate'')), (js ''context'', Str (js ''c1''))])
      = Inr (Plugin_constructor, None)
   \<and> PI_handleMessage PI_constructor
        (Obj [(js ''event'', Str (js ''dialRotate'')), (js ''context'', Str (js ''c1''))])
      = Inr (PI_constructor, None)
   \<and> PI_handleMessage PI_constructor (Obj [(js ''event'', Str (js ''sendToPropertyInspector''))])
      = Inr (PI_constructor, Some (onSendToPropertyInspector (Obj [])))"
proof -
  have h1: "map_of [(js ''event'', Str (js ''dialRotate'')), (js ''context'', Str (js ''c1''))]
              (js ''event'') = Some (Str (js ''dialRotate''))"
    by simp
  have h2: "js ''dialRotate'' \<notin> set EventsReceived"
    by (simp add: EventsReceived_def event_names js_def)
  have h3: "PI_handleMessage PI_constructor (Obj [(js ''event'', Str (js ''sendToPropertyInspector''))])
      = Inr (PI_constructor, Some (onSendToPropertyInspector (Obj [])))"
    by (simp add: PI_handleMessage_def Let_def SEND_TO_PROPERTY_INSPECTOR_def js_or_def js_def)
  from handleMessage_unrecognized_event
    [of "[(js ''event'', Str (js ''dialRotate'')), (js ''context'', Str (js ''c1''))]"
        "js ''dialRotate''" Plugin_constructor PI_constructor PI_constructor
        "onSendToPropertyInspector (Obj [])"]
    h1 h2 h3
  show ?thesis by blast
qed

subsection \<open>Outbound helpers on a socket that is not open\<close>

lemma send_not_open:
  "websocket this = None \<or> (\<exists>ws. websocket this = Some ws \<and> readyState ws \<noteq> OPEN)
   \<Longrightarrow> send this json = Inr this"
  by (auto simp: send_def)

lemma Plugin_outbound_not_open:
  assumes "websocket this = None \<or> (\<exists>ws. websocket this = Some ws \<and> readyState ws \<noteq> OPEN)"
  shows "Plugin_register this = Inr this"
    and "Plugin_setSettings this context s = Inr this"
    and "Plugin_getSettings this context = Inr this"
    and "Plugin_setGlobalSettings this s = Inr this"
    and "Plugin_getGlobalSettings this = Inr this"
    and "Plugin_openUrl this url = Inr this"
    and "Plugin_logMessage this message = Inr this"
    and "Plugin_setTitle this context title target state = Inr this"
    and "Plugin_setImage this context img target state = Inr this"
    and "Plugin_setState this context state = Inr this"
    and "Plugin_showAlert this context = Inr this"
    and "Plugin_showOk this context = Inr this"
    and "Plugin_sendToPropertyInspector this context payload action = Inr this"
  unfolding Plugin_register_def Plugin_setSettings_def Plugin_getSettings_def
    Plugin_setGlobalSettings_def Plugin_getGlobalSettings_def Plugin_openUrl_def
    Plugin_logMessage_def Plugin_setTitle_def Plugin_setImage_def Plugin_setState_def
    Plugin_showAlert_def Plugin_showOk_def Plugin_sendToPropertyInspector_def Let_def
  by (rule send_not_open [OF assms])+

lemma PI_outbound_not_open:
  assumes "websocket this = None \<or> (\<exists>ws. websocket this = Some ws \<and> readyState ws \<noteq> OPEN)"
  shows "PI_register this = Inr this"
    and "PI_setSettings this s = Inr this"
    and "PI_getSettings this = Inr this"
    and "PI_setGlobalSettings this s = Inr this"
    and "PI_getGlobalSettings this = Inr this"
    and "PI_openUrl this url = Inr this"
    and "actionInfo this \<noteq> Undefined \<Longrightarrow> actionInfo this \<noteq> Null
         \<Longrightarrow> PI_sendToPlugin this payload = Inr this"
  unfolding PI_register_def PI_setSettings_def PI_getSettings_def PI_setGlobalSettings_def
    PI_getGlobalSettings_def PI_openUrl_def PI_sendToPlugin_def
  by (simp_all add: send_not_open [OF assms] get_prop_def)

text \<open>
  C4. A StreamDeckPropertyInspector as its constructor leaves it has a \<^verbatim>\<open>null\<close> socket and
  a \<^verbatim>\<open>null\<close> \<^verbatim>\<open>actionInfo\<close>; \<^verbatim>\<open>sendToPlugin\<close> on it throws a TypeError instead of returning.
\<close>

theorem PI_sendToPlugin_null_socket_throws:
  "websocket PI_constructor = None \<and> PI_sendToPlugin PI_constructor (Obj []) = Inl TypeError"
  by (simp add: PI_constructor_def PI_sendToPlugin_def get_prop_def)

lemma TM_outbound_not_open:
  assumes "\<not> tm_is_open this"
  shows "TM_requestSettings this = Inr this"
    and "TM_requestGlobalSettings this = Inr this"
    and "TM_sendToPlugin this payload = Inr this"
    and "TM_openUrl this url = Inr this"
  using assms
  by (simp_all add: TM_requestSettings_def TM_requestGlobalSettings_def TM_sendToPlugin_def
      TM_openUrl_def)

subsection \<open>Saving the per-action settings\<close>

lemma tm_socket_send_open:
  "tm_is_open this \<Longrightarrow>
   \<exists>ws. tm_websocket this = Some ws \<and> readyState ws = OPEN
        \<and> tm_socket_send this json
            = Inr (this\<lparr>tm_websocket :=
                          Some (ws\<lparr>transmitted := transmitted ws @ [JSON_stringify json]\<rparr>)\<rparr>)"
  by (auto simp: tm_is_open_def tm_socket_send_def ws_send_def split: option.splits)

lemma TM_saveSettings_result:
  "\<exists>this'. TM_saveSettings this = Inr this'
     \<and> settings this' = collect_settings (page this)
     \<and> page this' = page this
     \<and> (if tm_is_open this then
          \<exists>ws. tm_websocket this = Some ws
            \<and> tm_websocket this'
                = Some (ws\<lparr>transmitted := transmitted ws @
                     [JSON_stringify (Obj [(js ''event'', Str (js ''setSettings'')),
                                           (js ''context'', tm_uuid this),
                                           (js ''payload'', settings this')])]\<rparr>)
        else tm_websocket this' = tm_websocket this)"
proof (cases "tm_is_open this")
  case True
  from tm_socket_send_open [OF True] obtain ws where
    "tm_websocket this = Some ws"
    "tm_socket_send this (Obj [(js ''event'', Str (js ''setSettings'')),
         (js ''context'', tm_uuid this), (js ''payload'', collect_settings (page this))])
      = Inr (this\<lparr>tm_websocket := Some (ws\<lparr>transmitted := transmitted ws @
           [JSON_stringify (Obj [(js ''event'', Str (js ''setSettings'')),
              (js ''context'', tm_uuid this), (js ''payload'', collect_settings (page this))])]\<rparr>)\<rparr>)"
    by blast
  with True show ?thesis by (simp add: TM_saveSettings_def Let_def)
next
  case False
  then show ?thesis by (simp add: TM_saveSettings_def Let_def)
qed

lemma js_names_distinct:
  "js ''shieldDuration'' \<noteq> js ''followDuration''" "js ''shieldDuration'' \<noteq> js ''slowDelay''"
  "js ''followDuration'' \<noteq> js ''slowDelay''" "js ''followDuration'' \<noteq> js ''shieldDuration''"
  "js ''slowDelay'' \<noteq> js ''shieldDuration''" "js ''slowDelay'' \<noteq> js ''followDuration''"
  by (simp_all add: js_def)

lemma collect_settings_field:
  assumes "(name, dflt) \<in> set [(js ''shieldDuration'', 300), (js ''followDuration'', 10),
                                 (js ''slowDelay'', 3)]"
    and "doc name = Some el"
  shows "js_get (collect_settings doc) name = js_or (parseInt (val el)) (Num dflt)"
  using assms
  by (auto simp: collect_settings_def numeric_field_def js_names_distinct split: option.splits)


lemmas js_eval =
  js_def parseInt_def is_whitespace_def parse_digits_def digit_value_def trim_def
  round_to_double_small
  form_page_def input_element_def TM_constructor_def TM_connectElgatoStreamDeckSocket_def
  tm_open_event_def tm_is_open_def

text \<open>
  C3. When the element of a numeric field is present and \<^verbatim>\<open>parseInt\<close> of its value is \<^verbatim>\<open>NaN\<close>,
  \<^verbatim>\<open>saveSettings\<close> returns, the settings it stores in \<^verbatim>\<open>this.settings\<close> hold the default of the
  field (300 for \<^verbatim>\<open>shieldDuration\<close>, 10 for \<^verbatim>\<open>followDuration\<close>, 3 for \<^verbatim>\<open>slowDelay\<close>), and on an
  open socket the one frame it transmits is the \<^verbatim>\<open>setSettings\<close> envelope whose payload is
  these settings.
\<close>

theorem saveSettings_parse_failure_default:
  assumes "(name, dflt) \<in> set [(js ''shieldDuration'', 300), (js ''followDuration'', 10),
                                 (js ''slowDelay'', 3)]"
    and "page this name = Some el"
    and "parseInt (val el) = NaN"
  shows "\<exists>this'. TM_saveSettings this = Inr this'
     \<and> js_get (settings this') name = Num dflt
     \<and> (if tm_is_open this then
          \<exists>ws. tm_websocket this = Some ws
            \<and> tm_websocket this'
                = Some (ws\<lparr>transmitted := transmitted ws @
                     [JSON_stringify (Obj [(js ''event'', Str (js ''setSettings'')),
                                           (js ''context'', tm_uuid this),
                                           (js ''payload'', settings this')])]\<rparr>)
        else tm_websocket this' = tm_websocket this)"
proof -
  from TM_saveSettings_result [of this] obtain this' where
    r: "TM_saveSettings this = Inr this'" "settings this' = collect_settings (page this)"
    and sent: "if tm_is_open this then
          \<exists>ws. tm_websocket this = Some ws
            \<and> tm_websocket this'
                = Some (ws\<lparr>transmitted := transmitted ws @
                     [JSON_stringify (Obj [(js ''event'', Str (js ''setSettings'')),
                                           (js ''context'', tm_uuid this),
                                           (js ''payload'', settings this')])]\<rparr>)
        else tm_websocket this' = tm_websocket this"
    by blast
  have "js_get (settings this') name = js_or (parseInt (val el)) (Num dflt)"
    using collect_settings_field [of name dflt "page this" el] assms(1,2) r(2) by simp
  then have "js_get (settings this') name = Num dflt"
    using assms(3) by (simp add: js_or_def)
  with r(1) sent show ?thesis by blast
qed

theorem saveSettings_parse_failure_default_witness:
  "page (tm_open_event (TM_connectElgatoStreamDeckSocket (Str (js ''PI1'')) (Obj [])
           (TM_constructor (form_page [(js ''shieldDuration'', js ''abc''),
                                       (js ''slowDelay'', js ''7'')]))))
        (js ''shieldDuration'') = Some (input_element (js ''abc''))
   \<and> parseInt (val (input_element (js ''abc''))) = NaN
   \<and> (\<exists>this'.
        TM_saveSettings
          (tm_open_event (TM_connectElgatoStreamDeckSocket (Str (js ''PI1'')) (Obj [])
             (TM_constructor (form_page [(js ''shieldDuration'', js ''abc''),
                                         (js ''slowDelay'', js ''7'')])))) = Inr this'
        \<and> js_get (settings this') (js ''shieldDuration'') = Num 300
        \<and> settings this' = Obj [(js ''shieldDuration'', Num 300), (js ''slowDelay'', Num 7)]
        \<and> tm_websocket this'
            = Some \<lparr>readyState = OPEN,
                    transmitted = [js ''{\"event\":\"setSettings\",\"context\":\"PI1\",\"payload\":{\"shieldDuration\":300,\"slowDelay\":7}}'']\<rparr>)"
proof -
  let ?st = "tm_open_event (TM_connectElgatoStreamDeckSocket (Str (js ''PI1'')) (Obj [])
           (TM_constructor (form_page [(js ''shieldDuration'', js ''abc''),
                                       (js ''slowDelay'', js ''7'')])))"
  have h1: "(js ''shieldDuration'', 300) \<in> set [(js ''shieldDuration'', 300::int),
              (js ''followDuration'', 10), (js ''slowDelay'', 3)]"
    by simp
  have h2: "page ?st (js ''shieldDuration'') = Some (input_element (js ''abc''))"
    by (simp add: js_eval)
  have h3: "parseInt (val (input_element (js ''abc''))) = NaN"
    by (simp add: js_eval)
  have op: "tm_is_open ?st"
    by (simp add: js_eval)
  have ws: "tm_websocket ?st = Some \<lparr>readyState = OPEN, transmitted = []\<rparr>"
    by (simp add: js_eval)
  have cs: "collect_settings (page ?st)
              = Obj [(js ''shieldDuration'', Num 300), (js ''slowDelay'', Num 7)]"
    by (simp add: collect_settings_def numeric_field_def js_or_def js_eval)
  have uu: "tm_uuid ?st = Str (js ''PI1'')"
    by (simp add: js_eval)
  have fr: "JSON_stringify (Obj [(js ''event'', Str (js ''setSettings'')),
                (js ''context'', Str (js ''PI1'')),
                (js ''payload'', Obj [(js ''shieldDuration'', Num 300), (js ''slowDelay'', Num 7)])])
            = js ''{\"event\":\"setSettings\",\"context\":\"PI1\",\"payload\":{\"shieldDuration\":300,\"slowDelay\":7}}''"
    by (simp add: JSON_stringify_def QuoteJSONString_def quote_unit_def is_high_surrogate_def
        is_low_surrogate_def number_to_string_safe digits_of.simps js_def)
  from saveSettings_parse_failure_default [OF h1 h2 h3] obtain this' where
    r: "TM_saveSettings ?st = Inr this'" "js_get (settings this') (js ''shieldDuration'') = Num 300"
    "\<exists>ws. tm_websocket ?st = Some ws
            \<and> tm_websocket this'
                = Some (ws\<lparr>transmitted := transmitted ws @
                     [JSON_stringify (Obj [(js ''event'', Str (js ''setSettings'')),
                                           (js ''context'', tm_uuid ?st),
                                           (js ''payload'', settings this')])]\<rparr>)"
    using op by auto
  from TM_saveSettings_result [of ?st] r(1) have s: "settings this' = collect_settings (page ?st)"
    by auto
  from r(3) ws s cs uu fr have "tm_websocket this'
            = Some \<lparr>readyState = OPEN,
                    transmitted = [js ''{\"event\":\"setSettings\",\"context\":\"PI1\",\"payload\":{\"shieldDuration\":300,\"slowDelay\":7}}'']\<rparr>"
    by simp
  with h2 h3 r(1,2) s cs show ?thesis by metis
qed

text \<open>
  C9. When the element of a numeric field is present and \<^verbatim>\<open>parseInt\<close> of its value is zero
  (as for the input \<^verbatim>\<open>0\<close>), \<^verbatim>\<open>saveSettings\<close> returns and the value it stores for the field, and
  transmits on an open socket, is the default of the field and not zero: \<^verbatim>\<open>||\<close> takes its
  right operand for every falsy left operand.
\<close>

theorem saveSettings_zero_replaced_by_default:
  assumes "(name, dflt) \<in> set [(js ''shieldDuration'', 300), (js ''followDuration'', 10),
                                 (js ''slowDelay'', 3)]"
    and "page this name = Some el"
    and "parseInt (val el) = Num 0"
  shows "\<exists>this'. TM_saveSettings this = Inr this'
     \<and> js_get (settings this') name = Num dflt
     \<and> js_get (settings this') name \<noteq> Num 0
     \<and> (if tm_is_open this then
          \<exists>ws. tm_websocket this = Some ws
            \<and> tm_websocket this'
                = Some (ws\<lparr>transmitted := transmitted ws @
                     [JSON_stringify (Obj [(js ''event'', Str (js ''setSettings'')),
                                           (js ''context'', tm_uuid this),
                                           (js ''payload'', settings this')])]\<rparr>)
        else tm_websocket this' = tm_websocket this)"
proof -
  from TM_saveSettings_result [of this] obtain this' where
    r: "TM_saveSettings this = Inr this'" "settings this' = collect_settings (page this)"
    and sent: "if tm_is_open this then
          \<exists>ws. tm_websocket this = Some ws
            \<and> tm_websocket this'
                = Some (ws\<lparr>transmitted := transmitted ws @
                     [JSON_stringify (Obj [(js ''event'', Str (js ''setSettings'')),
                                           (js ''context'', tm_uuid this),
                                           (js ''payload'', settings this')])]\<rparr>)
        else tm_websocket this' = tm_websocket this"
    by blast
  have "js_get (settings this') name = js_or (parseInt (val el)) (Num dflt)"
    using collect_settings_field [of name dflt "page this" el] assms(1,2) r(2) by simp
  then have v: "js_get (settings this') name = Num dflt"
    using assms(3) by (simp add: js_or_def)
  from assms(1) have "dflt \<noteq> 0" by auto
  with v have "js_get (settings this') name \<noteq> Num 0" by simp
  with v r(1) sent show ?thesis by blast
qed

theorem saveSettings_zero_replaced_by_default_witness:
  "page (TM_constructor (form_page [(js ''slowDelay'', js ''0'')])) (js ''slowDelay'')
     = Some (input_element (js ''0''))
   \<and> parseInt (val (input_element (js ''0''))) = Num 0
   \<and> (\<exists>this'.
        TM_saveSettings (TM_constructor (form_page [(js ''slowDelay'', js ''0'')])) = Inr this'
        \<and> js_get (settings this') (js ''slowDelay'') = Num 3
        \<and> tm_websocket this' = None)"
proof -
  let ?st = "TM_constructor (form_page [(js ''slowDelay'', js ''0'')])"
  have h1: "(js ''slowDelay'', 3) \<in> set [(js ''shieldDuration'', 300::int),
              (js ''followDuration'', 10), (js ''slowDelay'', 3)]"
    by simp
  have h2: "page ?st (js ''slowDelay'') = Some (input_element (js ''0''))"
    by (simp add: js_eval)
  have h3: "parseInt (val (input_element (js ''0''))) = Num 0"
    by (simp add: js_eval)
  have cl: "\<not> tm_is_open ?st" "tm_websocket ?st = None"
    by (simp_all add: js_eval)
  from saveSettings_zero_replaced_by_default [OF h1 h2 h3] cl h2 h3
  show ?thesis by auto
qed

subsection \<open>Saving the global settings\<close>

lemma replace_first_absent: "p \<notin> set s \<Longrightarrow> replace_first p s = s"
  by (induction s) auto

lemma replace_first_split: "p \<notin> set pre \<Longrightarrow> replace_first p (pre @ p # post) = pre @ post"
  by (induction pre) auto

lemma TM_sendToPlugin_returns:
  assumes "\<not> tm_is_open this \<or> (tm_actionInfo this \<noteq> Undefined \<and> tm_actionInfo this \<noteq> Null)"
  shows "\<exists>this'. TM_sendToPlugin this payload = Inr this'
           \<and> this' = this\<lparr>tm_websocket := tm_websocket this'\<rparr>
           \<and> (if tm_is_open this then
                \<exists>ws. tm_websocket this = Some ws
                  \<and> tm_websocket this' = Some (ws\<lparr>transmitted := transmitted ws @
                       [JSON_stringify (Obj [(js ''event'', Str (js ''sendToPlugin'')),
                          (js ''action'', js_get (tm_actionInfo this) (js ''action'')),
                          (js ''context'', tm_uuid this), (js ''payload'', payload)])]\<rparr>)
              else tm_websocket this' = tm_websocket this)"
proof (cases "tm_is_open this")
  case True
  with assms have ai: "get_prop (tm_actionInfo this) (js ''action'')
                        = Inr (js_get (tm_actionInfo this) (js ''action''))"
    by (simp add: get_prop_def)
  from tm_socket_send_open [OF True] obtain ws where
    "tm_websocket this = Some ws"
    "tm_socket_send this (Obj [(js ''event'', Str (js ''sendToPlugin'')),
                          (js ''action'', js_get (tm_actionInfo this) (js ''action'')),
                          (js ''context'', tm_uuid this), (js ''payload'', payload)])
      = Inr (this\<lparr>tm_websocket := Some (ws\<lparr>transmitted := transmitted ws @
                       [JSON_stringify (Obj [(js ''event'', Str (js ''sendToPlugin'')),
                          (js ''action'', js_get (tm_actionInfo this) (js ''action'')),
                          (js ''context'', tm_uuid this), (js ''payload'', payload)])]\<rparr>)\<rparr>)"
    by blast
  with True ai show ?thesis by (simp add: TM_sendToPlugin_def)
next
  case False
  then show ?thesis by (simp add: TM_sendToPlugin_def)
qed

lemma TM_saveGlobalSettings_returns:
  assumes "\<not> tm_is_open this \<or> (tm_actionInfo this \<noteq> Undefined \<and> tm_actionInfo this \<noteq> Null)"
  shows "\<exists>this'. TM_saveGlobalSettings this = Inr this'
           \<and> globalSettings this' = Obj (collect_global_settings (page this))
           \<and> page this' = page this"
proof -
  let ?env = "Obj [(js ''event'', Str (js ''setGlobalSettings'')), (js ''context'', tm_uuid this),
                   (js ''payload'', Obj (collect_global_settings (page this)))]"
  obtain this1 where
    s1: "(if tm_is_open this then tm_socket_send this ?env else Inr this) = Inr this1"
    and o1: "tm_is_open this1 = tm_is_open this" "tm_actionInfo this1 = tm_actionInfo this"
      "page this1 = page this"
  proof (cases "tm_is_open this")
    case True
    from tm_socket_send_open [OF True, of ?env] obtain ws where
      w: "tm_websocket this = Some ws" "readyState ws = OPEN"
      "tm_socket_send this ?env = Inr (this\<lparr>tm_websocket :=
          Some (ws\<lparr>transmitted := transmitted ws @ [JSON_stringify ?env]\<rparr>)\<rparr>)"
      by blast
    show ?thesis
      by (rule that [of "this\<lparr>tm_websocket :=
          Some (ws\<lparr>transmitted := transmitted ws @ [JSON_stringify ?env]\<rparr>)\<rparr>"])
        (use True w in \<open>simp_all add: tm_is_open_def\<close>)
  next
    case False
    show ?thesis by (rule that [of this]) (use False in simp_all)
  qed
  from assms o1 have
    "\<not> tm_is_open this1 \<or> (tm_actionInfo this1 \<noteq> Undefined \<and> tm_actionInfo this1 \<noteq> Null)"
    by simp
  from TM_sendToPlugin_returns [OF this] obtain this2 where
    s2: "TM_sendToPlugin this1
           (Obj ((js ''action'', Str (js ''saveGlobalSettings''))
                 # collect_global_settings (page this))) = Inr this2"
    and o2: "this2 = this1\<lparr>tm_websocket := tm_websocket this2\<rparr>"
    by blast
  from o2 have "page this2 = page this1"
    by (metis TwitchModPropertyInspector.select_convs(6) TwitchModPropertyInspector.surjective
        TwitchModPropertyInspector.update_convs(1))
  with s1 s2 o1 show ?thesis
    by (simp add: TM_saveGlobalSettings_def Let_def)
qed

lemma global_names_distinct:
  "js ''twitchChannel'' \<noteq> js ''twitchToken''" "js ''twitchChannel'' \<noteq> js ''twitchBroadcasterId''"
  "js ''twitchChannel'' \<noteq> js ''twitchModeratorId''" "js ''twitchChannel'' \<noteq> js ''twitchClientId''"
  by (simp_all add: js_def)

lemma collect_global_settings_channel:
  "doc (js ''twitchChannel'') = Some el \<Longrightarrow>
   js_get (Obj (collect_global_settings doc)) (js ''twitchChannel'')
     = Str (replace_first 64 (trim (val el)))"
  by (simp add: collect_global_settings_def text_field_def)

text \<open>
  C10. When the \<^verbatim>\<open>twitchChannel\<close> element is present (and \<^verbatim>\<open>sendToPlugin\<close> does not throw: the
  socket is not open, or \<^verbatim>\<open>actionInfo\<close> is an object), \<^verbatim>\<open>saveGlobalSettings\<close> returns and stores
  as \<^verbatim>\<open>twitchChannel\<close> the trimmed value without its first \<^verbatim>\<open>@\<close>, wherever that stands: the
  trimmed value itself when it holds no \<^verbatim>\<open>@\<close>, and \<open>pre @ post\<close> when it is \<open>pre\<close>, an \<^verbatim>\<open>@\<close>,
  \<open>post\<close> with no \<^verbatim>\<open>@\<close> in \<open>pre\<close>; every \<^verbatim>\<open>@\<close> of \<open>post\<close> is kept.
\<close>

theorem saveGlobalSettings_removes_first_at:
  assumes "page this (js ''twitchChannel'') = Some el"
    and "\<not> tm_is_open this \<or> (tm_actionInfo this \<noteq> Undefined \<and> tm_actionInfo this \<noteq> Null)"
  shows "\<exists>this' stored. TM_saveGlobalSettings this = Inr this'
     \<and> js_get (globalSettings this') (js ''twitchChannel'') = Str stored
     \<and> (64 \<notin> set (trim (val el)) \<longrightarrow> stored = trim (val el))
     \<and> (\<forall>pre post. trim (val el) = pre @ 64 # post \<and> 64 \<notin> set pre \<longrightarrow> stored = pre @ post)"
proof -
  from TM_saveGlobalSettings_returns [OF assms(2)] obtain this' where
    r: "TM_saveGlobalSettings this = Inr this'"
       "globalSettings this' = Obj (collect_global_settings (page this))"
    by blast
  have "js_get (globalSettings this') (js ''twitchChannel'')
          = Str (replace_first 64 (trim (val el)))"
    using collect_global_settings_channel [of "page this" el] assms(1) r(2) by simp
  with r(1) show ?thesis
    by (intro exI [of _ this'] exI [of _ "replace_first 64 (trim (val el))"])
      (auto simp: replace_first_absent replace_first_split)
qed

theorem saveGlobalSettings_removes_first_at_witness:
  "page (TM_constructor (form_page [(js ''twitchChannel'', js '' foo@bar '')])) (js ''twitchChannel'')
     = Some (input_element (js '' foo@bar ''))
   \<and> \<not> tm_is_open (TM_constructor (form_page [(js ''twitchChannel'', js '' foo@bar '')]))
   \<and> trim (val (input_element (js '' foo@bar ''))) = js ''foo'' @ 64 # js ''bar''
   \<and> 64 \<notin> set (js ''foo'')
   \<and> (\<exists>this'. TM_saveGlobalSettings
                  (TM_constructor (form_page [(js ''twitchChannel'', js '' foo@bar '')])) = Inr this'
        \<and> js_get (globalSettings this') (js ''twitchChannel'') = Str (js ''foobar''))
   \<and> page (tm_open_event (TM_connectElgatoStreamDeckSocket (Str (js ''PI1'')) (Obj [])
              (TM_constructor (form_page [(js ''twitchChannel'', js ''@@name'')]))))
        (js ''twitchChannel'') = Some (input_element (js ''@@name''))
   \<and> tm_actionInfo (tm_open_event (TM_connectElgatoStreamDeckSocket (Str (js ''PI1'')) (Obj [])
              (TM_constructor (form_page [(js ''twitchChannel'', js ''@@name'')])))) = Obj []
   \<and> trim (val (input_element (js ''@@name''))) = [] @ 64 # js ''@name''
   \<and> (\<exists>this'. TM_saveGlobalSettings
                  (tm_open_event (TM_connectElgatoStreamDeckSocket (Str (js ''PI1'')) (Obj [])
                     (TM_constructor (form_page [(js ''twitchChannel'', js ''@@name'')]))))
                = Inr this'
        \<and> js_get (globalSettings this') (js ''twitchChannel'') = Str (js ''@name''))"
proof -
  let ?a = "TM_constructor (form_page [(js ''twitchChannel'', js '' foo@bar '')])"
  let ?b = "tm_open_event (TM_connectElgatoStreamDeckSocket (Str (js ''PI1'')) (Obj [])
              (TM_constructor (form_page [(js ''twitchChannel'', js ''@@name'')])))"
  have a1: "page ?a (js ''twitchChannel'') = Some (input_element (js '' foo@bar ''))"
    by (simp add: js_eval)
  have a2: "\<not> tm_is_open ?a"
    by (simp add: js_eval)
  have a3: "trim (val (input_element (js '' foo@bar ''))) = js ''foo'' @ 64 # js ''bar''"
    by (simp add: js_eval)
  have a4: "64 \<notin> set (js ''foo'')"
    by (simp add: js_def)
  have b1: "page ?b (js ''twitchChannel'') = Some (input_element (js ''@@name''))"
    by (simp add: js_eval)
  have b2: "tm_actionInfo ?b = Obj []"
    by (simp add: js_eval)
  have b3: "trim (val (input_element (js ''@@name''))) = [] @ 64 # js ''@name''"
    by (simp add: js_eval)
  from saveGlobalSettings_removes_first_at [OF a1] a2 a3 a4
  have ra: "\<exists>this'. TM_saveGlobalSettings ?a = Inr this'
        \<and> js_get (globalSettings this') (js ''twitchChannel'') = Str (js ''foo'' @ js ''bar'')"
    by metis
  have rb0: "\<not> tm_is_open ?b \<or> (tm_actionInfo ?b \<noteq> Undefined \<and> tm_actionInfo ?b \<noteq> Null)"
    using b2 by simp
  from saveGlobalSettings_removes_first_at [OF b1 rb0] b3
  have rb: "\<exists>this'. TM_saveGlobalSettings ?b = Inr this'
        \<and> js_get (globalSettings this') (js ''twitchChannel'') = Str ([] @ js ''@name'')"
    by (metis empty_iff list.set(1))
  have cat: "js ''foo'' @ js ''bar'' = js ''foobar''" "[] @ js ''@name'' = js ''@name''"
    by (simp_all add: js_def)
  from a1 a2 a3 a4 ra b1 b2 b3 rb show ?thesis
    unfolding cat by blast
qed

subsection \<open>Validation\<close>

lemma username_regex_test:
  "regex_test username_regex s \<longleftrightarrow>
     4 \<le> length s \<and> length s \<le> 25
     \<and> (\<forall>c\<in>set s. (97 \<le> c \<and> c \<le> 122) \<or> (65 \<le> c \<and> c \<le> 90) \<or> (48 \<le> c \<and> c \<le> 57) \<or> c = 95)"
  by (auto simp: username_regex_def list_all_iff)

lemma numeric_regex_test:
  "regex_test numeric_regex s \<longleftrightarrow> s \<noteq> [] \<and> (\<forall>c\<in>set s. 48 \<le> c \<and> c \<le> 57)"
  by (cases s) (auto simp: numeric_regex_def list_all_iff)

lemma Utils_isDirectId_untrimmed:
  "Utils_isDirectId v \<longleftrightarrow> v \<noteq> [] \<and> (\<forall>c\<in>set v. 48 \<le> c \<and> c \<le> 57)"
  by (simp add: Utils_isDirectId_def numeric_regex_test)

text \<open>
  C6, as the code has it. \<^verbatim>\<open>validateTwitchUsername\<close> of the property inspector passes exactly
  when the input, with its first \<^verbatim>\<open>@\<close> removed and then trimmed, is 4 to 25 code units of
  \<^verbatim>\<open>[a-zA-Z0-9_]\<close>. \<^verbatim>\<open>Utils.validateTwitchUsername\<close> tests the input as it is given: it passes
  exactly when the input itself is 4 to 25 such code units.
\<close>

theorem validateTwitchUsername_characterised:
  "(TM_validateTwitchUsername u \<longleftrightarrow>
      (let c = trim (replace_first 64 u) in
       4 \<le> length c \<and> length c \<le> 25
       \<and> (\<forall>x\<in>set c. (97 \<le> x \<and> x \<le> 122) \<or> (65 \<le> x \<and> x \<le> 90) \<or> (48 \<le> x \<and> x \<le> 57)
                      \<or> x = 95)))
   \<and> (Utils_validateTwitchUsername u \<longleftrightarrow>
        4 \<le> length u \<and> length u \<le> 25
        \<and> (\<forall>x\<in>set u. (97 \<le> x \<and> x \<le> 122) \<or> (65 \<le> x \<and> x \<le> 90) \<or> (48 \<le> x \<and> x \<le> 57)
                       \<or> x = 95))"
  by (simp add: TM_validateTwitchUsername_def Utils_validateTwitchUsername_def Let_def
      username_regex_test)

theorem validateTwitchUsername_characterised_witness:
  "trim (replace_first 64 (js ''@Ninja'')) = js ''Ninja''
   \<and> TM_validateTwitchUsername (js ''@Ninja'')
   \<and> \<not> Utils_validateTwitchUsername (js ''@Ninja'')
   \<and> Utils_validateTwitchUsername (js ''Ninja'')
   \<and> \<not> TM_validateTwitchUsername (js ''ab'')
   \<and> \<not> Utils_validateTwitchUsername (js ''ab'')"
proof -
  have c: "trim (replace_first 64 (js ''@Ninja'')) = js ''Ninja''"
    "trim (replace_first 64 (js ''ab'')) = js ''ab''"
    by (simp_all add: js_def trim_def is_whitespace_def)
  from validateTwitchUsername_characterised [of "js ''@Ninja''"]
    validateTwitchUsername_characterised [of "js ''Ninja''"]
    validateTwitchUsername_characterised [of "js ''ab''"] c
  show ?thesis
    by (simp add: Let_def js_def)
qed

text \<open>
  C6 as claimed fails for \<^verbatim>\<open>Utils.validateTwitchUsername\<close>: the input \<^verbatim>\<open>@Ninja\<close>, with its
  \<^verbatim>\<open>@\<close> removed and trimmed, matches the expression, and the function rejects it.
\<close>

theorem Utils_validateTwitchUsername_at_counterexample:
  "regex_test username_regex (trim (replace_first 64 (js ''@Ninja'')))
   \<and> \<not> Utils_validateTwitchUsername (js ''@Ninja'')"
  by (simp add: Utils_validateTwitchUsername_def username_regex_def js_def trim_def
      is_whitespace_def)

lemma check_fst: "fst (check failed message st) = (\<not> failed \<and> fst st)"
  by (simp add: check_def)

lemma check_snd: "snd (check failed message st) = snd st @ (if failed then [message] else [])"
  by (simp add: check_def)

lemma validation_errors:
  "snd (validation doc) =
     (if input_fails doc (js ''twitchChannel'') (\<lambda>v. \<not> TM_validateTwitchUsername v)
      then [js ''Invalid Twitch channel name''] else [])
     @ (if input_fails doc (js ''twitchToken'') (\<lambda>v. v = [])
        then [js ''OAuth token is required''] else [])
     @ (if input_fails doc (js ''twitchBroadcasterId'') (\<lambda>v. \<not> regex_test numeric_regex v)
        then [js ''Broadcaster ID must be numeric''] else [])
     @ (if input_fails doc (js ''twitchModeratorId'') (\<lambda>v. \<not> regex_test numeric_regex v)
        then [js ''Moderator ID must be numeric''] else [])"
  unfolding validation_def check_snd by simp

lemma validation_isValid: "fst (validation doc) \<longleftrightarrow> snd (validation doc) = []"
  unfolding validation_errors unfolding validation_def check_fst by simp

lemma messages_distinct:
  "js ''Broadcaster ID must be numeric'' \<noteq> js ''Invalid Twitch channel name''"
  "js ''Broadcaster ID must be numeric'' \<noteq> js ''OAuth token is required''"
  "js ''Broadcaster ID must be numeric'' \<noteq> js ''Moderator ID must be numeric''"
  "js ''Moderator ID must be numeric'' \<noteq> js ''Invalid Twitch channel name''"
  "js ''Moderator ID must be numeric'' \<noteq> js ''OAuth token is required''"
  "js ''Moderator ID must be numeric'' \<noteq> js ''Broadcaster ID must be numeric''"
  by (simp_all add: js_def)

text \<open>
  C2, as the code has it. \<^verbatim>\<open>validateInputs\<close> tests the value of an ID input as it stands, not
  trimmed: the message of the broadcaster ID (of the moderator ID) is among the errors
  exactly when its element is present and its value is not a non-empty run of the digits
  \<^verbatim>\<open>0\<close> to \<^verbatim>\<open>9\<close>; \<^verbatim>\<open>isValid\<close>, the value returned, is false exactly when some error was pushed.
\<close>

theorem validateInputs_id_untrimmed:
  "(js ''Broadcaster ID must be numeric'' \<in> set (snd (validation (page this))) \<longleftrightarrow>
      (\<exists>b. page this (js ''twitchBroadcasterId'') = Some b
            \<and> \<not> (val b \<noteq> [] \<and> (\<forall>c\<in>set (val b). 48 \<le> c \<and> c \<le> 57))))
   \<and> (js ''Moderator ID must be numeric'' \<in> set (snd (validation (page this))) \<longleftrightarrow>
      (\<exists>m. page this (js ''twitchModeratorId'') = Some m
            \<and> \<not> (val m \<noteq> [] \<and> (\<forall>c\<in>set (val m). 48 \<le> c \<and> c \<le> 57))))
   \<and> (fst (TM_validateInputs this) \<longleftrightarrow> snd (validation (page this)) = [])"
proof (intro conjI)
  show "js ''Broadcaster ID must be numeric'' \<in> set (snd (validation (page this))) \<longleftrightarrow>
      (\<exists>b. page this (js ''twitchBroadcasterId'') = Some b
            \<and> \<not> (val b \<noteq> [] \<and> (\<forall>c\<in>set (val b). 48 \<le> c \<and> c \<le> 57)))"
    unfolding validation_errors
    by (simp add: messages_distinct input_fails_def numeric_regex_test split: option.splits)
  show "js ''Moderator ID must be numeric'' \<in> set (snd (validation (page this))) \<longleftrightarrow>
      (\<exists>m. page this (js ''twitchModeratorId'') = Some m
            \<and> \<not> (val m \<noteq> [] \<and> (\<forall>c\<in>set (val m). 48 \<le> c \<and> c \<le> 57)))"
    unfolding validation_errors
    by (simp add: messages_distinct input_fails_def numeric_regex_test split: option.splits)
  show "fst (TM_validateInputs this) \<longleftrightarrow> snd (validation (page this)) = []"
    using validation_isValid [of "page this"]
    by (simp add: TM_validateInputs_def split_beta)
qed

theorem validateInputs_id_untrimmed_witness:
  "page (TM_constructor (form_page [(js ''twitchBroadcasterId'', js ''123abc''),
                                    (js ''twitchModeratorId'', js ''42'')]))
        (js ''twitchBroadcasterId'') = Some (input_element (js ''123abc''))
   \<and> js ''Broadcaster ID must be numeric''
        \<in> set (snd (validation (page (TM_constructor
                   (form_page [(js ''twitchBroadcasterId'', js ''123abc''),
                               (js ''twitchModeratorId'', js ''42'')])))))
   \<and> js ''Moderator ID must be numeric''
        \<notin> set (snd (validation (page (TM_constructor
                   (form_page [(js ''twitchBroadcasterId'', js ''123abc''),
                               (js ''twitchModeratorId'', js ''42'')])))))
   \<and> \<not> fst (TM_validateInputs (TM_constructor
                (form_page [(js ''twitchBroadcasterId'', js ''123abc''),
                            (js ''twitchModeratorId'', js ''42'')])))"
proof -
  let ?st = "TM_constructor (form_page [(js ''twitchBroadcasterId'', js ''123abc''),
                                        (js ''twitchModeratorId'', js ''42'')])"
  have b: "page ?st (js ''twitchBroadcasterId'') = Some (input_element (js ''123abc''))"
    and m: "page ?st (js ''twitchModeratorId'') = Some (input_element (js ''42''))"
    by (simp_all add: TM_constructor_def form_page_def js_def)
  have vb: "val (input_element (js ''123abc'')) = [49, 50, 51, 97, 98, 99]"
    and vm: "val (input_element (js ''42'')) = [52, 50]"
    by (simp_all add: input_element_def js_def)
  from validateInputs_id_untrimmed [of ?st]
  have "js ''Broadcaster ID must be numeric'' \<in> set (snd (validation (page ?st)))"
    and "js ''Moderator ID must be numeric'' \<notin> set (snd (validation (page ?st)))"
    and "fst (TM_validateInputs ?st) \<longleftrightarrow> snd (validation (page ?st)) = []"
    unfolding b m by (simp_all add: vb vm)
  with b show ?thesis by auto
qed

text \<open>
  C2 as claimed fails: the broadcaster ID \<^verbatim>\<open>123\<close> between two spaces matches \<^verbatim>\<open>^\d+$\<close> once
  trimmed, and \<^verbatim>\<open>validateInputs\<close> pushes the error for it and returns \<^verbatim>\<open>false\<close>.
\<close>

theorem validateInputs_whitespace_counterexample:
  "regex_test numeric_regex (trim (js '' 123 ''))
   \<and> validation (form_page [(js ''twitchBroadcasterId'', js '' 123 '')])
       = (False, [js ''Broadcaster ID must be numeric''])
   \<and> \<not> fst (TM_validateInputs
              (TM_constructor (form_page [(js ''twitchBroadcasterId'', js '' 123 '')])))"
  by (simp add: validation_def check_def input_fails_def TM_validateInputs_def numeric_regex_def
      TM_constructor_def form_page_def input_element_def trim_def is_whitespace_def js_def)

subsection \<open>The connection test and its timer\<close>

lemma test_ids_distinct:
  "js ''testConnection'' \<noteq> js ''connectionStatus''" "js ''connectionStatus'' \<noteq> js ''testConnection''"
  "js ''saveButton'' \<noteq> js ''testConnection''" "js ''saveButton'' \<noteq> js ''connectionStatus''"
  "js ''testConnection'' \<noteq> js ''saveButton''" "js ''connectionStatus'' \<noteq> js ''saveButton''"
  by (simp_all add: js_def)

lemma update_element_other: "k \<noteq> name \<Longrightarrow> update_element name f doc k = doc k"
  by (simp add: update_element_def split: option.splits)

lemma update_element_same:
  "update_element name f doc name = map_option f (doc name)"
  by (simp add: update_element_def split: option.splits)

lemma TM_sendToPlugin_frame:
  "TM_sendToPlugin this payload = Inr this' \<Longrightarrow>
   page this' = page this \<and> timers this' = timers this \<and> now this' = now this"
  by (auto simp: TM_sendToPlugin_def tm_socket_send_def split: if_splits sum.splits option.splits)

lemma TM_testTwitchConnection_result:
  assumes "TM_testTwitchConnection this = Inr this1"
  shows "page this1 =
           update_element (js ''connectionStatus'')
             (\<lambda>el. el\<lparr>textContent := js ''Testing connection...'',
                        className := js ''status-testing''\<rparr>)
             (update_element (js ''testConnection'')
                (\<lambda>el. el\<lparr>disabled := True, textContent := js ''Testing...''\<rparr>) (page this))"
    and "timers this1 = timers this @ [(now this + 10000, TestTimeout)]"
  using assms
  by (auto simp: TM_testTwitchConnection_def Let_def setTimeout_def
      split: sum.splits dest!: TM_sendToPlugin_frame)

text \<open>Once the button is enabled, no timer callback touches the button or the status.\<close>

lemma run_callback_enabled:
  assumes "doc (js ''testConnection'') = Some b" "\<not> disabled b"
  shows "run_callback cb doc (js ''testConnection'') = Some b"
    and "run_callback cb doc (js ''connectionStatus'') = doc (js ''connectionStatus'')"
  using assms
  by (cases cb; simp add: test_timeout_def update_element_other test_ids_distinct)+

lemma fold_callbacks_enabled:
  assumes "doc (js ''testConnection'') = Some b" "\<not> disabled b"
  shows "fold (\<lambda>(d, cb). run_callback cb) xs doc (js ''testConnection'') = Some b
       \<and> fold (\<lambda>(d, cb). run_callback cb) xs doc (js ''connectionStatus'')
           = doc (js ''connectionStatus'')"
  using assms
proof (induction xs arbitrary: doc)
  case Nil
  then show ?case by simp
next
  case (Cons x xs)
  obtain d cb where x: "x = (d, cb)" by (cases x)
  note rc = run_callback_enabled [of doc b cb, OF Cons.prems]
  note ih = Cons.IH [of "run_callback cb doc", OF rc(1) Cons.prems(2)]
  with rc(2) show ?case
    by (simp add: x del: run_callback.simps)
qed

text \<open>While the button is disabled, the first \<open>TestTimeout\<close> that runs reports the timeout.\<close>

lemma fold_callbacks_testing:
  assumes "doc (js ''testConnection'') = Some b" "disabled b" "doc (js ''connectionStatus'') = Some s"
  shows "if TestTimeout \<in> snd ` set xs then
           fold (\<lambda>(d, cb). run_callback cb) xs doc (js ''testConnection'')
             = Some (b\<lparr>disabled := False, textContent := js ''Test Connection''\<rparr>)
           \<and> fold (\<lambda>(d, cb). run_callback cb) xs doc (js ''connectionStatus'')
             = Some (s\<lparr>textContent := js ''Test timed out'', className := js ''status-error''\<rparr>)
         else
           fold (\<lambda>(d, cb). run_callback cb) xs doc (js ''testConnection'') = Some b
           \<and> fold (\<lambda>(d, cb). run_callback cb) xs doc (js ''connectionStatus'') = Some s"
  using assms
proof (induction xs arbitrary: doc)
  case Nil
  then show ?case by simp
next
  case (Cons x xs)
  obtain d cb where x: "x = (d, cb)" by (cases x)
  show ?case
  proof (cases cb)
    case TestTimeout
    let ?doc' = "run_callback TestTimeout doc"
    have 1: "?doc' (js ''testConnection'')
               = Some (b\<lparr>disabled := False, textContent := js ''Test Connection''\<rparr>)"
      and 2: "?doc' (js ''connectionStatus'')
               = Some (s\<lparr>textContent := js ''Test timed out'', className := js ''status-error''\<rparr>)"
      using Cons.prems
      by (simp_all add: test_timeout_def update_element_other update_element_same
          test_ids_distinct)
    have "\<not> disabled (b\<lparr>disabled := False, textContent := js ''Test Connection''\<rparr>)"
      by simp
    note en = fold_callbacks_enabled
      [of ?doc' "b\<lparr>disabled := False, textContent := js ''Test Connection''\<rparr>" xs, OF 1 this]
    with 2 show ?thesis
      by (simp add: x TestTimeout del: run_callback.simps)
  next
    case (SaveConfirmationReset t)
    let ?doc' = "run_callback (SaveConfirmationReset t) doc"
    have 1: "?doc' (js ''testConnection'') = Some b"
      and 2: "?doc' (js ''connectionStatus'') = Some s"
      using Cons.prems by (simp_all add: update_element_other test_ids_distinct)
    note ih = Cons.IH [of ?doc', OF 1 Cons.prems(2) 2]
    then show ?thesis
      by (simp add: x SaveConfirmationReset del: run_callback.simps)
  qed
qed

lemma page_advance:
  "page (advance t this)
     = fold (\<lambda>(d, cb). run_callback cb)
         (sort_key fst (filter (\<lambda>(d, cb). d \<le> t) (timers this))) (page this)"
  by (simp add: advance_def Let_def)

lemma TM_handleConnectionTestResult_page:
  assumes "page this (js ''testConnection'') = Some b" "page this (js ''connectionStatus'') = Some s"
  shows "page (TM_handleConnectionTestResult success message this) (js ''testConnection'')
           = Some (b\<lparr>disabled := False, textContent := js ''Test Connection''\<rparr>)"
    and "page (TM_handleConnectionTestResult success message this) (js ''connectionStatus'')
           = Some (s\<lparr>textContent :=
                        ToString (js_or message
                          (if truthy success then Str (js ''Connected successfully!'')
                           else Str (js ''Connection failed''))),
                      className := (if truthy success then js ''status-success''
                                    else js ''status-error'')\<rparr>)"
  using assms
  by (simp_all add: TM_handleConnectionTestResult_def Let_def update_element_other
      update_element_same test_ids_distinct)

lemma TM_testTwitchConnection_returns:
  assumes "globalSettings this \<noteq> Undefined \<and> globalSettings this \<noteq> Null"
    and "\<not> tm_is_open this \<or> (tm_actionInfo this \<noteq> Undefined \<and> tm_actionInfo this \<noteq> Null)"
  shows "\<exists>this1. TM_testTwitchConnection this = Inr this1"
proof -
  let ?doc2 = "update_element (js ''connectionStatus'')
                 (\<lambda>el. el\<lparr>textContent := js ''Testing connection...'',
                            className := js ''status-testing''\<rparr>)
                 (update_element (js ''testConnection'')
                    (\<lambda>el. el\<lparr>disabled := True, textContent := js ''Testing...''\<rparr>) (page this))"
  let ?this1 = "this\<lparr>page := ?doc2\<rparr>"
  have g: "get_prop (globalSettings ?this1) (js ''twitchToken'')
             = Inr (js_get (globalSettings this) (js ''twitchToken''))"
    using assms(1) by (simp add: get_prop_def)
  have "\<not> tm_is_open ?this1
        \<or> (tm_actionInfo ?this1 \<noteq> Undefined \<and> tm_actionInfo ?this1 \<noteq> Null)"
    using assms(2) by (simp add: tm_is_open_def)
  from TM_sendToPlugin_returns [OF this] obtain this2 where
    "TM_sendToPlugin ?this1
       (Obj [(js ''action'', Str (js ''testConnection'')),
             (js ''twitchToken'', js_get (globalSettings this) (js ''twitchToken'')),
             (js ''twitchClientId'', js_get (globalSettings ?this1) (js ''twitchClientId'')),
             (js ''twitchBroadcasterId'',
                js_get (globalSettings ?this1) (js ''twitchBroadcasterId''))]) = Inr this2"
    by blast
  with g show ?thesis
    by (simp add: TM_testTwitchConnection_def Let_def)
qed

text \<open>
  The steps of the connection test, for an invocation that has returned \<open>this1\<close>.
\<close>

lemma connection_test_timeout_steps:
  assumes "page this (js ''testConnection'') = Some b"
    and "page this (js ''connectionStatus'') = Some s"
    and "TM_testTwitchConnection this = Inr this1"
  shows "timers this1 = timers this @ [(now this + 10000, TestTimeout)]
    \<and> (\<forall>t. now this + 10000 \<le> t \<longrightarrow>
          page (advance t this1) (js ''testConnection'')
            = Some (b\<lparr>disabled := False, textContent := js ''Test Connection''\<rparr>)
          \<and> page (advance t this1) (js ''connectionStatus'')
            = Some (s\<lparr>textContent := js ''Test timed out'', className := js ''status-error''\<rparr>))
    \<and> (\<forall>t. t < now this + 10000 \<and> TestTimeout \<notin> snd ` set (timers this) \<longrightarrow>
          page (advance t this1) (js ''testConnection'')
            = Some (b\<lparr>disabled := True, textContent := js ''Testing...''\<rparr>)
          \<and> page (advance t this1) (js ''connectionStatus'')
            = Some (s\<lparr>textContent := js ''Testing connection...'',
                       className := js ''status-testing''\<rparr>))
    \<and> (\<forall>t1 payload this2 t2.
          TM_onSendToPropertyInspector payload (advance t1 this1) = Inr this2
          \<and> js_get payload (js ''event'') = Str (js ''connectionTest'') \<longrightarrow>
          (\<exists>b' s'. page this2 (js ''testConnection'') = Some b'
             \<and> \<not> disabled b' \<and> textContent b' = js ''Test Connection''
             \<and> page this2 (js ''connectionStatus'') = Some s'
             \<and> textContent s'
                 = ToString (js_or (js_get payload (js ''message''))
                     (if truthy (js_get payload (js ''success''))
                      then Str (js ''Connected successfully!'') else Str (js ''Connection failed'')))
             \<and> className s' = (if truthy (js_get payload (js ''success''))
                               then js ''status-success'' else js ''status-error'')
             \<and> page (advance t2 this2) (js ''testConnection'') = Some b'
             \<and> page (advance t2 this2) (js ''connectionStatus'') = Some s'))"
proof -
  let ?b1 = "b\<lparr>disabled := True, textContent := js ''Testing...''\<rparr>"
  let ?s1 = "s\<lparr>textContent := js ''Testing connection...'', className := js ''status-testing''\<rparr>"
  note res = TM_testTwitchConnection_result [OF assms(3)]
  have p1: "page this1 (js ''testConnection'') = Some ?b1"
    and p2: "page this1 (js ''connectionStatus'') = Some ?s1"
    using assms(1,2)
    by (simp_all add: res(1) update_element_other update_element_same test_ids_distinct)
  have d1: "disabled ?b1" by simp
  have run: "if TestTimeout \<in> snd ` set xs then
           fold (\<lambda>(d, cb). run_callback cb) xs (page this1) (js ''testConnection'')
             = Some (b\<lparr>disabled := False, textContent := js ''Test Connection''\<rparr>)
           \<and> fold (\<lambda>(d, cb). run_callback cb) xs (page this1) (js ''connectionStatus'')
             = Some (s\<lparr>textContent := js ''Test timed out'', className := js ''status-error''\<rparr>)
         else
           fold (\<lambda>(d, cb). run_callback cb) xs (page this1) (js ''testConnection'') = Some ?b1
           \<and> fold (\<lambda>(d, cb). run_callback cb) xs (page this1) (js ''connectionStatus'')
               = Some ?s1" for xs
    using fold_callbacks_testing [of "page this1" ?b1 ?s1 xs, OF p1 d1 p2] by simp
  have late: "page (advance t this1) (js ''testConnection'')
            = Some (b\<lparr>disabled := False, textContent := js ''Test Connection''\<rparr>)
          \<and> page (advance t this1) (js ''connectionStatus'')
            = Some (s\<lparr>textContent := js ''Test timed out'', className := js ''status-error''\<rparr>)"
    if "now this + 10000 \<le> t" for t
  proof -
    have "TestTimeout \<in> snd ` set (sort_key fst (filter (\<lambda>(d, cb). d \<le> t) (timers this1)))"
      using that by (force simp: res(2))
    with run [of "sort_key fst (filter (\<lambda>(d, cb). d \<le> t) (timers this1))"]
    show ?thesis by (simp add: page_advance)
  qed
  have early: "page (advance t this1) (js ''testConnection'') = Some ?b1
          \<and> page (advance t this1) (js ''connectionStatus'') = Some ?s1"
    if "t < now this + 10000" "TestTimeout \<notin> snd ` set (timers this)" for t
  proof -
    have "TestTimeout \<notin> snd ` set (sort_key fst (filter (\<lambda>(d, cb). d \<le> t) (timers this1)))"
      using that by (auto simp: res(2))
    with run [of "sort_key fst (filter (\<lambda>(d, cb). d \<le> t) (timers this1))"]
    show ?thesis by (simp add: page_advance)
  qed
  have reply: "\<exists>b' s'. page this2 (js ''testConnection'') = Some b'
             \<and> \<not> disabled b' \<and> textContent b' = js ''Test Connection''
             \<and> page this2 (js ''connectionStatus'') = Some s'
             \<and> textContent s'
                 = ToString (js_or (js_get payload (js ''message''))
                     (if truthy (js_get payload (js ''success''))
                      then Str (js ''Connected successfully!'') else Str (js ''Connection failed'')))
             \<and> className s' = (if truthy (js_get payload (js ''success''))
                               then js ''status-success'' else js ''status-error'')
             \<and> page (advance t2 this2) (js ''testConnection'') = Some b'
             \<and> page (advance t2 this2) (js ''connectionStatus'') = Some s'"
    if r: "TM_onSendToPropertyInspector payload (advance t1 this1) = Inr this2"
      and e: "js_get payload (js ''event'') = Str (js ''connectionTest'')"
    for t1 payload this2 t2
  proof -
    let ?st = "advance t1 this1"
    from run [of "sort_key fst (filter (\<lambda>(d, cb). d \<le> t1) (timers this1))"]
    obtain b0 s0 where
      q: "page ?st (js ''testConnection'') = Some b0" "page ?st (js ''connectionStatus'') = Some s0"
      by (auto simp: page_advance split: if_splits)
    from r e have t2: "this2 = TM_handleConnectionTestResult (js_get payload (js ''success''))
                          (js_get payload (js ''message'')) ?st"
      by (auto simp: TM_onSendToPropertyInspector_def get_prop_def split: if_splits)
    note h = TM_handleConnectionTestResult_page [OF q, of "js_get payload (js ''success'')"
        "js_get payload (js ''message'')", folded t2]
    have en: "\<not> disabled (b0\<lparr>disabled := False, textContent := js ''Test Connection''\<rparr>)"
      by simp
    note keep = fold_callbacks_enabled [of "page this2" _
        "sort_key fst (filter (\<lambda>(d, cb). d \<le> t2) (timers this2))", OF h(1) en]
    show ?thesis
      using h keep by (simp add: page_advance)
  qed
  from res(2) late early reply show ?thesis
    by blast
qed

text \<open>
  C7. Take a page that has the button \<^verbatim>\<open>testConnection\<close> and the element
  \<^verbatim>\<open>connectionStatus\<close>, and an inspector on which \<^verbatim>\<open>sendToPlugin\<close> does not throw (the socket
  is not open, or \<^verbatim>\<open>actionInfo\<close> is an object). Then \<^verbatim>\<open>testTwitchConnection\<close> returns and arms one
  timer, due 10000 ms later. When the clock reaches that time with no reply processed, the
  button is enabled with the text \<^verbatim>\<open>Test Connection\<close> and the status reads
  \<^verbatim>\<open>Test timed out\<close> with the class \<^verbatim>\<open>status-error\<close>; before that time, with no timeout of an
  earlier test pending, both elements stay as the test has set them. When a
  \<^verbatim>\<open>connectionTest\<close> reply is processed at any moment after the test, the button is enabled and
  the status is the one of the reply, and no timer that fires later changes the button or
  the status.
\<close>

theorem connection_test_timeout:
  assumes "page this (js ''testConnection'') = Some b"
    and "page this (js ''connectionStatus'') = Some s"
    and "globalSettings this \<noteq> Undefined \<and> globalSettings this \<noteq> Null"
    and "\<not> tm_is_open this \<or> (tm_actionInfo this \<noteq> Undefined \<and> tm_actionInfo this \<noteq> Null)"
  shows "\<exists>this1. TM_testTwitchConnection this = Inr this1 \<and> timers this1 = timers this @ [(now this + 10000, TestTimeout)]
      \<and> (\<forall>t. now this + 10000 \<le> t \<longrightarrow>
            page (advance t this1) (js ''testConnection'')
              = Some (b\<lparr>disabled := False, textContent := js ''Test Connection''\<rparr>)
            \<and> page (advance t this1) (js ''connectionStatus'')
              = Some (s\<lparr>textContent := js ''Test timed out'', className := js ''status-error''\<rparr>))
      \<and> (\<forall>t. t < now this + 10000 \<and> TestTimeout \<notin> snd ` set (timers this) \<longrightarrow>
            page (advance t this1) (js ''testConnection'')
              = Some (b\<lparr>disabled := True, textContent := js ''Testing...''\<rparr>)
            \<and> page (advance t this1) (js ''connectionStatus'')
              = Some (s\<lparr>textContent := js ''Testing connection...'',
                         className := js ''status-testing''\<rparr>))
      \<and> (\<forall>t1 payload this2 t2.
            TM_onSendToPropertyInspector payload (advance t1 this1) = Inr this2
            \<and> js_get payload (js ''event'') = Str (js ''connectionTest'') \<longrightarrow>
            (\<exists>b' s'. page this2 (js ''testConnection'') = Some b'
               \<and> \<not> disabled b' \<and> textContent b' = js ''Test Connection''
               \<and> page this2 (js ''connectionStatus'') = Some s'
               \<and> textContent s'
                   = ToString (js_or (js_get payload (js ''message''))
                       (if truthy (js_get payload (js ''success''))
                        then Str (js ''Connected successfully!'') else Str (js ''Connection failed'')))
               \<and> className s' = (if truthy (js_get payload (js ''success''))
                                 then js ''status-success'' else js ''status-error'')
               \<and> page (advance t2 this2) (js ''testConnection'') = Some b'
               \<and> page (advance t2 this2) (js ''connectionStatus'') = Some s'))"
proof -
  from TM_testTwitchConnection_returns [OF assms(3,4)] obtain this1 where
    r: "TM_testTwitchConnection this = Inr this1" ..
  note st = connection_test_timeout_steps [OF assms(1,2) r]
  show ?thesis
    by (rule exI [of _ this1], rule conjI [OF r st])
qed

theorem connection_test_timeout_witness:
  "page (TM_constructor (form_page [(js ''testConnection'', []), (js ''connectionStatus'', [])]))
        (js ''testConnection'') = Some (input_element [])
   \<and> page (TM_constructor (form_page [(js ''testConnection'', []), (js ''connectionStatus'', [])]))
        (js ''connectionStatus'') = Some (input_element [])
   \<and> globalSettings (TM_constructor (form_page [(js ''testConnection'', []),
                                                  (js ''connectionStatus'', [])])) = Obj []
   \<and> \<not> tm_is_open (TM_constructor (form_page [(js ''testConnection'', []),
                                                 (js ''connectionStatus'', [])]))
   \<and> (\<exists>this1.
        TM_testTwitchConnection
          (TM_constructor (form_page [(js ''testConnection'', []), (js ''connectionStatus'', [])]))
          = Inr this1
        \<and> timers this1 = [(10000, TestTimeout)]
        \<and> page (advance 10000 this1) (js ''testConnection'')
            = Some ((input_element [])\<lparr>textContent := js ''Test Connection''\<rparr>)
        \<and> page (advance 10000 this1) (js ''connectionStatus'')
            = Some ((input_element [])\<lparr>textContent := js ''Test timed out'',
                                        className := js ''status-error''\<rparr>)
        \<and> page (advance 9999 this1) (js ''connectionStatus'')
            = Some ((input_element [])\<lparr>textContent := js ''Testing connection...'',
                                        className := js ''status-testing''\<rparr>)
        \<and> (\<exists>this2 s'.
             TM_onSendToPropertyInspector
               (Obj [(js ''event'', Str (js ''connectionTest'')), (js ''success'', Bool True)])
               (advance 5000 this1) = Inr this2
             \<and> page this2 (js ''connectionStatus'') = Some s'
             \<and> textContent s' = js ''Connected successfully!''
             \<and> className s' = js ''status-success''
             \<and> page (advance 10000 this2) (js ''connectionStatus'') = Some s'))"
proof -
  let ?st = "TM_constructor (form_page [(js ''testConnection'', []), (js ''connectionStatus'', [])])"
  let ?reply = "Obj [(js ''event'', Str (js ''connectionTest'')), (js ''success'', Bool True)]"
  have h1: "page ?st (js ''testConnection'') = Some (input_element [])"
    and h2: "page ?st (js ''connectionStatus'') = Some (input_element [])"
    by (simp_all add: TM_constructor_def form_page_def js_def)
  have h3: "globalSettings ?st \<noteq> Undefined \<and> globalSettings ?st \<noteq> Null"
    and h4: "\<not> tm_is_open ?st \<or> (tm_actionInfo ?st \<noteq> Undefined \<and> tm_actionInfo ?st \<noteq> Null)"
    by (simp_all add: TM_constructor_def tm_is_open_def)
  from connection_test_timeout [OF h1 h2 h3 h4] obtain this1 where
    h5: "TM_testTwitchConnection ?st = Inr this1"
    and c: "timers this1 = timers ?st @ [(now ?st + 10000, TestTimeout)]
    \<and> (\<forall>t. now ?st + 10000 \<le> t \<longrightarrow>
          page (advance t this1) (js ''testConnection'')
            = Some ((input_element [])\<lparr>disabled := False, textContent := js ''Test Connection''\<rparr>)
          \<and> page (advance t this1) (js ''connectionStatus'')
            = Some ((input_element [])\<lparr>textContent := js ''Test timed out'',
                                         className := js ''status-error''\<rparr>))
    \<and> (\<forall>t. t < now ?st + 10000 \<and> TestTimeout \<notin> snd ` set (timers ?st) \<longrightarrow>
          page (advance t this1) (js ''testConnection'')
            = Some ((input_element [])\<lparr>disabled := True, textContent := js ''Testing...''\<rparr>)
          \<and> page (advance t this1) (js ''connectionStatus'')
            = Some ((input_element [])\<lparr>textContent := js ''Testing connection...'',
                       className := js ''status-testing''\<rparr>))
    \<and> (\<forall>t1 payload this2 t2.
          TM_onSendToPropertyInspector payload (advance t1 this1) = Inr this2
          \<and> js_get payload (js ''event'') = Str (js ''connectionTest'') \<longrightarrow>
          (\<exists>b' s'. page this2 (js ''testConnection'') = Some b'
             \<and> \<not> disabled b' \<and> textContent b' = js ''Test Connection''
             \<and> page this2 (js ''connectionStatus'') = Some s'
             \<and> textContent s'
                 = ToString (js_or (js_get payload (js ''message''))
                     (if truthy (js_get payload (js ''success''))
                      then Str (js ''Connected successfully!'') else Str (js ''Connection failed'')))
             \<and> className s' = (if truthy (js_get payload (js ''success''))
                               then js ''status-success'' else js ''status-error'')
             \<and> page (advance t2 this2) (js ''testConnection'') = Some b'
             \<and> page (advance t2 this2) (js ''connectionStatus'') = Some s'))"
    by blast
  have t0: "timers ?st = []" "now ?st = 0"
    by (simp_all add: TM_constructor_def)
  from c have c1: "timers this1 = [(10000, TestTimeout)]"
    by (simp add: t0)
  from c have c2: "page (advance 10000 this1) (js ''testConnection'')
            = Some ((input_element [])\<lparr>textContent := js ''Test Connection''\<rparr>)"
    and c3: "page (advance 10000 this1) (js ''connectionStatus'')
            = Some ((input_element [])\<lparr>textContent := js ''Test timed out'',
                                        className := js ''status-error''\<rparr>)"
    by (simp_all add: t0 input_element_def)
  from c have c4: "page (advance 9999 this1) (js ''connectionStatus'')
            = Some ((input_element [])\<lparr>textContent := js ''Testing connection...'',
                                        className := js ''status-testing''\<rparr>)"
    by (simp add: t0)
  obtain this2 where r: "TM_onSendToPropertyInspector ?reply (advance 5000 this1) = Inr this2"
    by (simp add: TM_onSendToPropertyInspector_def get_prop_def)
  have e: "js_get ?reply (js ''event'') = Str (js ''connectionTest'')"
    and su: "js_get ?reply (js ''success'') = Bool True"
    and me: "js_get ?reply (js ''message'') = Undefined"
    by (simp_all add: js_def)
  from c r e obtain s' where
    "page this2 (js ''connectionStatus'') = Some s'"
    "textContent s'
       = ToString (js_or (js_get ?reply (js ''message''))
           (if truthy (js_get ?reply (js ''success''))
            then Str (js ''Connected successfully!'') else Str (js ''Connection failed'')))"
    "className s' = (if truthy (js_get ?reply (js ''success''))
                     then js ''status-success'' else js ''status-error'')"
    "page (advance 10000 this2) (js ''connectionStatus'') = Some s'"
    by blast
  then have "\<exists>s'. page this2 (js ''connectionStatus'') = Some s'
             \<and> textContent s' = js ''Connected successfully!''
             \<and> className s' = js ''status-success''
             \<and> page (advance 10000 this2) (js ''connectionStatus'') = Some s'"
    unfolding su me by (simp add: js_or_def)
  moreover have "globalSettings ?st = Obj []" "\<not> tm_is_open ?st"
    by (simp_all add: TM_constructor_def tm_is_open_def)
  ultimately show ?thesis
    using h1 h2 h5 c1 c2 c3 c4 r by blast
qed

subsection \<open>Reading back what JSON.stringify writes\<close>

lemma hex_value_hex_digit: "d < 16 \<Longrightarrow> hex_value (hex_digit d) = Some d"
  by (auto simp: hex_value_def hex_digit_def)

lemma hex_positions:
  assumes "(c::nat) < 65536"
  shows "((c div 4096 mod 16 * 16 + c div 256 mod 16) * 16 + c div 16 mod 16) * 16 + c mod 16 = c"
proof -
  define q1 q2 q3 where "q1 = c div 16" and "q2 = q1 div 16" and "q3 = q2 div 16"
  define m0 m1 m2 where "m0 = c mod 16" and "m1 = q1 mod 16" and "m2 = q2 mod 16"
  have e0: "c = q1 * 16 + m0" and e1: "q1 = q2 * 16 + m1" and e2: "q2 = q3 * 16 + m2"
    by (simp_all add: q1_def q2_def q3_def m0_def m1_def m2_def)
  have d2: "c div 256 = q2"
    using div_mult2_eq [of c 16 16] by (simp add: q1_def q2_def)
  have d3: "c div 4096 = q3"
    using div_mult2_eq [of c 256 16] d2 by (simp add: q3_def)
  from assms d3 have "q3 < 16" by simp
  then have m3: "q3 mod 16 = q3" by simp
  have "((q3 * 16 + m2) * 16 + m1) * 16 + m0 = c"
    using e0 e1 e2 by simp
  then show ?thesis
    by (simp only: d2 d3 m3 m0_def [symmetric] m1_def [symmetric] m2_def [symmetric]
        q1_def [symmetric])
qed

lemma hex4_digits:
  assumes "c < 65536"
  shows "hex4 (hex_digit (c div 4096 mod 16)) (hex_digit (c div 256 mod 16))
              (hex_digit (c div 16 mod 16)) (hex_digit (c mod 16)) = Some c"
  using hex_positions [OF assms]
  by (simp add: hex4_def hex_value_hex_digit del: mod_less)

lemma parse_u_escape:
  "hex4 h1 h2 h3 h4 = Some u \<Longrightarrow>
   parse_string_body ([92, 117, h1, h2, h3, h4] @ rest) = prepend u (parse_string_body rest)"
  by simp

lemma parse_unicode_escape:
  "c < 65536 \<Longrightarrow>
   parse_string_body (unicode_escape c @ rest) = prepend c (parse_string_body rest)"
  unfolding unicode_escape_def by (rule parse_u_escape [OF hex4_digits])

lemma quote_unit_cases:
  "quote_unit c =
     (if c = 8 then [92, 98] else if c = 9 then [92, 116] else if c = 10 then [92, 110]
      else if c = 12 then [92, 102] else if c = 13 then [92, 114] else if c = 34 then [92, 34]
      else if c = 92 then [92, 92]
      else if c < 32 \<or> is_high_surrogate c \<or> is_low_surrogate c then unicode_escape c
      else [c])"
  by (simp add: quote_unit_def)

lemma parse_simple_escape:
  "simple_escape e = Some d \<Longrightarrow> e \<noteq> 117 \<Longrightarrow>
   parse_string_body ([92, e] @ rest) = prepend d (parse_string_body rest)"
  by simp

lemma quote_unit_shape:
  "(\<exists>e. quote_unit c = [92, e] \<and> simple_escape e = Some c \<and> e \<noteq> 117)
   \<or> (quote_unit c = unicode_escape c \<and> c < 65536)
   \<or> (quote_unit c = [c] \<and> 32 \<le> c \<and> c \<noteq> 34 \<and> c \<noteq> 92)"
  unfolding quote_unit_def simple_escape_def is_high_surrogate_def is_low_surrogate_def
  by simp

lemma parse_quote_unit:
  "parse_string_body (quote_unit c @ rest) = prepend c (parse_string_body rest)"
proof -
  from quote_unit_shape [of c]
  consider (esc) e where "quote_unit c = [92, e]" "simple_escape e = Some c" "e \<noteq> 117"
    | (uni) "quote_unit c = unicode_escape c" "c < 65536"
    | (raw) "quote_unit c = [c]" "32 \<le> c" "c \<noteq> 34" "c \<noteq> 92"
    by blast
  then show ?thesis
  proof cases
    case esc
    from parse_simple_escape [OF esc(2,3), of rest] show ?thesis
      by (simp only: esc(1))
  next
    case uni
    from parse_unicode_escape [OF uni(2), of rest] show ?thesis
      by (simp only: uni(1))
  next
    case raw
    then show ?thesis
      by (simp add: parse_string_body.simps)
  qed
qed

lemma parse_raw_unit:
  "32 \<le> c \<Longrightarrow> c \<noteq> 34 \<Longrightarrow> c \<noteq> 92 \<Longrightarrow>
   parse_string_body (c # rest) = prepend c (parse_string_body rest)"
  by simp

declare parse_string_body.simps [simp del]

lemma prepend_Returns [simp]: "prepend c (Returns (s, r)) = Returns (c # s, r)"
  by (simp add: prepend_def)

lemma parse_quote_body: "parse_string_body (quote_body s @ 34 # r) = Returns (s, r)"
proof (induction s rule: quote_body.induct)
  case 1
  then show ?case by (simp add: parse_string_body.simps)
next
  case (2 c)
  have "parse_string_body (quote_unit c @ 34 # r) = prepend c (parse_string_body (34 # r))"
    by (rule parse_quote_unit)
  then show ?case by (simp add: parse_string_body.simps)
next
  case (3 c d cs)
  show ?case
  proof (cases "is_high_surrogate c \<and> is_low_surrogate d")
    case True
    then have qb: "quote_body (c # d # cs) = c # d # quote_body cs"
      by simp
    from True have "32 \<le> c" "c \<noteq> 34" "c \<noteq> 92" "32 \<le> d" "d \<noteq> 34" "d \<noteq> 92"
      by (auto simp: is_high_surrogate_def is_low_surrogate_def)
    then have "parse_string_body (c # d # quote_body cs @ 34 # r)
                 = prepend c (prepend d (parse_string_body (quote_body cs @ 34 # r)))"
      using parse_raw_unit [of c "d # quote_body cs @ 34 # r"]
        parse_raw_unit [of d "quote_body cs @ 34 # r"]
      by simp
    also have "\<dots> = Returns (c # d # cs, r)"
      using True "3.IH"(1) by simp
    finally show ?thesis
      unfolding qb by simp
  next
    case False
    then have qb: "quote_body (c # d # cs) = quote_unit c @ quote_body (d # cs)"
      by auto
    have "parse_string_body (quote_unit c @ quote_body (d # cs) @ 34 # r)
            = prepend c (parse_string_body (quote_body (d # cs) @ 34 # r))"
      by (rule parse_quote_unit)
    also have "\<dots> = Returns (c # d # cs, r)"
      using False "3.IH"(2) by simp
    finally show ?thesis
      unfolding qb by (simp del: quote_body.simps)
  qed
qed

lemma parse_string_quoted: "parse_string (QuoteJSONString s @ r) = Returns (s, r)"
  by (simp add: parse_string_def QuoteJSONString_def parse_quote_body)

lemma parse_quoted_body: "parse_string_body (tl (QuoteJSONString s) @ r) = Returns (s, r)"
  by (simp add: QuoteJSONString_def parse_quote_body)

lemma QuoteJSONString_prefix_free:
  "QuoteJSONString a @ r = QuoteJSONString b @ r' \<Longrightarrow> a = b \<and> r = r'"
proof -
  assume "QuoteJSONString a @ r = QuoteJSONString b @ r'"
  then have "parse_string (QuoteJSONString a @ r) = parse_string (QuoteJSONString b @ r')"
    by simp
  then show ?thesis
    by (simp only: parse_string_quoted outcome.inject prod.inject)
qed

declare parse_value.simps [simp del] parse_members.simps [simp del] parse_elements.simps [simp del]

lemma skip_ws_no_ws [simp]: "\<not> is_json_ws c \<Longrightarrow> skip_ws (c # cs) = c # cs"
  by (simp add: skip_ws_def)

lemma skip_ws_Nil [simp]: "skip_ws [] = []"
  by (simp add: skip_ws_def)

lemma skip_ws_closer:
  "r = [] \<or> hd r = 44 \<or> hd r = 125 \<or> hd r = 93 \<Longrightarrow> skip_ws r = r"
  by (cases r) (auto simp: skip_ws_def is_json_ws_def)

lemma closer_not_number:
  "r = [] \<or> hd r = 44 \<or> hd r = 125 \<or> hd r = 93 \<Longrightarrow>
   r = [] \<or> (\<not> is_digit (hd r) \<and> hd r \<noteq> 46 \<and> hd r \<noteq> 101 \<and> hd r \<noteq> 69)"
  by (auto simp: is_digit_def)

lemma define_property_fresh:
  "property_order (map fst acc @ [k]) \<Longrightarrow> define_property acc k v = acc @ [(k, v)]"
  by (induction acc) (auto simp: property_order_def)

lemma property_order_prefix:
  "property_order (xs @ ys) \<Longrightarrow> property_order xs"
  by (auto simp: property_order_def sorted_wrt_append)

lemma json_data_serializes: "json_data v \<Longrightarrow> \<exists>t. SerializeJSONProperty v = Some t"
  by (cases v) simp_all

lemma number_to_string_hd:
  "number_to_string n = c # cs \<Longrightarrow> c = 45 \<or> is_digit c"
proof (cases "n < 0")
  case True
  assume "number_to_string n = c # cs"
  with True show ?thesis by (simp add: number_to_string_def)
next
  case False
  assume "number_to_string n = c # cs"
  with False have "unsigned_to_string (nat n) = c # cs" by (simp add: number_to_string_def)
  with unsigned_to_string_hd [of "nat n"] show ?thesis by auto
qed

lemma number_to_string_not_empty: "number_to_string n \<noteq> []"
  using unsigned_to_string_hd [of "nat n"] by (auto simp: number_to_string_def)

text \<open>The value parser on the text of each kind of value.\<close>

lemma parse_value_Str:
  "parse_value (Suc f) (QuoteJSONString s @ r) = Returns (Str s, skip_ws r)"
proof -
  have "QuoteJSONString s @ r = 34 # (quote_body s @ 34 # r)"
    by (simp add: QuoteJSONString_def)
  then show ?thesis
    by (simp add: parse_value.simps is_json_ws_def parse_quote_body)
qed

lemma parse_value_Num:
  assumes "r = [] \<or> hd r = 44 \<or> hd r = 125 \<or> hd r = 93" and n: "is_double (nat \<bar>n\<bar>)"
  shows "parse_value (Suc f) (number_to_string n @ r) = Returns (Num n, skip_ws r)"
proof -
  obtain c cs where t: "number_to_string n = c # cs"
    using number_to_string_not_empty [of n] by (cases "number_to_string n") auto
  from number_to_string_hd [OF t] have c: "c = 45 \<or> is_digit c" .
  have p: "parse_number (c # cs @ r) = Returns (Num n, r)"
    using parse_number_roundtrip [OF n closer_not_number [OF assms(1)]] t by simp
  from c p show ?thesis
    unfolding t by (auto simp: parse_value.simps is_json_ws_def is_digit_def)
qed

lemma parse_value_Null: "parse_value (Suc f) (js ''null'' @ r) = Returns (Null, skip_ws r)"
  by (simp add: parse_value.simps is_json_ws_def literal_def js_def)

lemma parse_value_Bool:
  "parse_value (Suc f) ((if b then js ''true'' else js ''false'') @ r)
     = Returns (Bool b, skip_ws r)"
  by (simp add: parse_value.simps is_json_ws_def literal_def js_def)

lemma parse_value_empty_Obj: "parse_value (Suc f) ([123] @ [] @ [125] @ r) = Returns (Obj [], skip_ws r)"
  by (simp add: parse_value.simps is_json_ws_def)

lemma parse_value_empty_Arr: "parse_value (Suc f) ([91] @ [] @ [93] @ r) = Returns (Arr [], skip_ws r)"
  by (simp add: parse_value.simps is_json_ws_def)

lemma parse_value_Obj:
  "\<not> is_json_ws d \<Longrightarrow> d \<noteq> 125 \<Longrightarrow>
   parse_value (Suc f) (123 # d # ds)
     = and_then (parse_members f [] (d # ds)) (\<lambda>(v, r). Returns (v, skip_ws r))"
  by (simp add: parse_value.simps is_json_ws_def)

lemma parse_value_Arr:
  "\<not> is_json_ws d \<Longrightarrow> d \<noteq> 93 \<Longrightarrow>
   parse_value (Suc f) (91 # d # ds)
     = and_then (parse_elements f [] (d # ds)) (\<lambda>(v, r). Returns (v, skip_ws r))"
  by (simp add: parse_value.simps is_json_ws_def)

text \<open>The text of a value starts with neither white space nor a closing bracket.\<close>

lemma serialized_hd:
  assumes "SerializeJSONProperty v = Some t"
  shows "t \<noteq> [] \<and> \<not> is_json_ws (hd t) \<and> hd t \<noteq> 93 \<and> hd t \<noteq> 125"
proof (cases v)
  case (Num n)
  obtain c cs where t': "number_to_string n = c # cs"
    using number_to_string_not_empty [of n] by (cases "number_to_string n") auto
  from assms Num t' have "t = c # cs" by simp
  with number_to_string_hd [OF t'] show ?thesis
    by (auto simp: is_json_ws_def is_digit_def)
qed (use assms in \<open>auto simp: is_json_ws_def js_def QuoteJSONString_def split: if_splits\<close>)

lemma parse_members_step:
  "parse_members (Suc f) acc (QuoteJSONString k @ 58 # rest)
     = and_then (parse_value f rest) (\<lambda>(v, r').
         case r' of
           [] \<Rightarrow> Throws SyntaxError
         | d # ds \<Rightarrow>
             if d = 44 then parse_members f (define_property acc k v) ds
             else if d = 125 then Returns (Obj (define_property acc k v), ds)
             else Throws SyntaxError)"
proof -
  have "skip_ws (QuoteJSONString k @ 58 # rest) = QuoteJSONString k @ 58 # rest"
    by (simp add: QuoteJSONString_def is_json_ws_def)
  moreover have "\<not> is_json_ws 58"
    by (simp add: is_json_ws_def)
  ultimately show ?thesis
    by (simp add: parse_members.simps parse_string_quoted)
qed

lemma join_comma_Cons:
  "join_comma (p # ps) = (if ps = [] then p else p @ 44 # join_comma ps)"
  by (cases ps) simp_all

lemma members_not_empty:
  "json_members kvs \<Longrightarrow> kvs \<noteq> [] \<Longrightarrow>
   \<exists>cs. join_comma (SerializeJSONMembers kvs) = 34 # cs"
proof (cases kvs)
  case Nil
  assume "kvs \<noteq> []"
  with Nil show ?thesis by simp
next
  case (Cons kv kvs')
  assume "json_members kvs"
  obtain k v where kv: "kv = (k, v)" by (cases kv)
  with Cons \<open>json_members kvs\<close> have "json_data v" by simp
  from json_data_serializes [OF this] obtain sv where "SerializeJSONProperty v = Some sv" ..
  with Cons kv show ?thesis
    by (simp add: join_comma_Cons QuoteJSONString_def)
qed

lemma members_empty_iff:
  "json_members kvs \<Longrightarrow> SerializeJSONMembers kvs = [] \<longleftrightarrow> kvs = []"
proof (cases kvs)
  case Nil
  then show ?thesis by simp
next
  case (Cons kv kvs')
  assume "json_members kvs"
  obtain k v where kv: "kv = (k, v)" by (cases kv)
  with Cons \<open>json_members kvs\<close> have "json_data v" by simp
  from json_data_serializes [OF this] obtain sv where "SerializeJSONProperty v = Some sv" ..
  with Cons kv show ?thesis by simp
qed

lemma elements_empty_iff: "SerializeJSONElements vs = [] \<longleftrightarrow> vs = []"
  by (cases vs) simp_all

lemma parse_serialized:
  "json_data v \<Longrightarrow> SerializeJSONProperty v = Some t \<Longrightarrow> length t < fuel
     \<Longrightarrow> r = [] \<or> hd r = 44 \<or> hd r = 125 \<or> hd r = 93
     \<Longrightarrow> parse_value fuel (t @ r) = Returns (v, r)"
  "json_members kvs \<Longrightarrow> kvs \<noteq> [] \<Longrightarrow> property_order (map fst (acc @ kvs))
     \<Longrightarrow> length (join_comma (SerializeJSONMembers kvs)) < fuel
     \<Longrightarrow> r = [] \<or> hd r = 44 \<or> hd r = 125 \<or> hd r = 93
     \<Longrightarrow> parse_members fuel acc (join_comma (SerializeJSONMembers kvs) @ 125 # r)
           = Returns (Obj (acc @ kvs), r)"
  "json_elements vs \<Longrightarrow> vs \<noteq> []
     \<Longrightarrow> length (join_comma (SerializeJSONElements vs)) + 1 < fuel
     \<Longrightarrow> r = [] \<or> hd r = 44 \<or> hd r = 125 \<or> hd r = 93
     \<Longrightarrow> parse_elements fuel eacc (join_comma (SerializeJSONElements vs) @ 93 # r)
           = Returns (Arr (eacc @ vs), r)"
proof (induction v and kvs and vs arbitrary: t fuel r and fuel acc r and fuel eacc r
    rule: json_data_json_members_json_elements.induct)
  case 1
  then show ?case by simp
next
  case 2
  then obtain f where "fuel = Suc f" by (cases fuel) auto
  with 2 show ?case
    using parse_value_Null [of f r] by (auto simp: skip_ws_closer)
next
  case (3 b)
  then obtain f where "fuel = Suc f" by (cases fuel) auto
  with 3 show ?case
    using parse_value_Bool [of f b r] by (auto simp: skip_ws_closer)
next
  case 4
  then show ?case by simp
next
  case (5 n)
  then obtain f where "fuel = Suc f" by (cases fuel) auto
  with 5 show ?case
    using parse_value_Num [of r n f] by (auto simp: skip_ws_closer)
next
  case 6
  then show ?case by simp
next
  case 7
  then show ?case by simp
next
  case (8 s)
  then obtain f where "fuel = Suc f" by (cases fuel) auto
  with 8 show ?case
    using parse_value_Str [of f s r] by (auto simp: skip_ws_closer)
next
  case (9 vs)
  from "9.prems"(3) obtain f where f: "fuel = Suc f" by (cases fuel) auto
  show ?case
  proof (cases "vs = []")
    case True
    with "9.prems" f show ?thesis
      using parse_value_empty_Arr [of f r] by (auto simp: skip_ws_closer)
  next
    case False
    let ?m = "join_comma (SerializeJSONElements vs)"
    obtain v vs' where vs: "vs = v # vs'" using False by (cases vs) auto
    from "9.prems"(1) vs have "json_data v" by simp
    from json_data_serializes [OF this] obtain sv where sv: "SerializeJSONProperty v = Some sv" ..
    from serialized_hd [OF sv] obtain d ds where svd: "sv = d # ds"
      and d: "\<not> is_json_ws d" "d \<noteq> 93"
      by (cases sv) auto
    have "\<exists>ms. ?m = d # ms"
      using vs sv svd by (simp add: join_comma_Cons)
    then obtain ms where m: "?m = d # ms" ..
    from "9.prems"(2) have t: "t = 91 # ?m @ [93]" by simp
    with "9.prems"(3) f have len: "length ?m + 1 < f" by simp
    from "9.IH" [OF _ False len "9.prems"(4), of "[]"] "9.prems"(1)
    have "parse_elements f [] (?m @ 93 # r) = Returns (Arr vs, r)" by simp
    then have "parse_value (Suc f) (91 # d # (ms @ 93 # r)) = Returns (Arr vs, r)"
      using parse_value_Arr [OF d, of f "ms @ 93 # r"] "9.prems"(4)
      by (simp add: m skip_ws_closer)
    then show ?thesis
      by (simp add: t f m)
  qed
next
  case (10 kvs)
  from "10.prems"(3) obtain f where f: "fuel = Suc f" by (cases fuel) auto
  from "10.prems"(1) have jm: "json_members kvs" and po: "property_order (map fst ([] @ kvs))"
    by simp_all
  show ?case
  proof (cases "kvs = []")
    case True
    with "10.prems" f show ?thesis
      using parse_value_empty_Obj [of f r] by (auto simp: skip_ws_closer)
  next
    case False
    let ?m = "join_comma (SerializeJSONMembers kvs)"
    from members_not_empty [OF jm False] obtain ms where m: "?m = 34 # ms" ..
    have d: "\<not> is_json_ws 34" "(34::nat) \<noteq> 125" by (simp_all add: is_json_ws_def)
    from "10.prems"(2) have t: "t = 123 # ?m @ [125]" by simp
    with "10.prems"(3) f have len: "length ?m < f" by simp
    from "10.IH" [OF jm False po len "10.prems"(4)]
    have "parse_members f [] (?m @ 125 # r) = Returns (Obj kvs, r)" by simp
    then have "parse_value (Suc f) (123 # 34 # (ms @ 125 # r)) = Returns (Obj kvs, r)"
      using parse_value_Obj [OF d, of f "ms @ 125 # r"] "10.prems"(4)
      by (simp add: m skip_ws_closer)
    then show ?thesis
      by (simp add: t f m)
  qed
next
  case 11
  then show ?case by simp
next
  case (12 k v kvs)
  from "12.prems"(4) obtain f where f: "fuel = Suc f" by (cases fuel) auto
  from "12.prems"(1) have jv: "json_data v" and jm: "json_members kvs" by simp_all
  from json_data_serializes [OF jv] obtain sv where sv: "SerializeJSONProperty v = Some sv" ..
  from "12.prems"(3) have po: "property_order (map fst (acc @ [(k, v)]) @ map fst kvs)"
    by simp
  have dp: "define_property acc k v = acc @ [(k, v)]"
    using property_order_prefix [OF po] by (intro define_property_fresh) simp
  show ?case
  proof (cases "kvs = []")
    case True
    then have m: "join_comma (SerializeJSONMembers ((k, v) # kvs)) = QuoteJSONString k @ 58 # sv"
      using sv by simp
    with "12.prems"(4) f have len: "length sv < f" by simp
    have "parse_value f (sv @ 125 # r) = Returns (v, 125 # r)"
      by (rule "12.IH"(1) [OF jv sv len]) simp
    then have "parse_members (Suc f) acc (QuoteJSONString k @ 58 # sv @ 125 # r)
                  = Returns (Obj (acc @ (k, v) # kvs), r)"
      using parse_members_step [of f acc k "sv @ 125 # r"]
      by (simp add: dp True)
    then show ?thesis
      unfolding m f by simp
  next
    case False
    let ?m' = "join_comma (SerializeJSONMembers kvs)"
    from members_empty_iff [OF jm] False have ne: "SerializeJSONMembers kvs \<noteq> []" by simp
    then have m: "join_comma (SerializeJSONMembers ((k, v) # kvs))
                    = QuoteJSONString k @ 58 # sv @ 44 # ?m'"
      using sv by (simp add: join_comma_Cons)
    with "12.prems"(4) f have len: "length sv < f" and len': "length ?m' < f" by simp_all
    have pv: "parse_value f (sv @ 44 # ?m' @ 125 # r) = Returns (v, 44 # ?m' @ 125 # r)"
      by (rule "12.IH"(1) [OF jv sv len]) simp
    have po': "property_order (map fst ((acc @ [(k, v)]) @ kvs))"
      using po by simp
    have "parse_members f (acc @ [(k, v)]) (?m' @ 125 # r)
            = Returns (Obj ((acc @ [(k, v)]) @ kvs), r)"
      by (rule "12.IH"(2) [OF jm False po' len' "12.prems"(5)])
    with pv have "parse_members (Suc f) acc
                    (QuoteJSONString k @ 58 # sv @ 44 # ?m' @ 125 # r)
                  = Returns (Obj (acc @ (k, v) # kvs), r)"
      using parse_members_step [of f acc k "sv @ 44 # ?m' @ 125 # r"]
      by (simp add: dp)
    then show ?thesis
      unfolding m f by simp
  qed
next
  case 13
  then show ?case by simp
next
  case (14 v vs)
  from "14.prems"(3) obtain f where f: "fuel = Suc f" by (cases fuel) auto
  from "14.prems"(1) have jv: "json_data v" and je: "json_elements vs" by simp_all
  from json_data_serializes [OF jv] obtain sv where sv: "SerializeJSONProperty v = Some sv" ..
  from serialized_hd [OF sv] have svne: "sv \<noteq> []" by simp
  show ?case
  proof (cases "vs = []")
    case True
    then have m: "join_comma (SerializeJSONElements (v # vs)) = sv"
      using sv by simp
    with "14.prems"(3) f have len: "length sv < f" by simp
    have "parse_value f (sv @ 93 # r) = Returns (v, 93 # r)"
      by (rule "14.IH"(1) [OF jv sv len]) simp
    then have "parse_elements (Suc f) eacc (sv @ 93 # r) = Returns (Arr (eacc @ v # vs), r)"
      by (simp add: True parse_elements.simps)
    then show ?thesis
      unfolding m f by simp
  next
    case False
    let ?m' = "join_comma (SerializeJSONElements vs)"
    from elements_empty_iff [of vs] False have ne: "SerializeJSONElements vs \<noteq> []" by simp
    then have m: "join_comma (SerializeJSONElements (v # vs)) = sv @ 44 # ?m'"
      using sv by (simp add: join_comma_Cons)
    with "14.prems"(3) f svne have len: "length sv < f" and len': "length ?m' + 1 < f"
      by (cases sv; simp)+
    have pv: "parse_value f (sv @ 44 # ?m' @ 93 # r) = Returns (v, 44 # ?m' @ 93 # r)"
      by (rule "14.IH"(1) [OF jv sv len]) simp
    have "parse_elements f (eacc @ [v]) (?m' @ 93 # r) = Returns (Arr ((eacc @ [v]) @ vs), r)"
      by (rule "14.IH"(2) [OF je False len' "14.prems"(4)])
    with pv have "parse_elements (Suc f) eacc (sv @ 44 # ?m' @ 93 # r)
                    = Returns (Arr (eacc @ v # vs), r)"
      by (simp add: parse_elements.simps)
    then show ?thesis
      unfolding m f by simp
  qed
qed

text \<open>
  Reading back the text \<^verbatim>\<open>JSON.stringify\<close> writes for a value without \<^verbatim>\<open>undefined\<close>, \<^verbatim>\<open>NaN\<close>
  and repeated keys gives the value: the parser has fuel enough and returns it.
\<close>

lemma JSON_parse_stringify: "json_data v \<Longrightarrow> JSON_parse (JSON_stringify v) = Returns v"
proof -
  assume jd: "json_data v"
  from json_data_serializes [OF jd] obtain t where t: "SerializeJSONProperty v = Some t" ..
  have "parse_value (Suc (length t)) (t @ []) = Returns (v, [])"
    by (rule parse_serialized(1) [OF jd t]) simp_all
  with t show ?thesis
    by (simp add: JSON_parse_def JSON_stringify_def)
qed

lemma JSON_stringify_inject:
  "json_data v \<Longrightarrow> json_data w \<Longrightarrow> JSON_stringify v = JSON_stringify w \<Longrightarrow> v = w"
  by (metis JSON_parse_stringify outcome.inject)

subsection \<open>The frames of a save\<close>

lemma not_array_index: "k \<noteq> [] \<Longrightarrow> \<not> is_digit (hd k) \<Longrightarrow> \<not> is_array_index k"
  by (cases k) (auto simp: is_array_index_def)

lemma property_order_names:
  "distinct ks \<Longrightarrow> \<forall>k\<in>set ks. \<not> is_array_index k \<Longrightarrow> property_order ks"
  by (induction ks) (auto simp: property_order_def precedes_def)









lemma numeric_field_keys: "fst ` set (numeric_field doc name dflt) \<subseteq> {name}"
  by (auto simp: numeric_field_def split: option.splits)



lemma send_result:
  "send this json =
     Inr (case websocket this of
            None \<Rightarrow> this
          | Some ws \<Rightarrow>
              if readyState ws = OPEN
              then this\<lparr>websocket := Some (ws\<lparr>transmitted := transmitted ws @ [JSON_stringify json]\<rparr>)\<rparr>
              else this)"
  by (simp add: send_def ws_send_def split: option.splits)



lemmas stringify_eval =
  JSON_stringify_def QuoteJSONString_def quote_unit_def is_high_surrogate_def
  is_low_surrogate_def number_to_string_safe digits_of.simps js_def



subsection \<open>The open event\<close>

lemma tm_requests_open:
  assumes "tm_websocket this = Some ws" "readyState ws = OPEN"
  shows "tm_socket_send this json
           = Inr (this\<lparr>tm_websocket :=
                        Some (ws\<lparr>transmitted := transmitted ws @ [JSON_stringify json]\<rparr>)\<rparr>)"
  using assms by (simp add: tm_socket_send_def ws_send_def)

text \<open>
  C1, as the code has it. When the open event fires on the socket an adapter holds, the
  handler returns and has transmitted the registration envelope, once, as the first new
  frame. StreamDeckPlugin and StreamDeckPropertyInspector transmit nothing else and enter
  the hook \<^verbatim>\<open>onConnected\<close>. TwitchModPropertyInspector transmits next a \<^verbatim>\<open>getGlobalSettings\<close>
  request and then a \<^verbatim>\<open>getSettings\<close> request, each with \<^verbatim>\<open>this.uuid\<close> as its context; for a
  register event name and a UUID that are JSON data the three frames differ from each other.
\<close>

theorem open_event_frames:
  "(websocket p = Some ws \<longrightarrow>
      Plugin_onopen (open_event p)
        = Inr (p\<lparr>websocket := Some (ws\<lparr>readyState := OPEN, transmitted := transmitted ws @
                   [JSON_stringify (Obj [(js ''event'', registerEventName p),
                                         (js ''uuid'', pluginUUID p)])]\<rparr>)\<rparr>,
               Some onConnected))
   \<and> (websocket q = Some ws \<longrightarrow>
      PI_onopen (open_event q)
        = Inr (q\<lparr>websocket := Some (ws\<lparr>readyState := OPEN, transmitted := transmitted ws @
                   [JSON_stringify (Obj [(js ''event'', registerEventName q),
                                         (js ''uuid'', uuid q)])]\<rparr>)\<rparr>,
               Some onConnected))
   \<and> (tm_websocket t = Some ws \<and> tm_uuid t = u \<longrightarrow>
      TM_onopen ev u (tm_open_event t)
        = Inr (t\<lparr>tm_websocket := Some (ws\<lparr>readyState := OPEN, transmitted := transmitted ws @
                   [JSON_stringify (Obj [(js ''event'', ev), (js ''uuid'', u)]),
                    JSON_stringify (Obj [(js ''event'', Str (js ''getGlobalSettings'')),
                                         (js ''context'', u)]),
                    JSON_stringify (Obj [(js ''event'', Str (js ''getSettings'')),
                                         (js ''context'', u)])]\<rparr>)\<rparr>)
      \<and> (json_data ev \<and> json_data u \<longrightarrow>
           JSON_stringify (Obj [(js ''event'', ev), (js ''uuid'', u)])
             \<noteq> JSON_stringify (Obj [(js ''event'', Str (js ''getGlobalSettings'')),
                                     (js ''context'', u)])
           \<and> JSON_stringify (Obj [(js ''event'', ev), (js ''uuid'', u)])
             \<noteq> JSON_stringify (Obj [(js ''event'', Str (js ''getSettings'')),
                                     (js ''context'', u)])
           \<and> JSON_stringify (Obj [(js ''event'', Str (js ''getGlobalSettings'')),
                                   (js ''context'', u)])
             \<noteq> JSON_stringify (Obj [(js ''event'', Str (js ''getSettings'')),
                                     (js ''context'', u)])))"
proof (intro conjI impI)
  assume "websocket p = Some ws"
  then show "Plugin_onopen (open_event p)
        = Inr (p\<lparr>websocket := Some (ws\<lparr>readyState := OPEN, transmitted := transmitted ws @
                   [JSON_stringify (Obj [(js ''event'', registerEventName p),
                                         (js ''uuid'', pluginUUID p)])]\<rparr>)\<rparr>,
               Some onConnected)"
    by (simp add: Plugin_onopen_def Plugin_register_def send_result open_event_def)
next
  assume "websocket q = Some ws"
  then show "PI_onopen (open_event q)
        = Inr (q\<lparr>websocket := Some (ws\<lparr>readyState := OPEN, transmitted := transmitted ws @
                   [JSON_stringify (Obj [(js ''event'', registerEventName q),
                                         (js ''uuid'', uuid q)])]\<rparr>)\<rparr>,
               Some onConnected)"
    by (simp add: PI_onopen_def PI_register_def send_result open_event_def)
next
  assume "tm_websocket t = Some ws \<and> tm_uuid t = u"
  then show "TM_onopen ev u (tm_open_event t)
        = Inr (t\<lparr>tm_websocket := Some (ws\<lparr>readyState := OPEN, transmitted := transmitted ws @
                   [JSON_stringify (Obj [(js ''event'', ev), (js ''uuid'', u)]),
                    JSON_stringify (Obj [(js ''event'', Str (js ''getGlobalSettings'')),
                                         (js ''context'', u)]),
                    JSON_stringify (Obj [(js ''event'', Str (js ''getSettings'')),
                                         (js ''context'', u)])]\<rparr>)\<rparr>)"
    by (simp add: TM_onopen_def TM_requestGlobalSettings_def TM_requestSettings_def
        tm_is_open_def tm_socket_send_def ws_send_def tm_open_event_def)
next
  assume jd: "json_data ev \<and> json_data u"
  have k: "js ''uuid'' \<noteq> js ''context''" "js ''event'' \<noteq> js ''uuid''"
    "js ''event'' \<noteq> js ''context''" "js ''getGlobalSettings'' \<noteq> js ''getSettings''"
    by (simp_all add: js_def)
  have n: "\<not> is_array_index (js ''event'')" "\<not> is_array_index (js ''uuid'')"
    "\<not> is_array_index (js ''context'')"
    by (simp_all add: js_def not_array_index is_digit_def)
  have po: "property_order [js ''event'', js ''uuid'']"
    "property_order [js ''event'', js ''context'']"
    by (rule property_order_names; simp add: n k)+
  have d1: "json_data (Obj [(js ''event'', ev), (js ''uuid'', u)])"
    and d2: "json_data (Obj [(js ''event'', Str (js ''getGlobalSettings'')), (js ''context'', u)])"
    and d3: "json_data (Obj [(js ''event'', Str (js ''getSettings'')), (js ''context'', u)])"
    using jd k po by simp_all
  show "JSON_stringify (Obj [(js ''event'', ev), (js ''uuid'', u)])
             \<noteq> JSON_stringify (Obj [(js ''event'', Str (js ''getGlobalSettings'')),
                                     (js ''context'', u)])"
    using JSON_stringify_inject [OF d1 d2] k by auto
  show "JSON_stringify (Obj [(js ''event'', ev), (js ''uuid'', u)])
             \<noteq> JSON_stringify (Obj [(js ''event'', Str (js ''getSettings'')),
                                     (js ''context'', u)])"
    using JSON_stringify_inject [OF d1 d3] k by auto
  show "JSON_stringify (Obj [(js ''event'', Str (js ''getGlobalSettings'')),
                                   (js ''context'', u)])
             \<noteq> JSON_stringify (Obj [(js ''event'', Str (js ''getSettings'')),
                                     (js ''context'', u)])"
    using JSON_stringify_inject [OF d2 d3] k by auto
qed

text \<open>
  C1 as claimed fails for StreamDeckPlugin: after \<^verbatim>\<open>connect\<close> and the open event the socket
  has transmitted the registration and nothing else, no \<^verbatim>\<open>getSettings\<close> and no
  \<^verbatim>\<open>getGlobalSettings\<close> request.
\<close>

theorem Plugin_onopen_counterexample:
  "Plugin_onopen (open_event (Plugin_connect (Str (js ''P1'')) (Str (js ''registerPlugin''))
                                Null Null Plugin_constructor))
   = Inr (\<lparr>websocket = Some \<lparr>readyState = OPEN,
                             transmitted = [js ''{\"event\":\"registerPlugin\",\"uuid\":\"P1\"}'']\<rparr>,
           registerEventName = Str (js ''registerPlugin''), info = Null, actionInfo = Null,
           pluginUUID = Str (js ''P1'')\<rparr>,
          Some onConnected)"
  by (simp add: Plugin_onopen_def Plugin_register_def send_result open_event_def
      Plugin_connect_def Plugin_constructor_def stringify_eval)

theorem open_event_frames_witness:
  "tm_websocket (TM_connectElgatoStreamDeckSocket (Str (js ''PI1'')) (Obj [])
                   (TM_constructor (form_page [])))
     = Some \<lparr>readyState = CONNECTING, transmitted = []\<rparr>
   \<and> tm_uuid (TM_connectElgatoStreamDeckSocket (Str (js ''PI1'')) (Obj [])
                (TM_constructor (form_page []))) = Str (js ''PI1'')
   \<and> json_data (Str (js ''registerPropertyInspector'')) \<and> json_data (Str (js ''PI1''))
   \<and> (\<exists>this'.
        TM_onopen (Str (js ''registerPropertyInspector'')) (Str (js ''PI1''))
          (tm_open_event (TM_connectElgatoStreamDeckSocket (Str (js ''PI1'')) (Obj [])
             (TM_constructor (form_page [])))) = Inr this'
        \<and> tm_websocket this'
            = Some \<lparr>readyState = OPEN,
                    transmitted =
                      [js ''{\"event\":\"registerPropertyInspector\",\"uuid\":\"PI1\"}'',
                       js ''{\"event\":\"getGlobalSettings\",\"context\":\"PI1\"}'',
                       js ''{\"event\":\"getSettings\",\"context\":\"PI1\"}'']\<rparr>)
   \<and> websocket (Plugin_connect (Str (js ''P1'')) (Str (js ''registerPlugin''))
                  Null Null Plugin_constructor)
       = Some \<lparr>readyState = CONNECTING, transmitted = []\<rparr>
   \<and> (\<exists>p'. Plugin_onopen (open_event (Plugin_connect (Str (js ''P1''))
                 (Str (js ''registerPlugin'')) Null Null Plugin_constructor))
              = Inr (p', Some onConnected)
            \<and> websocket p'
                = Some \<lparr>readyState = OPEN,
                        transmitted = [js ''{\"event\":\"registerPlugin\",\"uuid\":\"P1\"}'']\<rparr>)
   \<and> websocket (PI_connect (Str (js ''PI1'')) (Str (js ''registerPropertyInspector''))
                  Null Null PI_constructor)
       = Some \<lparr>readyState = CONNECTING, transmitted = []\<rparr>
   \<and> (\<exists>q'. PI_onopen (open_event (PI_connect (Str (js ''PI1''))
                 (Str (js ''registerPropertyInspector'')) Null Null PI_constructor))
              = Inr (q', Some onConnected)
            \<and> websocket q'
                = Some \<lparr>readyState = OPEN,
                        transmitted =
                          [js ''{\"event\":\"registerPropertyInspector\",\"uuid\":\"PI1\"}'']\<rparr>)"
proof -
  let ?t = "TM_connectElgatoStreamDeckSocket (Str (js ''PI1'')) (Obj [])
              (TM_constructor (form_page []))"
  let ?q = "PI_connect (Str (js ''PI1'')) (Str (js ''registerPropertyInspector''))
              Null Null PI_constructor"
  let ?p = "Plugin_connect (Str (js ''P1'')) (Str (js ''registerPlugin''))
              Null Null Plugin_constructor"
  let ?ws = "\<lparr>readyState = CONNECTING, transmitted = []\<rparr>"
  have h0: "websocket ?p = Some ?ws"
    by (simp add: Plugin_connect_def)
  have f0: "JSON_stringify (Obj [(js ''event'', Str (js ''registerPlugin'')),
                                 (js ''uuid'', Str (js ''P1''))])
            = js ''{\"event\":\"registerPlugin\",\"uuid\":\"P1\"}''"
    by (simp add: stringify_eval)
  have rp: "registerEventName ?p = Str (js ''registerPlugin'')"
    "pluginUUID ?p = Str (js ''P1'')"
    by (simp_all add: Plugin_connect_def)
  have h1: "tm_websocket ?t = Some ?ws" and h2: "tm_uuid ?t = Str (js ''PI1'')"
    by (simp_all add: TM_connectElgatoStreamDeckSocket_def)
  have h3: "json_data (Str (js ''registerPropertyInspector''))" "json_data (Str (js ''PI1''))"
    by simp_all
  have h4: "websocket ?q = Some ?ws"
    by (simp add: PI_connect_def)
  have f1: "JSON_stringify (Obj [(js ''event'', Str (js ''registerPropertyInspector'')),
                                 (js ''uuid'', Str (js ''PI1''))])
            = js ''{\"event\":\"registerPropertyInspector\",\"uuid\":\"PI1\"}''"
    and f2: "JSON_stringify (Obj [(js ''event'', Str (js ''getGlobalSettings'')),
                                  (js ''context'', Str (js ''PI1''))])
            = js ''{\"event\":\"getGlobalSettings\",\"context\":\"PI1\"}''"
    and f3: "JSON_stringify (Obj [(js ''event'', Str (js ''getSettings'')),
                                  (js ''context'', Str (js ''PI1''))])
            = js ''{\"event\":\"getSettings\",\"context\":\"PI1\"}''"
    by (simp_all add: stringify_eval)
  note t = open_event_frames [of ?p ?ws ?q ?t "Str (js ''PI1'')"
      "Str (js ''registerPropertyInspector'')"]
  note tA = t [THEN conjunct1]
  from tA h0 have
    "Plugin_onopen (open_event ?p)
        = Inr (?p\<lparr>websocket := Some (?ws\<lparr>readyState := OPEN, transmitted := transmitted ?ws @
                   [js ''{\"event\":\"registerPlugin\",\"uuid\":\"P1\"}'']\<rparr>)\<rparr>,
               Some onConnected)"
    unfolding rp f0 by blast
  then have a: "\<exists>p'. Plugin_onopen (open_event ?p) = Inr (p', Some onConnected)
            \<and> websocket p'
                = Some \<lparr>readyState = OPEN,
                        transmitted = [js ''{\"event\":\"registerPlugin\",\"uuid\":\"P1\"}'']\<rparr>"
    by simp
  note tB = t [THEN conjunct2, THEN conjunct1]
  note tC = t [THEN conjunct2, THEN conjunct2]
  from tC h1 h2 have
    "TM_onopen (Str (js ''registerPropertyInspector'')) (Str (js ''PI1'')) (tm_open_event ?t)
       = Inr (?t\<lparr>tm_websocket := Some (?ws\<lparr>readyState := OPEN, transmitted := transmitted ?ws @
                   [js ''{\"event\":\"registerPropertyInspector\",\"uuid\":\"PI1\"}'',
                    js ''{\"event\":\"getGlobalSettings\",\"context\":\"PI1\"}'',
                    js ''{\"event\":\"getSettings\",\"context\":\"PI1\"}'']\<rparr>)\<rparr>)"
    unfolding f1 f2 f3 by blast
  then have c: "\<exists>this'.
        TM_onopen (Str (js ''registerPropertyInspector'')) (Str (js ''PI1'')) (tm_open_event ?t)
          = Inr this'
        \<and> tm_websocket this'
            = Some \<lparr>readyState = OPEN,
                    transmitted =
                      [js ''{\"event\":\"registerPropertyInspector\",\"uuid\":\"PI1\"}'',
                       js ''{\"event\":\"getGlobalSettings\",\"context\":\"PI1\"}'',
                       js ''{\"event\":\"getSettings\",\"context\":\"PI1\"}'']\<rparr>"
    by simp
  have rq: "registerEventName ?q = Str (js ''registerPropertyInspector'')"
    "uuid ?q = Str (js ''PI1'')"
    by (simp_all add: PI_connect_def)
  from tB h4 have
    "PI_onopen (open_event ?q)
        = Inr (?q\<lparr>websocket := Some (?ws\<lparr>readyState := OPEN, transmitted := transmitted ?ws @
                   [js ''{\"event\":\"registerPropertyInspector\",\"uuid\":\"PI1\"}'']\<rparr>)\<rparr>,
               Some onConnected)"
    unfolding rq f1 by blast
  then have b: "\<exists>q'. PI_onopen (open_event ?q) = Inr (q', Some onConnected)
            \<and> websocket q'
                = Some \<lparr>readyState = OPEN,
                        transmitted =
                          [js ''{\"event\":\"registerPropertyInspector\",\"uuid\":\"PI1\"}'']\<rparr>"
    by simp
  from h0 a h1 h2 h3 h4 c b show ?thesis
    by blast
qed

end
